theory Spec2Isabelle
  imports Complex_Main "HOL-Library.Word"
begin

unbundle bit_operations_syntax

section \<open>Python values: bytes, exceptions, strings\<close>

text \<open>
  A Python \<open>bytes\<close> object is a list of 8-bit words; reading an element gives a Python
  integer (\<open>uint\<close>), and all arithmetic of the source is done on unbounded integers.
  Exceptions are values of type \<open>error\<close>; \<open>InvalidMessageBytesError\<close> and the
  \<open>UnicodeDecodeError\<close> of \<open>bytes.decode\<close> are subclasses of \<open>ValueError\<close>, and the
  checksum setter raises a plain \<open>ValueError\<close> with its own message, kept apart here as
  \<open>ChecksumMismatch\<close>.
\<close>

type_synonym byte = "8 word"

datatype decode_reason = Bad_pulse_width | Invalid_origin | Odd_byte_count

datatype error =
    ValueError
  | InvalidMessageBytesError
  | ChecksumMismatch int int
  | UnicodeDecodeError
  | IndexError
  | NotImplementedError
  | NameError
  | UnicodeEncodeError
  | StructError
  | AttributeError
  | Exception
  | DecodeError decode_reason

fun is_ValueError :: "error \<Rightarrow> bool" where
  "is_ValueError ValueError = True"
| "is_ValueError InvalidMessageBytesError = True"
| "is_ValueError (ChecksumMismatch r c) = True"
| "is_ValueError UnicodeDecodeError = True"
| "is_ValueError UnicodeEncodeError = True"
| "is_ValueError _ = False"

definition bind :: "error + 'a \<Rightarrow> ('a \<Rightarrow> error + 'b) \<Rightarrow> error + 'b" where
  "bind m f = (case m of Inl e \<Rightarrow> Inl e | Inr x \<Rightarrow> f x)"

text \<open>\<open>bytes([x, ...])\<close>: every element must be in \<open>range(256)\<close>, else \<open>ValueError\<close>.\<close>

definition bytes_of :: "int list \<Rightarrow> error + byte list" where
  "bytes_of xs =
     (if \<forall>x \<in> set xs. 0 \<le> x \<and> x < 256 then Inr (map word_of_int xs) else Inl ValueError)"

text \<open>\<open>xs[i]\<close> for a non-negative index: \<open>IndexError\<close> out of range.\<close>

definition index :: "'a list \<Rightarrow> nat \<Rightarrow> error + 'a" where
  "index xs i = (if i < length xs then Inr (xs ! i) else Inl IndexError)"

text \<open>\<open>int(c, 16)\<close> on a one-character string, and \<open>"{:X}".format(n)\<close> for a nibble.\<close>

definition hex_val :: "char \<Rightarrow> error + int" where
  "hex_val c =
     (let n = (of_char c :: int) in
      if 48 \<le> n \<and> n \<le> 57 then Inr (n - 48)
      else if 65 \<le> n \<and> n \<le> 70 then Inr (n - 55)
      else if 97 \<le> n \<and> n \<le> 102 then Inr (n - 87)
      else Inl ValueError)"

definition hex_digit :: "int \<Rightarrow> char" where
  "hex_digit n = (if n < 10 then char_of (n + 48) else char_of (n + 55))"

definition format_X :: "int \<Rightarrow> string" where
  "format_X n = (if n < 16 then [hex_digit n] else [hex_digit (n div 16), hex_digit (n mod 16)])"

definition format_02X :: "int \<Rightarrow> string" where
  "format_02X n = [hex_digit (n div 16), hex_digit (n mod 16)]"

section \<open>SerialNumberFormat\<close>

datatype sn_format = ASCII_4B5C | HEX_5B6C | Other_format

datatype sn_value = Sn_ascii string bool bool | Sn_hex string

definition unpack_ASCII_4B5C :: "byte list \<Rightarrow> error + (string \<times> bool \<times> bool)" where
  "unpack_ASCII_4B5C buffer =
     (if length buffer < 4 then Inl ValueError
      else
        let b0 = uint (buffer ! 0); b1 = uint (buffer ! 1);
            b2 = uint (buffer ! 2); b3 = uint (buffer ! 3);
            b = [ (drop_bit 0 b2 AND 0x30) OR (b0 AND 0xF),
                  (drop_bit 2 b2 AND 0x30) OR (drop_bit 4 b0),
                  (push_bit 4 b3 AND 0x30) OR (b1 AND 0xF),
                  (push_bit 2 b3 AND 0x30) OR (drop_bit 4 b1),
                  (push_bit 0 b3 AND 0x30) OR (b2 AND 0xF) ];
            sn = map (\<lambda>c. char_of (c + 0x30)) (takeWhile (\<lambda>c. c \<noteq> 0x3F) b);
            hb = (b3 AND 0x80 \<noteq> 0);
            lb = (b3 AND 0x40 \<noteq> 0)
        in Inr (sn, hb, lb))"

definition unpack_HEX_5B6C :: "byte list \<Rightarrow> error + string" where
  "unpack_HEX_5B6C buffer =
     (if length buffer < 5 then Inl ValueError
      else Inr (format_X (uint (buffer ! 0) AND 0xF)
              @ format_X (uint (buffer ! 1) AND 0xF)
              @ format_X (uint (buffer ! 2) AND 0xF)
              @ format_X (uint (buffer ! 3) AND 0xF)
              @ format_X (uint (buffer ! 4) AND 0xF)
              @ format_X (drop_bit 4 (uint (buffer ! 3)))))"

definition unpack :: "sn_format \<Rightarrow> byte list \<Rightarrow> error + sn_value" where
  "unpack fmt buffer =
     (case fmt of
        ASCII_4B5C \<Rightarrow> bind (unpack_ASCII_4B5C buffer) (\<lambda>(sn, hb, lb). Inr (Sn_ascii sn hb lb))
      | HEX_5B6C \<Rightarrow> bind (unpack_HEX_5B6C buffer) (\<lambda>sn. Inr (Sn_hex sn))
      | Other_format \<Rightarrow> Inl ValueError)"

definition pack_ASCII_4B5C :: "string \<Rightarrow> bool \<Rightarrow> bool \<Rightarrow> error + byte list" where
  "pack_ASCII_4B5C s hb lb =
     (let b = map (\<lambda>i. if i < length s then of_char (s ! i) - 0x30 else (0x3F :: int)) [0, 1, 2, 3, 4]
      in bytes_of
           [ push_bit 4 (b ! 1 AND 0x0F) OR (b ! 0 AND 0xF),
             push_bit 4 (b ! 3 AND 0x0F) OR (b ! 2 AND 0xF),
             push_bit 2 (b ! 1 AND 0x30) OR push_bit 0 (b ! 0 AND 0x30) OR (b ! 4 AND 0x0F),
             push_bit 7 (of_bool hb) OR push_bit 6 (of_bool lb) OR push_bit 0 (b ! 4 AND 0x30)
               OR drop_bit 2 (b ! 3 AND 0x30) OR drop_bit 4 (b ! 2 AND 0x30) ])"

definition hex_at :: "string \<Rightarrow> nat \<Rightarrow> error + int" where
  "hex_at s i = bind (index s i) hex_val"

definition pack_HEX_5B6C :: "string \<Rightarrow> error + byte list" where
  "pack_HEX_5B6C s =
     bind (hex_at s 0) (\<lambda>h0. bind (bytes_of [h0]) (\<lambda>x0.
     bind (hex_at s 1) (\<lambda>h1. bind (bytes_of [h1]) (\<lambda>x1.
     bind (hex_at s 2) (\<lambda>h2. bind (bytes_of [h2]) (\<lambda>x2.
     bind (hex_at s 5) (\<lambda>h5. bind (hex_at s 3) (\<lambda>h3. bind (bytes_of [push_bit 4 h5 + h3]) (\<lambda>x3.
     bind (hex_at s 4) (\<lambda>h4. bind (bytes_of [h4]) (\<lambda>x4.
     Inr (x0 @ x1 @ x2 @ x3 @ x4))))))))))))"

definition pack :: "sn_format \<Rightarrow> string \<Rightarrow> bool \<Rightarrow> bool \<Rightarrow> error + byte list" where
  "pack fmt s hb lb =
     (case fmt of
        ASCII_4B5C \<Rightarrow> pack_ASCII_4B5C s hb lb
      | HEX_5B6C \<Rightarrow> pack_HEX_5B6C s
      | Other_format \<Rightarrow> Inl ValueError)"

text \<open>
  The characters \<open>int(c, 16)\<close> accepts among the ASCII ones, and the upper-case form of such
  a character (\<open>a\<close> to \<open>f\<close> become \<open>A\<close> to \<open>F\<close>).
\<close>

definition is_hex :: "char \<Rightarrow> bool" where
  "is_hex c = (let n = (of_char c :: int) in
                (48 \<le> n \<and> n \<le> 57) \<or> (65 \<le> n \<and> n \<le> 70) \<or> (97 \<le> n \<and> n \<le> 102))"

definition upper_hex :: "char \<Rightarrow> char" where
  "upper_hex c = (let n = (of_char c :: int) in
                   if 97 \<le> n \<and> n \<le> 102 then char_of (n - 32) else c)"


text \<open>The four bytes \<open>pack\<close> computes for \<open>ASCII_4B5C\<close>, as functions of the five characters.\<close>

definition packed0 :: "int \<Rightarrow> int \<Rightarrow> int" where
  "packed0 b0 b1 = push_bit 4 (b1 AND 0x0F) OR (b0 AND 0xF)"

definition packed2 :: "int \<Rightarrow> int \<Rightarrow> int \<Rightarrow> int" where
  "packed2 b0 b1 b4 = push_bit 2 (b1 AND 0x30) OR push_bit 0 (b0 AND 0x30) OR (b4 AND 0x0F)"

definition packed3 :: "bool \<Rightarrow> bool \<Rightarrow> int \<Rightarrow> int \<Rightarrow> int \<Rightarrow> int" where
  "packed3 hb lb b2 b3 b4 =
     push_bit 7 (of_bool hb) OR push_bit 6 (of_bool lb) OR push_bit 0 (b4 AND 0x30)
       OR drop_bit 2 (b3 AND 0x30) OR drop_bit 4 (b2 AND 0x30)"

section \<open>The framer: \<open>Transceiver.decode\<close>\<close>

text \<open>
  The demodulated string holds the characters \<open>0\<close>, \<open>1\<close> and \<open>X\<close> only (the callbacks
  append nothing else), so it is a list over a three-valued type. \<open>raw_hex\<close> is the
  string of upper-case hexadecimal digits the source builds from it.
\<close>

datatype pulse_bit = B0 | B1 | BX

datatype device_type =
    BASE_STATION | KEYPAD | KEYCHAIN_REMOTE | PANIC_BUTTON | MOTION_SENSOR | ENTRY_SENSOR
  | GLASSBREAK_SENSOR | CO_DETECTOR | SMOKE_DETECTOR | WATER_SENSOR | FREEZE_SENSOR

text \<open>\<open>DeviceType(v)\<close>: the enumeration member of value \<open>v\<close>, or \<open>ValueError\<close>.\<close>

definition DeviceType :: "int \<Rightarrow> error + device_type" where
  "DeviceType v =
     (if v = 0 then Inr BASE_STATION else if v = 1 then Inr KEYPAD
      else if v = 2 then Inr KEYCHAIN_REMOTE else if v = 3 then Inr PANIC_BUTTON
      else if v = 4 then Inr MOTION_SENSOR else if v = 5 then Inr ENTRY_SENSOR
      else if v = 6 then Inr GLASSBREAK_SENSOR else if v = 7 then Inr CO_DETECTOR
      else if v = 8 then Inr SMOKE_DETECTOR else if v = 9 then Inr WATER_SENSOR
      else if v = 10 then Inr FREEZE_SENSOR else Inl ValueError)"

text \<open>\<open>int(chunk[::-1], 2)\<close>: the chunk read with its first character as the lowest bit.\<close>

fun nibble_value :: "pulse_bit list \<Rightarrow> int" where
  "nibble_value [] = 0"
| "nibble_value (b # bs) = (if b = B1 then 1 else 0) + 2 * nibble_value bs"

fun raw_hex_of :: "pulse_bit list \<Rightarrow> string" where
  "raw_hex_of [] = []"
| "raw_hex_of (b # bs) = hex_digit (nibble_value (take 4 (b # bs))) # raw_hex_of (drop 3 bs)"

text \<open>\<open>s.find(sub)\<close>: the lowest index at which \<open>sub\<close> occurs in \<open>s\<close>, or \<open>-1\<close>.\<close>

definition str_find :: "string \<Rightarrow> string \<Rightarrow> int" where
  "str_find s sub =
     (case filter (\<lambda>i. take (length sub) (drop i s) = sub) [0..<Suc (length s)] of
        [] \<Rightarrow> -1
      | i # _ \<Rightarrow> int i)"

text \<open>\<open>xs[:k]\<close>: a negative \<open>k\<close> counts from the end.\<close>

definition slice_to :: "'a list \<Rightarrow> int \<Rightarrow> 'a list" where
  "slice_to xs k = (if k < 0 then take (nat (int (length xs) + k)) xs else take (nat k) xs)"

text \<open>The loop \<open>swapped += bytes([int(unswapped[i + 1] + unswapped[i], 16)])\<close> over even \<open>i\<close>.\<close>

fun swap_nibbles :: "string \<Rightarrow> error + byte list" where
  "swap_nibbles [] = Inr []"
| "swap_nibbles [a] = Inl IndexError"
| "swap_nibbles (a # b # rest) =
     bind (hex_val b) (\<lambda>hi. bind (hex_val a) (\<lambda>lo. bind (bytes_of [16 * hi + lo]) (\<lambda>x.
     bind (swap_nibbles rest) (\<lambda>r. Inr (x @ r)))))"

definition decode :: "pulse_bit list \<Rightarrow> error + byte list" where
  "decode bits =
     (if count_list bits BX \<noteq> 0 then Inl (DecodeError Bad_pulse_width)
      else
        let raw_hex = raw_hex_of bits in
        case bind (index raw_hex 16) (\<lambda>c. bind (hex_val c) DeviceType) of
          Inl _ \<Rightarrow> Inl (DecodeError Invalid_origin)
        | Inr origin \<Rightarrow>
            let unswapped =
                  (if origin = BASE_STATION then slice_to raw_hex (- 2)
                   else let rd = str_find raw_hex (CHR ''F'' # take 4 raw_hex)
                        in slice_to raw_hex rd)
            in if length unswapped mod 2 = 1 then Inl (DecodeError Odd_byte_count)
               else swap_nibbles unswapped)"

section \<open>The demodulators\<close>

text \<open>
  Ticks are microseconds; \<open>dt\<close> is the source's quotient by 1000, kept exact. The
  module-level variables of \<open>RFUtils\<close> are the fields of \<open>rf_state\<close>; the calls to the GPIO
  driver made at the end of a transmission are not part of the state.
\<close>

definition dt_ms :: "int \<Rightarrow> int \<Rightarrow> rat" where
  "dt_ms t tick = (if t > tick then of_int (push_bit 32 tick - t) / 1000 else of_int (tick - t) / 1000)"

definition classify :: "rat \<Rightarrow> pulse_bit" where
  "classify dt = (if dt > 1.1 then BX else if dt \<ge> 0.9 then B1 else if dt > 0.6 then BX else B0)"

definition last4 :: "'a list \<Rightarrow> 'a list" where
  "last4 xs = drop (length xs - 4) xs"

record rf_state =
  rf_done :: bool
  skip :: bool
  encoded :: "pulse_bit list"
  t :: "int option"
  start_flag0 :: bool
  start_flag1 :: bool
  sync_buffer :: "pulse_bit list"

definition recv_cbf :: "int \<Rightarrow> int \<Rightarrow> int \<Rightarrow> rf_state \<Rightarrow> rf_state" where
  "recv_cbf gpio level tick s =
     (case t s of
        None \<Rightarrow> s\<lparr>t := Some tick\<rparr>
      | Some t0 \<Rightarrow>
          if skip s then s\<lparr>skip := False\<rparr>
          else
            let dt = dt_ms t0 tick in
            if dt < 0.4 then s\<lparr>skip := True\<rparr>
            else if dt > 2.1 then
              (if start_flag1 s then s\<lparr>rf_done := True\<rparr>
               else s\<lparr>t := Some tick, start_flag0 := False\<rparr>)
            else
              let s1 = s\<lparr>t := Some tick\<rparr> in
              if dt > 1.9 then
                (if sync_buffer s1 = [B1, B1, B1, B1] then
                   (if level = 1 then s1\<lparr>start_flag0 := True, start_flag1 := False\<rparr>
                    else if start_flag0 s1 then s1\<lparr>start_flag1 := True, encoded := []\<rparr>
                    else s1)
                 else s1\<lparr>start_flag0 := False\<rparr>)
              else
                let encoded1 = encoded s1 @ [classify dt];
                    sync1 = last4 (sync_buffer s1 @ encoded1)
                in s1\<lparr>encoded := (if start_flag1 s1 then encoded1 else []), sync_buffer := sync1\<rparr>)"

text \<open>The edges of a pulse train, fed to the callback one after the other.\<close>

fun recv_edges :: "(int \<times> int) list \<Rightarrow> rf_state \<Rightarrow> rf_state" where
  "recv_edges [] s = s"
| "recv_edges ((level, tick) # es) s = recv_edges es (recv_cbf 0 level tick s)"

record txr_state =
  rx_done :: bool
  rx_t :: "int option"
  rx_preamble_low :: bool
  rx_preamble_high :: bool
  rx_sync_buffer :: "pulse_bit list"
  rx_buffer :: "pulse_bit list"

definition listen_cbf :: "int \<Rightarrow> int \<Rightarrow> int \<Rightarrow> txr_state \<Rightarrow> txr_state" where
  "listen_cbf gpio level tick s =
     (if rx_done s then s
      else case rx_t s of
        None \<Rightarrow> s\<lparr>rx_t := Some tick\<rparr>
      | Some t0 \<Rightarrow>
          let dt = dt_ms t0 tick;
              s1 = s\<lparr>rx_t := Some tick\<rparr>
          in
          if dt > 2.1 then
            (if rx_preamble_high s1 then s1\<lparr>rx_done := True\<rparr> else s1)
          else if dt > 1.9 then
            (if rx_sync_buffer s1 = [B1, B1, B1, B1] then
               (if level = 1 then s1\<lparr>rx_preamble_low := True, rx_preamble_high := False\<rparr>
                else if rx_preamble_low s1 then s1\<lparr>rx_preamble_high := True, rx_buffer := []\<rparr>
                else s1)
             else s1\<lparr>rx_preamble_low := False\<rparr>)
          else
            let bit = classify dt;
                sync1 = last4 (rx_sync_buffer s1 @ [bit])
            in s1\<lparr>rx_sync_buffer := sync1,
                  rx_buffer := (if rx_preamble_high s1 then rx_buffer s1 @ [bit] else [])\<rparr>)"

subsection \<open>Concrete inputs\<close>

text \<open>
  The pulses of the frame \<open>CC 05 11 "1R9CL" 05 01 06\<close> of an entry sensor, lowest bit of
  each nibble first, followed by one more nibble and no repeat marker.
\<close>

definition example_bits :: "pulse_bit list" where
  "example_bits =
     [B0, B0, B1, B1,  B0, B0, B1, B1,  B1, B0, B1, B0,  B0, B0, B0, B0,
      B1, B0, B0, B0,  B1, B0, B0, B0,  B1, B0, B0, B0,  B1, B1, B0, B0,
      B0, B1, B0, B0,  B1, B0, B1, B0,  B1, B0, B0, B1,  B1, B1, B0, B0,
      B1, B1, B0, B0,  B0, B0, B1, B0,  B0, B0, B1, B1,  B0, B0, B1, B0,
      B1, B0, B1, B0,  B0, B0, B0, B0,  B1, B0, B0, B0,  B0, B0, B0, B0,
      B0, B1, B1, B0,  B0, B0, B0, B0,  B1, B1, B0, B0]"

text \<open>Both demodulators in the middle of the data of a frame, the last edge at 1000 \<open>\<mu>s\<close>.\<close>

definition glitch_state :: rf_state where
  "glitch_state =
     \<lparr>rf_done = False, skip = False, encoded = [B1, B0], t = Some 1000,
      start_flag0 = True, start_flag1 = True, sync_buffer = [B1, B1, B1, B0]\<rparr>"

definition listening :: txr_state where
  "listening =
     \<lparr>rx_done = False, rx_t = Some 1000, rx_preamble_low = True, rx_preamble_high = True,
      rx_sync_buffer = [B1, B1, B1, B1], rx_buffer = [B1, B0]\<rparr>"

section \<open>Devices\<close>

text \<open>
  A method that mutates the device returns the new state; one that raises returns the
  exception together with the state reached when it was raised, since what was done before
  (a hook called, a message sent) stays done. A \<open>threading.Timer\<close> is kept as its
  interval, its target, whether \<open>start()\<close> was called and what \<open>is_alive()\<close> answers.
\<close>

datatype 's outcome = Returned 's | Raised error 's

definition and_then :: "'s outcome \<Rightarrow> ('s \<Rightarrow> 's outcome) \<Rightarrow> 's outcome" where
  "and_then r f = (case r of Returned s \<Rightarrow> f s | Raised e s \<Rightarrow> Raised e s)"


datatype 'm target = Countdown | Stop_siren_target | Send 'm

record 'm timer =
  interval :: int
  target :: "'m target"
  started :: bool
  alive :: bool

subsection \<open>\<open>AbstractDevice\<close>, \<open>Keypad\<close> and the sequence counter\<close>

definition AbstractDevice_inc :: "int \<Rightarrow> int" where
  "AbstractDevice_inc sequence = (sequence + 1) mod 0xF"

definition Keypad_inc :: "int \<Rightarrow> int" where
  "Keypad_inc sequence = (sequence + 4) mod 0xF"

text \<open>
  \<open>Transceiver.send\<close>: a \<open>SensorMessage\<close> is put on the air three times, two seconds
  apart, any other message once. The list is what was transmitted, in order.
\<close>

definition Transceiver_send :: "bool \<Rightarrow> 'm \<Rightarrow> 'm list \<Rightarrow> 'm list" where
  "Transceiver_send is_sensor_message msg air =
     (if is_sensor_message then air @ [msg] @ [msg] @ [msg] else air @ [msg])"

record 'm device =
  sequence :: int
  air :: "'m list"

text \<open>\<open>AbstractDevice._send\<close>: \<open>self.txr.send(msg)\<close>, then \<open>self._inc()\<close>.\<close>

definition AbstractDevice_send :: "bool \<Rightarrow> 'm \<Rightarrow> 'm device \<Rightarrow> 'm device" where
  "AbstractDevice_send is_sensor_message msg d =
     d\<lparr>air := Transceiver_send is_sensor_message msg (air d),
       sequence := AbstractDevice_inc (sequence d)\<rparr>"

definition Keypad_send :: "'m \<Rightarrow> 'm device \<Rightarrow> 'm device" where
  "Keypad_send msg d =
     d\<lparr>air := Transceiver_send False msg (air d), sequence := Keypad_inc (sequence d)\<rparr>"

fun sends :: "('m \<Rightarrow> 'm device \<Rightarrow> 'm device) \<Rightarrow> 'm list \<Rightarrow> 'm device \<Rightarrow> 'm device" where
  "sends f [] d = d"
| "sends f (m # ms) d = sends f ms (f m d)"

subsection \<open>\<open>Sensor\<close>\<close>





subsection \<open>\<open>BaseStation\<close>\<close>

datatype armed_state = OFF | ARMED_AWAY | ARMED_HOME | ARMING_AWAY

datatype hook = Alarm | Alert | Arm_away | Arm_home | Disarm | Door_chime | Start_siren | Stop_siren

datatype response_type = DISARM | INVALID

text \<open>
  Modelled from the spec: the message classes of \<open>simplisafe.messages\<close>, the module
  \<open>devices.py\<close> imports them from, which is not among the sources. The PIN request of a
  keypad carries the keypad's serial number and the PIN; the answer of the base station
  carries the keypad's serial number, the sequence counter, the base station's serial
  number and whether the PIN was accepted; a sensor message carries the sensor's serial
  number and its event.
\<close>

datatype motion_event = HEARTBEAT | MOTION

datatype entry_event = OPEN | CLOSED

datatype bs_input =
    BaseStationKeypadMessage_in string
  | KeypadAlarmPinRequest string string
  | MotionSensorMessage_in string motion_event
  | EntrySensorMessage_in string entry_event

datatype bs_output = BaseStationKeypadAlarmPinResponse string int string response_type

fun msg_sn :: "bs_input \<Rightarrow> string" where
  "msg_sn (BaseStationKeypadMessage_in sn) = sn"
| "msg_sn (KeypadAlarmPinRequest sn pin) = sn"
| "msg_sn (MotionSensorMessage_in sn ev) = sn"
| "msg_sn (EntrySensorMessage_in sn ev) = sn"

text \<open>
  An entry of \<open>_components\<close> as \<open>add_component\<close> stores it: the keys are \<open>name\<close>,
  \<open>type\<close>, \<open>setting\<close> and \<open>instat_trigger\<close>. Settings are \<open>IntEnum\<close> members and
  compare as integers.
\<close>

record component =
  c_name :: string
  c_type :: device_type
  c_setting :: "int option"
  instat_trigger :: "bool option"

definition ALARM_HOME_AND_AWAY :: int where "ALARM_HOME_AND_AWAY = 1"
definition ALARM_AWAY_ONLY :: int where "ALARM_AWAY_ONLY = 2"
definition NO_ALARM_ALERT_ONLY :: int where "NO_ALARM_ALERT_ONLY = 64"

text \<open>
  The attributes of a \<open>BaseStation\<close> the methods below read or write. \<open>__init__\<close> sets
  \<open>_siren_timer\<close> to \<open>None\<close> and never assigns \<open>_time_left_timer\<close>: for the latter,
  \<open>None\<close> here means that the attribute does not exist yet, and reading it raises
  \<open>AttributeError\<close>. \<open>calls\<close> lists the overridable hooks called so far and \<open>sent\<close> the
  messages handed to the transceiver.
\<close>

record bs_state =
  bs_sn :: string
  bs_sequence :: int
  master_pin :: string
  duress_pin :: "string option"
  pins :: "(string \<times> string) list"
  entry_delay_away :: int
  entry_delay_home :: int
  exit_delay :: int
  siren_duration :: int
  components :: "(string \<times> component) list"
  armed :: armed_state
  time_left :: int
  siren_timer :: "bs_output timer option"
  time_left_timer :: "bs_output timer option"
  calls :: "hook list"
  sent :: "bs_output list"

definition is_armed_away :: "bs_state \<Rightarrow> bool" where
  "is_armed_away s = (armed s = ARMED_AWAY)"

definition is_armed_home :: "bs_state \<Rightarrow> bool" where
  "is_armed_home s = (armed s = ARMED_HOME)"

definition is_armed :: "bs_state \<Rightarrow> bool" where
  "is_armed s = (is_armed_away s \<or> is_armed_home s)"

definition is_arming :: "bs_state \<Rightarrow> bool" where
  "is_arming s = (armed s = ARMING_AWAY)"

definition call :: "hook \<Rightarrow> bs_state \<Rightarrow> bs_state" where
  "call h s = s\<lparr>calls := calls s @ [h]\<rparr>"

definition BaseStation_send :: "bs_output \<Rightarrow> bs_state \<Rightarrow> bs_state outcome" where
  "BaseStation_send msg s =
     Returned (s\<lparr>sent := sent s @ [msg], bs_sequence := AbstractDevice_inc (bs_sequence s)\<rparr>)"

definition cancel_countdown :: "bs_state \<Rightarrow> bs_state outcome" where
  "cancel_countdown s =
     (case time_left_timer s of
        None \<Rightarrow> Raised AttributeError s
      | Some tm \<Rightarrow>
          Returned (s\<lparr>time_left_timer := Some (if alive tm then tm\<lparr>alive := False\<rparr> else tm),
                     time_left := 0\<rparr>))"

text \<open>
  \<open>_alarm\<close>: the branch for an audible alarm reads \<open>self._sirent_timer\<close>, an attribute
  nothing assigns, so it raises \<open>AttributeError\<close>: at once when \<open>_siren_timer\<close> is a
  timer, and after \<open>start_siren()\<close> and the assignment of \<open>_siren_timer\<close> when it is
  \<open>None\<close>.
\<close>

definition alarm :: "bool \<Rightarrow> bs_state \<Rightarrow> bs_state outcome" where
  "alarm silent s =
     and_then (cancel_countdown s) (\<lambda>s1.
       if \<not> silent then
         (case siren_timer s1 of
            Some tm \<Rightarrow> Raised AttributeError s1
          | None \<Rightarrow>
              Raised AttributeError
                ((call Start_siren s1)\<lparr>siren_timer :=
                   Some \<lparr>interval = 60 * siren_duration s1, target = Stop_siren_target,
                         started = False, alive = False\<rparr>\<rparr>))
       else Returned (call Alarm s1))"

definition new_countdown_timer :: "bs_output timer" where
  "new_countdown_timer = \<lparr>interval = 1, target = Countdown, started = True, alive = True\<rparr>"

definition countdown :: "bs_state \<Rightarrow> bs_state outcome" where
  "countdown s =
     (if \<not> is_armed s \<and> \<not> is_arming s then cancel_countdown s
      else if is_armed s then
        (if time_left s = 0 then alarm False s
         else Returned (s\<lparr>time_left := time_left s - 1, time_left_timer := Some new_countdown_timer\<rparr>))
      else if is_arming s then
        (if time_left s = 0 then Returned (call Arm_away (s\<lparr>armed := ARMED_AWAY\<rparr>))
         else Returned (s\<lparr>time_left := time_left s - 1, time_left_timer := Some new_countdown_timer\<rparr>))
      else Returned s)"

definition disarm :: "bs_state \<Rightarrow> bs_state outcome" where
  "disarm s =
     (let s1 = s\<lparr>armed := OFF\<rparr>;
          s2 = (case siren_timer s1 of
                  Some tm \<Rightarrow> if alive tm then s1\<lparr>siren_timer := Some (tm\<lparr>alive := False\<rparr>)\<rparr> else s1
                | None \<Rightarrow> s1)
      in Returned (call Disarm (call Stop_siren s2)))"

definition trip :: "(bs_state \<Rightarrow> bs_state outcome) \<Rightarrow> bool \<Rightarrow> bs_state \<Rightarrow> bs_state outcome" where
  "trip trip_function instant_trip s =
     (if instant_trip then trip_function s
      else if time_left s = 0 then
        countdown
          (if is_armed_away s then s\<lparr>time_left := entry_delay_away s\<rparr>
           else if is_armed_away s then s\<lparr>time_left := entry_delay_home s\<rparr>
           else s)
      else Returned s)"

text \<open>
  \<open>c.get('instant_trip')\<close>: no entry of \<open>_components\<close> has this key, so the value is
  \<open>None\<close>, which \<open>_trip\<close> takes as false.
\<close>

definition get_instant_trip :: "component \<Rightarrow> bool" where
  "get_instant_trip c = False"

text \<open>
  The trip of a motion or entry sensor. \<open>self._alert\<close> is not an attribute of the class
  (the hook is \<open>alert\<close>), so the alert-only branch raises before \<open>_trip\<close> is entered.
\<close>

definition sensor_trip :: "component \<Rightarrow> bs_state \<Rightarrow> bs_state outcome" where
  "sensor_trip c s =
     (if (c_setting c = Some ALARM_HOME_AND_AWAY \<and> is_armed s)
         \<or> (c_setting c = Some ALARM_AWAY_ONLY \<and> is_armed_away s)
      then trip (alarm False) (get_instant_trip c) s
      else if c_setting c = Some NO_ALARM_ALERT_ONLY \<and> is_armed s then Raised AttributeError s
      else Returned s)"

definition process_msg :: "bs_input \<Rightarrow> bs_state \<Rightarrow> bs_state outcome" where
  "process_msg msg s =
     (case msg of
        BaseStationKeypadMessage_in sn \<Rightarrow> Returned s
      | _ \<Rightarrow>
        (case map_of (components s) (msg_sn msg) of
           None \<Rightarrow> Returned s
         | Some c \<Rightarrow>
           (case msg of
              KeypadAlarmPinRequest sn pin \<Rightarrow>
                if Some pin = duress_pin s \<or> pin = master_pin s \<or> (\<exists>d \<in> set (pins s). snd d = pin)
                then
                  and_then
                    (BaseStation_send
                       (BaseStationKeypadAlarmPinResponse sn (bs_sequence s) (bs_sn s) DISARM) s)
                    (\<lambda>s1. and_then (disarm s1)
                    (\<lambda>s2. if Some pin = duress_pin s2 then alarm True s2 else Returned s2))
                else
                  BaseStation_send
                    (BaseStationKeypadAlarmPinResponse sn (bs_sequence s) (bs_sn s) INVALID) s
            | MotionSensorMessage_in sn ev \<Rightarrow>
                if ev = MOTION then sensor_trip c s else Returned s
            | EntrySensorMessage_in sn ev \<Rightarrow>
                if ev = OPEN then sensor_trip c s else Returned s
            | BaseStationKeypadMessage_in sn \<Rightarrow> Returned s)))"

subsection \<open>The constructor\<close>

text \<open>
  \<open>BaseStation.__init__\<close>, for a serial number, a master PIN and a duress PIN that
  \<open>Validator.pin\<close> lets through, no additional PINs, the default settings and components
  in the form \<open>add_component\<close> stores them. It
  assigns the serial number, the PINs, the settings, the components, \<open>_error_flags\<close>,
  \<open>_armed\<close>, \<open>_ess\<close>, \<open>_time_left\<close> and \<open>_siren_timer\<close>, runs \<open>_heartbeat_timer()\<close>
  and then calls \<open>self._test_mode_timer()\<close>. No class defines that method, so the call
  raises \<open>AttributeError\<close>: \<open>super().__init__\<close> is not reached, \<open>txr\<close> is not assigned,
  the receiving thread is not started and nothing is sent. The state of the outcome holds
  the attributes assigned up to the call; \<open>_time_left_timer\<close> is not among them.
\<close>

definition BaseStation_init ::
  "string \<Rightarrow> string \<Rightarrow> string option \<Rightarrow> (string \<times> component) list \<Rightarrow> bs_state outcome" where
  "BaseStation_init sn master duress comps =
     Raised AttributeError
       \<lparr>bs_sn = sn, bs_sequence = 0, master_pin = master, duress_pin = duress, pins = [],
        entry_delay_away = 30, entry_delay_home = 1, exit_delay = 45, siren_duration = 5,
        components = comps, armed = OFF, time_left = 0, siren_timer = None,
        time_left_timer = None, calls = [], sent = []\<rparr>"

subsection \<open>An assignment of the attributes\<close>


section \<open>The message model of \<open>SimpliSafe.py\<close>\<close>

subsection \<open>Enumerations\<close>

text \<open>
  The enumerations are \<open>IntEnum\<close>s: a member is its integer value, and calling the class on
  an integer that is no member raises \<open>ValueError\<close>.
\<close>

definition enum :: "int list \<Rightarrow> int \<Rightarrow> error + int" where
  "enum members v = (if v \<in> set members then Inr v else Inl ValueError)"

definition OriginType :: "int \<Rightarrow> error + int" where
  "OriginType = enum [0x0, 0x1, 0x2, 0x4, 0x5]"

definition EventType :: "int \<Rightarrow> error + int" where
  "EventType =
     enum [0x11, 0x13, 0x14, 0x27, 0x28, 0x31, 0x32, 0x35, 0x36, 0x37, 0x44, 0x45, 0x47, 0x48,
           0x49, 0x4A, 0x4B, 0x4C, 0x4D, 0x4E, 0x4F, 0x50, 0x51, 0x53, 0x54, 0x56, 0x57, 0x5C,
           0x5E, 0x61, 0x62, 0x63, 0x64, 0x66, 0x67, 0x69, 0x6A, 0x6B, 0x6D, 0x6E, 0x6E, 0x71,
           0x72, 0x73, 0x74, 0x75, 0x76, 0x77, 0x78, 0x79, 0x7A]"

definition MessageType :: "int \<Rightarrow> error + int" where
  "MessageType = enum [0x01, 0x05]"

definition InfoType :: "int \<Rightarrow> error + int" where
  "InfoType = enum [0x2, 0x6]"

definition ArmedStatusType :: "int \<Rightarrow> error + int" where
  "ArmedStatusType = enum [0x0, 0x1, 0x2, 0x3, 0x4]"

definition EntrySensorStatusType :: "int \<Rightarrow> error + int" where
  "EntrySensorStatusType = enum [0xF0, 0xF1]"

definition ComponentType :: "int \<Rightarrow> error + int" where
  "ComponentType = enum [0x00, 0x01, 0x02, 0x03, 0x04, 0x05, 0x06, 0x07, 0x08, 0x09]"

definition DisarmPin_ResponseType :: "int \<Rightarrow> error + int" where
  "DisarmPin_ResponseType = enum [0x4E, 0x01]"

definition MenuPin_ResponseType :: "int \<Rightarrow> error + int" where
  "MenuPin_ResponseType = enum [0x00, 0x01]"

definition AddComponentSerial_ResponseType :: "int \<Rightarrow> error + int" where
  "AddComponentSerial_ResponseType = enum [0x00, 0x01]"

definition UpdateType :: "int \<Rightarrow> error + int" where
  "UpdateType = enum [0x00, 0x01]"

definition RESPONSE :: int where "RESPONSE = 0x01"
definition UPDATE :: int where "UPDATE = 0x05"
definition STATUS :: int where "STATUS = 0x2"
definition MENU :: int where "MENU = 0x6"

subsection \<open>Leaf classes\<close>

text \<open>
  Classes that differ in class attributes only (the event type, the message type) are one
  constructor of \<open>message\<close> with the class as its first argument. Each list below is in
  the order of the class definitions, which is the order of \<open>__subclasses__()\<close>.
\<close>

datatype pin_class = KeypadDisarmPinRequest | KeypadNewPinRequest | KeypadMenuPinRequest

datatype simple_class =
    KeypadExtendedStatusRequest | KeypadTestModeOnRequest | KeypadTestModeOffRequest
  | KeypadRemoveComponentMenuRequest | KeypadHomeRequest | KeypadPanicRequest
  | KeypadAwayRequest | KeypadOffRequest | KeypadEnterMenuRequest | KeypadExitMenuRequest
  | KeypadChangePinMenuRequest | KeypadChangePinConfirmMenuRequest
  | KeypadAddComponentMenuRequest | KeypadRemoveComponentSelectMenuRequest
  | KeypadAddComponentLastTypeMenuRequest

datatype modify_class =
    KeypadRemoveComponentConfirmMenuRequest | KeypadAddEntrySensorMenuRequest
  | KeypadAddMotionSensorMenuRequest | KeypadAddPanicButtonMenuRequest
  | KeypadAddKeychainRemoteMenuRequest | KeypadAddGlassbreakSensorMenuRequest
  | KeypadAddSmokeDetectorMenuRequest | KeypadAddCoDetectorMenuRequest
  | KeypadAddFreezeSensorMenuRequest | KeypadAddWaterSensorMenuRequest

datatype extended_status_class =
    BaseStationKeypadExtendedStatusResponse | BaseStationKeypadExtendedStatusUpdate
  | BaseStationKeypadExtendedStatusRemoteUpdate

datatype disarm_pin_response_class =
    BaseStationKeypadInvalidDisarmPinResponse | BaseStationKeypadValidDisarmPinResponse

datatype menu_pin_response_class =
    BaseStationKeypadInvalidMenuPinResponse | BaseStationKeypadValidMenuPinResponse

datatype constant_status_class =
    BaseStationKeypadHomeResponse | BaseStationKeypadAwayResponse
  | BaseStationKeypadOffRemoteUpdate

datatype constant_menu_class =
    BaseStationKeypadEnterMenuResponse | BaseStationKeypadNewPrefixResponse
  | BaseStationKeypadRemoveComponentSelectResponse
  | BaseStationKeypadRemoveComponentConfirmMenuResponse

datatype add_serial_class =
    BaseStationKeypadAddEntrySensorMenuResponse | BaseStationKeypadAddMotionSensorMenuResponse
  | BaseStationKeypadAddPanicButtonMenuResponse
  | BaseStationKeypadAddKeychainRemoteMenuResponse
  | BaseStationKeypadAddGlassbreakSensorMenuResponse
  | BaseStationKeypadAddSmokeDetectorMenuResponse | BaseStationKeypadAddCoDetectorMenuResponse
  | BaseStationKeypadAddFreezeSensorMenuResponse | BaseStationKeypadAddWaterSensorMenuResponse

datatype simple_status_class =
    BaseStationKeypadTestModeOnResponse | BaseStationKeypadOffResponse
  | BaseStationKeypadTestModeOffResponse | BaseStationKeypadClearSensorError1Update
  | BaseStationKeypadClearSensorError2Update | BaseStationKeypadClearSensorError3Update
  | BaseStationKeypadClearSensorError4Update

datatype simple_menu_class =
    BaseStationKeypadExitMenuResponse | BaseStationKeypadChangePinMenuResponse
  | BaseStationKeypadChangePinConfirmMenuResponse | BaseStationKeypadChangePrefixMenuResponse
  | BaseStationKeypadAddComponentMenuResponse | BaseStationKeypadAddComponentTypeMenuResponse

datatype scroll_class =
    BaseStationKeypadRemoveEntrySensorScrollMenuResponse
  | BaseStationKeypadRemoveMotionSensorScrollMenuResponse
  | BaseStationKeypadRemovePanicButtonScrollMenuResponse
  | BaseStationKeypadRemoveKeypadScrollMenuResponse
  | BaseStationKeypadRemoveKeychainRemoteScrollMenuResponse
  | BaseStationKeypadRemoveGlassbreakSensorScrollMenuResponse
  | BaseStationKeypadRemoveSmokeDetectorScrollMenuResponse
  | BaseStationKeypadRemoveCoDetectorScrollMenuResponse
  | BaseStationKeypadRemoveFreezeSensorScrollMenuResponse
  | BaseStationKeypadRemoveWaterSensorScrollMenuResponse

datatype sensor_class = KeychainRemoteMessage | MotionSensorMessage | EntrySensorMessage

definition pin_classes :: "pin_class list" where
  "pin_classes = [KeypadDisarmPinRequest, KeypadNewPinRequest, KeypadMenuPinRequest]"

definition simple_classes :: "simple_class list" where
  "simple_classes =
     [KeypadExtendedStatusRequest, KeypadTestModeOnRequest, KeypadTestModeOffRequest,
      KeypadRemoveComponentMenuRequest, KeypadHomeRequest, KeypadPanicRequest,
      KeypadAwayRequest, KeypadOffRequest, KeypadEnterMenuRequest, KeypadExitMenuRequest,
      KeypadChangePinMenuRequest, KeypadChangePinConfirmMenuRequest,
      KeypadAddComponentMenuRequest, KeypadRemoveComponentSelectMenuRequest,
      KeypadAddComponentLastTypeMenuRequest]"

definition modify_classes :: "modify_class list" where
  "modify_classes =
     [KeypadRemoveComponentConfirmMenuRequest, KeypadAddEntrySensorMenuRequest,
      KeypadAddMotionSensorMenuRequest, KeypadAddPanicButtonMenuRequest,
      KeypadAddKeychainRemoteMenuRequest, KeypadAddGlassbreakSensorMenuRequest,
      KeypadAddSmokeDetectorMenuRequest, KeypadAddCoDetectorMenuRequest,
      KeypadAddFreezeSensorMenuRequest, KeypadAddWaterSensorMenuRequest]"

definition extended_status_classes :: "extended_status_class list" where
  "extended_status_classes =
     [BaseStationKeypadExtendedStatusResponse, BaseStationKeypadExtendedStatusUpdate,
      BaseStationKeypadExtendedStatusRemoteUpdate]"

definition disarm_pin_response_classes :: "disarm_pin_response_class list" where
  "disarm_pin_response_classes =
     [BaseStationKeypadInvalidDisarmPinResponse, BaseStationKeypadValidDisarmPinResponse]"

definition menu_pin_response_classes :: "menu_pin_response_class list" where
  "menu_pin_response_classes =
     [BaseStationKeypadInvalidMenuPinResponse, BaseStationKeypadValidMenuPinResponse]"

definition add_serial_classes :: "add_serial_class list" where
  "add_serial_classes =
     [BaseStationKeypadAddEntrySensorMenuResponse, BaseStationKeypadAddMotionSensorMenuResponse,
      BaseStationKeypadAddPanicButtonMenuResponse,
      BaseStationKeypadAddKeychainRemoteMenuResponse,
      BaseStationKeypadAddGlassbreakSensorMenuResponse,
      BaseStationKeypadAddSmokeDetectorMenuResponse, BaseStationKeypadAddCoDetectorMenuResponse,
      BaseStationKeypadAddFreezeSensorMenuResponse, BaseStationKeypadAddWaterSensorMenuResponse]"

definition simple_status_classes :: "simple_status_class list" where
  "simple_status_classes =
     [BaseStationKeypadTestModeOnResponse, BaseStationKeypadOffResponse,
      BaseStationKeypadTestModeOffResponse, BaseStationKeypadClearSensorError1Update,
      BaseStationKeypadClearSensorError2Update, BaseStationKeypadClearSensorError3Update,
      BaseStationKeypadClearSensorError4Update]"

definition simple_menu_classes :: "simple_menu_class list" where
  "simple_menu_classes =
     [BaseStationKeypadExitMenuResponse, BaseStationKeypadChangePinMenuResponse,
      BaseStationKeypadChangePinConfirmMenuResponse, BaseStationKeypadChangePrefixMenuResponse,
      BaseStationKeypadAddComponentMenuResponse, BaseStationKeypadAddComponentTypeMenuResponse]"

definition scroll_classes :: "scroll_class list" where
  "scroll_classes =
     [BaseStationKeypadRemoveEntrySensorScrollMenuResponse,
      BaseStationKeypadRemoveMotionSensorScrollMenuResponse,
      BaseStationKeypadRemovePanicButtonScrollMenuResponse,
      BaseStationKeypadRemoveKeypadScrollMenuResponse,
      BaseStationKeypadRemoveKeychainRemoteScrollMenuResponse,
      BaseStationKeypadRemoveGlassbreakSensorScrollMenuResponse,
      BaseStationKeypadRemoveSmokeDetectorScrollMenuResponse,
      BaseStationKeypadRemoveCoDetectorScrollMenuResponse,
      BaseStationKeypadRemoveFreezeSensorScrollMenuResponse,
      BaseStationKeypadRemoveWaterSensorScrollMenuResponse]"

definition sensor_classes :: "sensor_class list" where
  "sensor_classes = [KeychainRemoteMessage, MotionSensorMessage, EntrySensorMessage]"

text \<open>The class attribute \<open>event_type\<close> of each class.\<close>

fun pin_event_type :: "pin_class \<Rightarrow> int" where
  "pin_event_type KeypadDisarmPinRequest = 0x51"
| "pin_event_type KeypadNewPinRequest = 0x62"
| "pin_event_type KeypadMenuPinRequest = 0x66"

fun simple_event_type :: "simple_class \<Rightarrow> int" where
  "simple_event_type KeypadExtendedStatusRequest = 0x11"
| "simple_event_type KeypadTestModeOnRequest = 0x13"
| "simple_event_type KeypadTestModeOffRequest = 0x5E"
| "simple_event_type KeypadRemoveComponentMenuRequest = 0x44"
| "simple_event_type KeypadHomeRequest = 0x53"
| "simple_event_type KeypadPanicRequest = 0x54"
| "simple_event_type KeypadAwayRequest = 0x56"
| "simple_event_type KeypadOffRequest = 0x5C"
| "simple_event_type KeypadEnterMenuRequest = 0x61"
| "simple_event_type KeypadExitMenuRequest = 0x64"
| "simple_event_type KeypadChangePinMenuRequest = 0x71"
| "simple_event_type KeypadChangePinConfirmMenuRequest = 0x72"
| "simple_event_type KeypadAddComponentMenuRequest = 0x74"
| "simple_event_type KeypadRemoveComponentSelectMenuRequest = 0x76"
| "simple_event_type KeypadAddComponentLastTypeMenuRequest = 0x77"

fun modify_event_type :: "modify_class \<Rightarrow> int" where
  "modify_event_type KeypadRemoveComponentConfirmMenuRequest = 0x67"
| "modify_event_type KeypadAddEntrySensorMenuRequest = 0x69"
| "modify_event_type KeypadAddMotionSensorMenuRequest = 0x6A"
| "modify_event_type KeypadAddPanicButtonMenuRequest = 0x6B"
| "modify_event_type KeypadAddKeychainRemoteMenuRequest = 0x6D"
| "modify_event_type KeypadAddGlassbreakSensorMenuRequest = 0x6E"
| "modify_event_type KeypadAddSmokeDetectorMenuRequest = 0x6E"
| "modify_event_type KeypadAddCoDetectorMenuRequest = 0x78"
| "modify_event_type KeypadAddFreezeSensorMenuRequest = 0x79"
| "modify_event_type KeypadAddWaterSensorMenuRequest = 0x7A"

fun extended_status_msg_type :: "extended_status_class \<Rightarrow> int" where
  "extended_status_msg_type BaseStationKeypadExtendedStatusResponse = RESPONSE"
| "extended_status_msg_type BaseStationKeypadExtendedStatusUpdate = UPDATE"
| "extended_status_msg_type BaseStationKeypadExtendedStatusRemoteUpdate = UPDATE"

fun extended_status_event_type :: "extended_status_class \<Rightarrow> int" where
  "extended_status_event_type BaseStationKeypadExtendedStatusResponse = 0x11"
| "extended_status_event_type BaseStationKeypadExtendedStatusUpdate = 0x28"
| "extended_status_event_type BaseStationKeypadExtendedStatusRemoteUpdate = 0x14"

fun disarm_pin_response_type :: "disarm_pin_response_class \<Rightarrow> int" where
  "disarm_pin_response_type BaseStationKeypadInvalidDisarmPinResponse = 0x01"
| "disarm_pin_response_type BaseStationKeypadValidDisarmPinResponse = 0x4E"

fun menu_pin_response_type :: "menu_pin_response_class \<Rightarrow> int" where
  "menu_pin_response_type BaseStationKeypadInvalidMenuPinResponse = 0x01"
| "menu_pin_response_type BaseStationKeypadValidMenuPinResponse = 0x00"

fun constant_status_msg_type :: "constant_status_class \<Rightarrow> int" where
  "constant_status_msg_type BaseStationKeypadHomeResponse = RESPONSE"
| "constant_status_msg_type BaseStationKeypadAwayResponse = RESPONSE"
| "constant_status_msg_type BaseStationKeypadOffRemoteUpdate = UPDATE"

fun constant_status_event_type :: "constant_status_class \<Rightarrow> int" where
  "constant_status_event_type BaseStationKeypadHomeResponse = 0x53"
| "constant_status_event_type BaseStationKeypadAwayResponse = 0x56"
| "constant_status_event_type BaseStationKeypadOffRemoteUpdate = 0x57"

fun constant_status_payload_body :: "constant_status_class \<Rightarrow> int" where
  "constant_status_payload_body BaseStationKeypadHomeResponse = 0x00"
| "constant_status_payload_body BaseStationKeypadAwayResponse = 0x78"
| "constant_status_payload_body BaseStationKeypadOffRemoteUpdate = 0xFF"

fun constant_menu_event_type :: "constant_menu_class \<Rightarrow> int" where
  "constant_menu_event_type BaseStationKeypadEnterMenuResponse = 0x61"
| "constant_menu_event_type BaseStationKeypadNewPrefixResponse = 0x63"
| "constant_menu_event_type BaseStationKeypadRemoveComponentSelectResponse = 0x76"
| "constant_menu_event_type BaseStationKeypadRemoveComponentConfirmMenuResponse = 0x67"

fun constant_menu_payload_body :: "constant_menu_class \<Rightarrow> int" where
  "constant_menu_payload_body BaseStationKeypadEnterMenuResponse = 0x01"
| "constant_menu_payload_body BaseStationKeypadNewPrefixResponse = 0x00"
| "constant_menu_payload_body BaseStationKeypadRemoveComponentSelectResponse = 0x00"
| "constant_menu_payload_body BaseStationKeypadRemoveComponentConfirmMenuResponse = 0x00"

fun add_serial_event_type :: "add_serial_class \<Rightarrow> int" where
  "add_serial_event_type BaseStationKeypadAddEntrySensorMenuResponse = 0x69"
| "add_serial_event_type BaseStationKeypadAddMotionSensorMenuResponse = 0x6A"
| "add_serial_event_type BaseStationKeypadAddPanicButtonMenuResponse = 0x6B"
| "add_serial_event_type BaseStationKeypadAddKeychainRemoteMenuResponse = 0x6D"
| "add_serial_event_type BaseStationKeypadAddGlassbreakSensorMenuResponse = 0x6E"
| "add_serial_event_type BaseStationKeypadAddSmokeDetectorMenuResponse = 0x6E"
| "add_serial_event_type BaseStationKeypadAddCoDetectorMenuResponse = 0x78"
| "add_serial_event_type BaseStationKeypadAddFreezeSensorMenuResponse = 0x79"
| "add_serial_event_type BaseStationKeypadAddWaterSensorMenuResponse = 0x7A"

fun simple_status_msg_type :: "simple_status_class \<Rightarrow> int" where
  "simple_status_msg_type BaseStationKeypadTestModeOnResponse = RESPONSE"
| "simple_status_msg_type BaseStationKeypadOffResponse = RESPONSE"
| "simple_status_msg_type BaseStationKeypadTestModeOffResponse = RESPONSE"
| "simple_status_msg_type BaseStationKeypadClearSensorError1Update = UPDATE"
| "simple_status_msg_type BaseStationKeypadClearSensorError2Update = UPDATE"
| "simple_status_msg_type BaseStationKeypadClearSensorError3Update = UPDATE"
| "simple_status_msg_type BaseStationKeypadClearSensorError4Update = UPDATE"

fun simple_status_event_type :: "simple_status_class \<Rightarrow> int" where
  "simple_status_event_type BaseStationKeypadTestModeOnResponse = 0x13"
| "simple_status_event_type BaseStationKeypadOffResponse = 0x5C"
| "simple_status_event_type BaseStationKeypadTestModeOffResponse = 0x5E"
| "simple_status_event_type BaseStationKeypadClearSensorError1Update = 0x32"
| "simple_status_event_type BaseStationKeypadClearSensorError2Update = 0x35"
| "simple_status_event_type BaseStationKeypadClearSensorError3Update = 0x36"
| "simple_status_event_type BaseStationKeypadClearSensorError4Update = 0x37"

fun simple_menu_event_type :: "simple_menu_class \<Rightarrow> int" where
  "simple_menu_event_type BaseStationKeypadExitMenuResponse = 0x64"
| "simple_menu_event_type BaseStationKeypadChangePinMenuResponse = 0x71"
| "simple_menu_event_type BaseStationKeypadChangePinConfirmMenuResponse = 0x72"
| "simple_menu_event_type BaseStationKeypadChangePrefixMenuResponse = 0x73"
| "simple_menu_event_type BaseStationKeypadAddComponentMenuResponse = 0x74"
| "simple_menu_event_type BaseStationKeypadAddComponentTypeMenuResponse = 0x75"

fun scroll_event_type :: "scroll_class \<Rightarrow> int" where
  "scroll_event_type BaseStationKeypadRemoveEntrySensorScrollMenuResponse = 0x47"
| "scroll_event_type BaseStationKeypadRemoveMotionSensorScrollMenuResponse = 0x48"
| "scroll_event_type BaseStationKeypadRemovePanicButtonScrollMenuResponse = 0x49"
| "scroll_event_type BaseStationKeypadRemoveKeypadScrollMenuResponse = 0x4A"
| "scroll_event_type BaseStationKeypadRemoveKeychainRemoteScrollMenuResponse = 0x4B"
| "scroll_event_type BaseStationKeypadRemoveGlassbreakSensorScrollMenuResponse = 0x4C"
| "scroll_event_type BaseStationKeypadRemoveSmokeDetectorScrollMenuResponse = 0x4D"
| "scroll_event_type BaseStationKeypadRemoveCoDetectorScrollMenuResponse = 0x4E"
| "scroll_event_type BaseStationKeypadRemoveFreezeSensorScrollMenuResponse = 0x4F"
| "scroll_event_type BaseStationKeypadRemoveWaterSensorScrollMenuResponse = 0x50"

fun sensor_origin_type :: "sensor_class \<Rightarrow> int" where
  "sensor_origin_type KeychainRemoteMessage = 0x2"
| "sensor_origin_type MotionSensorMessage = 0x4"
| "sensor_origin_type EntrySensorMessage = 0x5"

fun sensor_EventType :: "sensor_class \<Rightarrow> int \<Rightarrow> error + int" where
  "sensor_EventType KeychainRemoteMessage = enum [0x01, 0x02, 0x03]"
| "sensor_EventType MotionSensorMessage = enum [0x00, 0x02]"
| "sensor_EventType EntrySensorMessage = enum [0x01, 0x02]"

definition sensor_error_event_types :: "int list" where
  "sensor_error_event_types = [0x32, 0x35, 0x36, 0x37]"

subsection \<open>Messages and their encoding\<close>

text \<open>
  A value of \<open>message\<close> is an instance of \<open>Message\<close> itself (what \<open>Message.factory\<close>
  returns when no subclass takes the frame) or of a leaf class, with the arguments of its
  constructor. The sequence number, the flags and the other numeric fields are Python
  integers.
\<close>

datatype message =
    Message int string "byte list" "byte list"
  | KeypadRemoveComponentScrollMenuRequest string int int
  | KeypadPinRequest pin_class string int string
  | KeypadSimpleRequest simple_class string int
  | KeypadPrefixRequest string int "int option"
  | KeypadModifyComponentMenuRequest modify_class string int string
  | KeypadAddComponentTypeMenuRequest string int int
  | BaseStationKeypadExtendedStatus extended_status_class string int string int int int int
  | BaseStationKeypadStatusUpdate string int string int
  | BaseStationKeypadDisarmPinResponse disarm_pin_response_class string int string
  | BaseStationKeypadMenuPinResponse menu_pin_response_class string int
  | BaseStationKeypadConstantStatus constant_status_class string int string
  | BaseStationKeypadConstantMenu constant_menu_class string int
  | BaseStationKeypadAddComponentSerialMenuResponse add_serial_class string int int
  | BaseStationKeypadSimpleStatus simple_status_class string int string
  | BaseStationKeypadSimpleMenu simple_menu_class string int
  | BaseStationKeypadRemoveComponentScrollMenuResponse scroll_class string int string bool bool
  | BaseStationKeypadEntrySensorUpdate string int string int
  | BaseStationKeypadSensorErrorUpdate string int string int string
  | SensorMessage sensor_class string int int

fun plc :: "message \<Rightarrow> int" where
  "plc (Message p s pl ft) = p"
| "plc (KeypadRemoveComponentScrollMenuRequest s seq n) = 0x33"
| "plc (KeypadPinRequest c s seq pin) = 0x66"
| "plc (KeypadSimpleRequest c s seq) = 0x22"
| "plc (KeypadPrefixRequest s seq pfx) = 0x66"
| "plc (KeypadModifyComponentMenuRequest c s seq c_sn) = 0x66"
| "plc (KeypadAddComponentTypeMenuRequest s seq ct) = 0x33"
| "plc (BaseStationKeypadExtendedStatus c s seq bsn flags arm ess tleft) = 0x66"
| "plc (BaseStationKeypadStatusUpdate s seq bsn flags) = 0x33"
| "plc (BaseStationKeypadDisarmPinResponse c s seq bsn) = 0x33"
| "plc (BaseStationKeypadMenuPinResponse c s seq) = 0x33"
| "plc (BaseStationKeypadConstantStatus c s seq bsn) = 0x33"
| "plc (BaseStationKeypadConstantMenu c s seq) = 0x33"
| "plc (BaseStationKeypadAddComponentSerialMenuResponse c s seq rt) = 0x33"
| "plc (BaseStationKeypadSimpleStatus c s seq bsn) = 0x22"
| "plc (BaseStationKeypadSimpleMenu c s seq) = 0x22"
| "plc (BaseStationKeypadRemoveComponentScrollMenuResponse c s seq c_sn l r) = 0x66"
| "plc (BaseStationKeypadEntrySensorUpdate s seq bsn ese) = 0x33"
| "plc (BaseStationKeypadSensorErrorUpdate s seq bsn n c_sn) = 0x66"
| "plc (SensorMessage c s seq ev) = 0x11"

fun sn :: "message \<Rightarrow> string" where
  "sn (Message p s pl ft) = s"
| "sn (KeypadRemoveComponentScrollMenuRequest s seq n) = s"
| "sn (KeypadPinRequest c s seq pin) = s"
| "sn (KeypadSimpleRequest c s seq) = s"
| "sn (KeypadPrefixRequest s seq pfx) = s"
| "sn (KeypadModifyComponentMenuRequest c s seq c_sn) = s"
| "sn (KeypadAddComponentTypeMenuRequest s seq ct) = s"
| "sn (BaseStationKeypadExtendedStatus c s seq bsn flags arm ess tleft) = s"
| "sn (BaseStationKeypadStatusUpdate s seq bsn flags) = s"
| "sn (BaseStationKeypadDisarmPinResponse c s seq bsn) = s"
| "sn (BaseStationKeypadMenuPinResponse c s seq) = s"
| "sn (BaseStationKeypadConstantStatus c s seq bsn) = s"
| "sn (BaseStationKeypadConstantMenu c s seq) = s"
| "sn (BaseStationKeypadAddComponentSerialMenuResponse c s seq rt) = s"
| "sn (BaseStationKeypadSimpleStatus c s seq bsn) = s"
| "sn (BaseStationKeypadSimpleMenu c s seq) = s"
| "sn (BaseStationKeypadRemoveComponentScrollMenuResponse c s seq c_sn l r) = s"
| "sn (BaseStationKeypadEntrySensorUpdate s seq bsn ese) = s"
| "sn (BaseStationKeypadSensorErrorUpdate s seq bsn n c_sn) = s"
| "sn (SensorMessage c s seq ev) = s"

text \<open>\<open>int(c)\<close> on one character of a PIN, and the body of a \<open>KeypadPinMessage\<close>.\<close>

definition digit_val :: "char \<Rightarrow> error + int" where
  "digit_val c =
     (let n = (of_char c :: int) in if 48 \<le> n \<and> n \<le> 57 then Inr (n - 48) else Inl ValueError)"

definition digit_at :: "string \<Rightarrow> nat \<Rightarrow> error + int" where
  "digit_at s i = bind (index s i) digit_val"

definition payload_body_suffix :: "byte list" where
  "payload_body_suffix = [0x0F, 0xF0]"

definition pin_payload_body :: "string \<Rightarrow> error + byte list" where
  "pin_payload_body pin =
     bind (digit_at pin 1) (\<lambda>d1. bind (digit_at pin 0) (\<lambda>d0.
     bind (digit_at pin 3) (\<lambda>d3. bind (digit_at pin 2) (\<lambda>d2.
     bind (bytes_of [push_bit 4 d1 + d0, push_bit 4 d3 + d2]) (\<lambda>stuffed_pin.
     Inr (stuffed_pin @ payload_body_suffix))))))"

text \<open>
  The body of a \<open>KeypadPrefixRequest\<close>: with a prefix, the property reads the name
  \<open>payload_body_suffix\<close>, which is an attribute of the class and not a variable in scope,
  and raises \<open>NameError\<close>.
\<close>

definition prefix_payload_body :: "int option \<Rightarrow> error + byte list" where
  "prefix_payload_body pfx =
     (case pfx of None \<Rightarrow> Inr [0xFF, 0xFF, 0xFF, 0xFF] | Some p \<Rightarrow> Inl NameError)"

definition modify_payload_body :: "string \<Rightarrow> error + byte list" where
  "modify_payload_body c_sn =
     (if length c_sn = 5 then pack ASCII_4B5C c_sn False False
      else pack ASCII_4B5C c_sn True True)"

definition extended_status_payload_body :: "int \<Rightarrow> int \<Rightarrow> int \<Rightarrow> int \<Rightarrow> error + byte list" where
  "extended_status_payload_body flags arm ess tleft =
     bind (bytes_of [push_bit 4 flags OR arm]) (\<lambda>b0.
     bind (bytes_of [ess]) (\<lambda>b1.
     bind (bytes_of [drop_bit 4 tleft, push_bit 4 (tleft AND 0xF) OR 0xC]) (\<lambda>b23.
     Inr (b0 @ b1 @ b23))))"

definition sensor_error_event_type :: "int \<Rightarrow> error + int" where
  "sensor_error_event_type n =
     (if n = 0 then Inr 0x32 else if n = 1 then Inr 0x35 else if n = 2 then Inr 0x36
      else if n = 3 then Inr 0x37 else Inl Exception)"

definition menu_footer_body :: "byte list" where
  "menu_footer_body = [0xFF, 0xFF, 0xFF, 0xFF, 0xFF]"

text \<open>
  The payload of a \<open>KeypadMessage\<close>, of a \<open>BaseStationKeypadMessage\<close> and of a
  \<open>SensorMessage\<close> from their parts, and the footer of a \<open>BaseStationKeypadMessage\<close>.
\<close>

definition keypad_payload :: "int \<Rightarrow> error + byte list \<Rightarrow> int \<Rightarrow> error + byte list" where
  "keypad_payload seq payload_body event_type =
     bind (bytes_of [0x1, push_bit 4 seq OR 0x4]) (\<lambda>h.
     bind payload_body (\<lambda>pb.
     bind (bytes_of [event_type]) (\<lambda>e. Inr (h @ pb @ e))))"

definition base_station_payload :: "int \<Rightarrow> error + byte list \<Rightarrow> int \<Rightarrow> error + byte list" where
  "base_station_payload msg_type payload_body event_type =
     bind (bytes_of [0x0, msg_type]) (\<lambda>h.
     bind payload_body (\<lambda>pb.
     bind (bytes_of [event_type]) (\<lambda>e. Inr (h @ pb @ e))))"

definition base_station_footer :: "error + byte list \<Rightarrow> int \<Rightarrow> int \<Rightarrow> error + byte list" where
  "base_station_footer footer_body seq info_type =
     bind footer_body (\<lambda>fb.
     bind (bytes_of [push_bit 4 seq OR info_type]) (\<lambda>l. Inr (fb @ l)))"

definition status_footer_body :: "string \<Rightarrow> error + byte list" where
  "status_footer_body bsn = pack HEX_5B6C bsn False False"

fun payload :: "message \<Rightarrow> error + byte list" where
  "payload (Message p s pl ft) = Inr pl"
| "payload (KeypadRemoveComponentScrollMenuRequest s seq n) =
     keypad_payload seq (bytes_of [n]) 0x45"
| "payload (KeypadPinRequest c s seq pin) =
     keypad_payload seq (pin_payload_body pin) (pin_event_type c)"
| "payload (KeypadSimpleRequest c s seq) =
     keypad_payload seq (Inr []) (simple_event_type c)"
| "payload (KeypadPrefixRequest s seq pfx) =
     keypad_payload seq (prefix_payload_body pfx) 0x63"
| "payload (KeypadModifyComponentMenuRequest c s seq c_sn) =
     keypad_payload seq (modify_payload_body c_sn) (modify_event_type c)"
| "payload (KeypadAddComponentTypeMenuRequest s seq ct) =
     keypad_payload seq (bytes_of [ct]) 0x75"
| "payload (BaseStationKeypadExtendedStatus c s seq bsn flags arm ess tleft) =
     base_station_payload (extended_status_msg_type c)
       (extended_status_payload_body flags arm ess tleft) (extended_status_event_type c)"
| "payload (BaseStationKeypadStatusUpdate s seq bsn flags) =
     base_station_payload UPDATE (bytes_of [flags]) 0x31"
| "payload (BaseStationKeypadDisarmPinResponse c s seq bsn) =
     base_station_payload RESPONSE (bytes_of [disarm_pin_response_type c]) 0x51"
| "payload (BaseStationKeypadMenuPinResponse c s seq) =
     base_station_payload RESPONSE (bytes_of [menu_pin_response_type c]) 0x66"
| "payload (BaseStationKeypadConstantStatus c s seq bsn) =
     base_station_payload (constant_status_msg_type c)
       (bytes_of [constant_status_payload_body c]) (constant_status_event_type c)"
| "payload (BaseStationKeypadConstantMenu c s seq) =
     base_station_payload RESPONSE (bytes_of [constant_menu_payload_body c])
       (constant_menu_event_type c)"
| "payload (BaseStationKeypadAddComponentSerialMenuResponse c s seq rt) =
     base_station_payload RESPONSE (bytes_of [rt]) (add_serial_event_type c)"
| "payload (BaseStationKeypadSimpleStatus c s seq bsn) =
     base_station_payload (simple_status_msg_type c) (Inr []) (simple_status_event_type c)"
| "payload (BaseStationKeypadSimpleMenu c s seq) =
     base_station_payload RESPONSE (Inr []) (simple_menu_event_type c)"
| "payload (BaseStationKeypadRemoveComponentScrollMenuResponse c s seq c_sn l r) =
     base_station_payload RESPONSE (pack ASCII_4B5C c_sn l r) (scroll_event_type c)"
| "payload (BaseStationKeypadEntrySensorUpdate s seq bsn ese) =
     base_station_payload UPDATE (bytes_of [ese]) 0x27"
| "payload (BaseStationKeypadSensorErrorUpdate s seq bsn n c_sn) =
     bind (sensor_error_event_type n) (\<lambda>event_type.
       base_station_payload UPDATE (pack ASCII_4B5C c_sn False False) event_type)"
| "payload (SensorMessage c s seq ev) =
     bytes_of [push_bit 4 seq + sensor_origin_type c, ev]"

fun footer :: "message \<Rightarrow> error + byte list" where
  "footer (Message p s pl ft) = Inr ft"
| "footer (BaseStationKeypadExtendedStatus c s seq bsn flags arm ess tleft) =
     base_station_footer (status_footer_body bsn) seq STATUS"
| "footer (BaseStationKeypadStatusUpdate s seq bsn flags) =
     base_station_footer (status_footer_body bsn) seq STATUS"
| "footer (BaseStationKeypadDisarmPinResponse c s seq bsn) =
     base_station_footer (status_footer_body bsn) seq STATUS"
| "footer (BaseStationKeypadMenuPinResponse c s seq) =
     base_station_footer (Inr menu_footer_body) seq MENU"
| "footer (BaseStationKeypadConstantStatus c s seq bsn) =
     base_station_footer (status_footer_body bsn) seq STATUS"
| "footer (BaseStationKeypadConstantMenu c s seq) =
     base_station_footer (Inr menu_footer_body) seq MENU"
| "footer (BaseStationKeypadAddComponentSerialMenuResponse c s seq rt) =
     base_station_footer (Inr menu_footer_body) seq MENU"
| "footer (BaseStationKeypadSimpleStatus c s seq bsn) =
     base_station_footer (status_footer_body bsn) seq STATUS"
| "footer (BaseStationKeypadSimpleMenu c s seq) =
     base_station_footer (Inr menu_footer_body) seq MENU"
| "footer (BaseStationKeypadRemoveComponentScrollMenuResponse c s seq c_sn l r) =
     base_station_footer (Inr menu_footer_body) seq MENU"
| "footer (BaseStationKeypadEntrySensorUpdate s seq bsn ese) =
     base_station_footer (status_footer_body bsn) seq STATUS"
| "footer (BaseStationKeypadSensorErrorUpdate s seq bsn n c_sn) =
     base_station_footer (status_footer_body bsn) seq STATUS"
| "footer _ = Inr []"

text \<open>
  What a constructor checks of its own arguments before the payload is computed: the PIN
  of a \<open>KeypadPinMessage\<close> (\<open>int(pin)\<close> must succeed and the length be 4), the prefix of a
  \<open>KeypadPrefixRequest\<close>, the number of a sensor error and the event of an
  \<open>EntrySensorMessage\<close>.
\<close>

definition is_digit :: "char \<Rightarrow> bool" where
  "is_digit c = (48 \<le> (of_char c :: int) \<and> (of_char c :: int) \<le> 57)"

fun check_arguments :: "message \<Rightarrow> error + unit" where
  "check_arguments (KeypadPinRequest c s seq pin) =
     (if length pin = 4 \<and> (\<forall>ch \<in> set pin. is_digit ch) then Inr () else Inl ValueError)"
| "check_arguments (KeypadPrefixRequest s seq (Some p)) =
     (if 0 \<le> p \<and> p \<le> 9 then Inr () else Inl Exception)"
| "check_arguments (BaseStationKeypadSensorErrorUpdate s seq bsn n c_sn) =
     bind (sensor_error_event_type n) (\<lambda>_. Inr ())"
| "check_arguments (SensorMessage EntrySensorMessage s seq ev) =
     bind (sensor_EventType EntrySensorMessage ev) (\<lambda>_. Inr ())"
| "check_arguments _ = Inr ()"

text \<open>
  \<open>construct v\<close> is the call of the constructor of the class of \<open>v\<close> with the arguments of
  \<open>v\<close>: the checks above, then the payload and the footer, which \<open>__init__\<close> computes to
  pass them up, then the check of \<open>Message.__init__\<close> that the serial number has five
  characters.
\<close>

definition construct :: "message \<Rightarrow> error + message" where
  "construct v =
     bind (check_arguments v) (\<lambda>_.
     bind (payload v) (\<lambda>_.
     bind (footer v) (\<lambda>_.
     if length (sn v) \<noteq> 5 then Inl ValueError else Inr v)))"

text \<open>The property \<open>checksum\<close> and \<open>Message.__bytes__\<close>.\<close>

definition checksum :: "message \<Rightarrow> error + int" where
  "checksum v = bind (payload v) (\<lambda>pl. Inr (sum_list (map uint pl) mod 256))"

definition encode_ascii :: "string \<Rightarrow> error + byte list" where
  "encode_ascii s =
     (if \<forall>c \<in> set s. (of_char c :: int) < 128 then Inr (map (\<lambda>c. word_of_int (of_char c)) s)
      else Inl UnicodeEncodeError)"

definition VENDOR_CODE :: int where
  "VENDOR_CODE = 0xCC05"

text \<open>\<open>struct.pack(">HB5B", vendor_code, plc, *sn)\<close>: five bytes are needed after the PLC.\<close>

definition pack_header :: "int \<Rightarrow> byte list \<Rightarrow> error + byte list" where
  "pack_header p s =
     (if length s = 5 \<and> 0 \<le> p \<and> p < 256
      then Inr ([word_of_int (drop_bit 8 VENDOR_CODE), word_of_int (VENDOR_CODE AND 0xFF),
                 word_of_int p] @ s)
      else Inl StructError)"

definition to_bytes :: "message \<Rightarrow> error + byte list" where
  "to_bytes v =
     bind (encode_ascii (sn v)) (\<lambda>s.
     bind (pack_header (plc v) s) (\<lambda>header.
     bind (payload v) (\<lambda>pl.
     bind (checksum v) (\<lambda>cs.
     bind (bytes_of [cs]) (\<lambda>c.
     bind (footer v) (\<lambda>ft. Inr (header @ pl @ c @ ft)))))))"

subsection \<open>Parsing: the factories\<close>

text \<open>
  The loop over \<open>cls.__subclasses__()\<close> that returns what the first factory returns,
  passes over a \<open>ValueError\<close> and lets any other exception through; when no factory
  returns, the exception after the loop is raised.
\<close>

fun try_each :: "('a \<Rightarrow> error + 'b) list \<Rightarrow> 'a \<Rightarrow> error \<Rightarrow> error + 'b" where
  "try_each [] msg final = Inl final"
| "try_each (c # cs) msg final =
     (case c msg of
        Inr m \<Rightarrow> Inr m
      | Inl e \<Rightarrow> if is_ValueError e then try_each cs msg final else Inl e)"

definition PAYLOAD_LENGTHS :: "int \<Rightarrow> nat option" where
  "PAYLOAD_LENGTHS p =
     (if p = 0x00 then Some 7 else if p = 0x11 then Some 2 else if p = 0x22 then Some 3
      else if p = 0x33 then Some 4 else if p = 0x66 then Some 7 else None)"

definition decode_ascii :: "byte list \<Rightarrow> error + string" where
  "decode_ascii bs =
     (if \<forall>x \<in> set bs. uint x < 128 then Inr (map (\<lambda>x. char_of (uint x)) bs)
      else Inl UnicodeDecodeError)"

text \<open>\<open>str(n)\<close> for the value of a nibble.\<close>

definition str_int :: "int \<Rightarrow> string" where
  "str_int n =
     (if n < 10 then [char_of (n + 48)] else [char_of (n div 10 + 48), char_of (n mod 10 + 48)])"

text \<open>
  The fields of an instance of \<open>Message\<close> or \<open>ComponentMessage\<close> (PLC, serial number,
  payload, footer), of \<open>KeypadMessage\<close> (PLC, serial number, sequence, event type, payload
  body) and of \<open>BaseStationKeypadMessage\<close> (PLC, serial number, sequence, message type, info
  type, event type, payload body, footer body). Building such an instance from values read
  from a frame cannot raise: the serial number has five characters and every byte of the
  payload and of the footer is in range.
\<close>

type_synonym raw_fields = "int \<times> string \<times> byte list \<times> byte list"
type_synonym keypad_fields = "int \<times> string \<times> int \<times> int \<times> byte list"
type_synonym base_station_fields =
  "int \<times> string \<times> int \<times> int \<times> int \<times> int \<times> byte list \<times> byte list"

definition KeypadRemoveComponentScrollMenuRequest_factory :: "keypad_fields \<Rightarrow> error + message" where
  "KeypadRemoveComponentScrollMenuRequest_factory =
     (\<lambda>(p, s, seq, ev, body).
        if p \<noteq> 0x33 then Inl InvalidMessageBytesError
        else if ev \<noteq> 0x45 then Inl InvalidMessageBytesError
        else bind (index body 0) (\<lambda>n.
             construct (KeypadRemoveComponentScrollMenuRequest s seq (uint n))))"

definition KeypadPinRequest_factory :: "pin_class \<Rightarrow> string \<times> int \<times> int \<times> string \<Rightarrow> error + message" where
  "KeypadPinRequest_factory c =
     (\<lambda>(s, seq, ev, pin).
        if ev \<noteq> pin_event_type c then Inl InvalidMessageBytesError
        else construct (KeypadPinRequest c s seq pin))"

definition KeypadPinMessage_factory :: "keypad_fields \<Rightarrow> error + message" where
  "KeypadPinMessage_factory =
     (\<lambda>(p, s, seq, ev, body).
        if p \<noteq> 0x66 then Inl InvalidMessageBytesError
        else if take 2 (drop 2 body) \<noteq> payload_body_suffix then Inl InvalidMessageBytesError
        else bind (index body 0) (\<lambda>b0. bind (index body 1) (\<lambda>b1.
             let pin = str_int (uint b0 AND 0xF) @ str_int (drop_bit 4 (uint b0))
                       @ str_int (uint b1 AND 0xF) @ str_int (drop_bit 4 (uint b1))
             in if length pin \<noteq> 4 then Inl ValueError
                else try_each (map KeypadPinRequest_factory pin_classes) (s, seq, ev, pin)
                       InvalidMessageBytesError)))"

definition AbstractKeypadSimpleRequest_factory :: "keypad_fields \<Rightarrow> error + message" where
  "AbstractKeypadSimpleRequest_factory =
     (\<lambda>(p, s, seq, ev, body).
        if p \<noteq> 0x22 then Inl InvalidMessageBytesError
        else if body \<noteq> [] then Inl InvalidMessageBytesError
        else case find (\<lambda>c. ev = simple_event_type c) simple_classes of
               Some c \<Rightarrow> construct (KeypadSimpleRequest c s seq)
             | None \<Rightarrow> Inl InvalidMessageBytesError)"

definition KeypadPrefixRequest_factory :: "keypad_fields \<Rightarrow> error + message" where
  "KeypadPrefixRequest_factory =
     (\<lambda>(p, s, seq, ev, body).
        if p \<noteq> 0x66 then Inl InvalidMessageBytesError
        else if ev \<noteq> 0x63 then Inl InvalidMessageBytesError
        else bind (index body 0) (\<lambda>b0.
             if format_X (drop_bit 4 (uint b0)) \<noteq> ''F'' then Inl InvalidMessageBytesError
             else bind (index body 1) (\<lambda>b1.
             if format_02X (uint b1) \<noteq> ''FFCFFF'' then Inl InvalidMessageBytesError
             else let pfx = uint b0 AND 0xF in
                  if pfx = 0xF then construct (KeypadPrefixRequest s seq None)
                  else if pfx > 9 then Inl InvalidMessageBytesError
                  else construct (KeypadPrefixRequest s seq (Some pfx)))))"

definition AbstractKeypadModifyComponentMenuRequest_factory :: "keypad_fields \<Rightarrow> error + message" where
  "AbstractKeypadModifyComponentMenuRequest_factory =
     (\<lambda>(p, s, seq, ev, body).
        if p \<noteq> 0x66 then Inl InvalidMessageBytesError
        else bind (unpack_ASCII_4B5C body) (\<lambda>(c_sn, hb, lb).
             case find (\<lambda>c. ev = modify_event_type c) modify_classes of
               Some c \<Rightarrow> construct (KeypadModifyComponentMenuRequest c s seq c_sn)
             | None \<Rightarrow> Inl InvalidMessageBytesError))"

definition KeypadAddComponentTypeMenuRequest_factory :: "keypad_fields \<Rightarrow> error + message" where
  "KeypadAddComponentTypeMenuRequest_factory =
     (\<lambda>(p, s, seq, ev, body).
        if p \<noteq> 0x33 then Inl InvalidMessageBytesError
        else if ev \<noteq> 0x75 then Inl InvalidMessageBytesError
        else bind (index body 0) (\<lambda>b0. bind (ComponentType (uint b0)) (\<lambda>ct.
             construct (KeypadAddComponentTypeMenuRequest s seq ct))))"

definition KeypadMessage_factory :: "raw_fields \<Rightarrow> error + message" where
  "KeypadMessage_factory =
     (\<lambda>(p, s, pl, ft).
        bind (index pl 0) (\<lambda>b0. bind (OriginType (uint b0)) (\<lambda>origin_type.
        if origin_type \<noteq> 0x1 then Inl InvalidMessageBytesError
        else bind (index pl 1) (\<lambda>b1.
             let seq = drop_bit 4 (uint b1);
                 payload_body = butlast (drop 2 pl)
             in bind (EventType (uint (last pl))) (\<lambda>event_type.
                try_each
                  [KeypadRemoveComponentScrollMenuRequest_factory,
                   KeypadPinMessage_factory,
                   AbstractKeypadSimpleRequest_factory,
                   KeypadPrefixRequest_factory,
                   AbstractKeypadModifyComponentMenuRequest_factory,
                   KeypadAddComponentTypeMenuRequest_factory]
                  (p, s, seq, event_type, payload_body) NotImplementedError)))))"

definition SensorMessage_leaf_factory :: "sensor_class \<Rightarrow> string \<times> int \<times> int \<times> int \<Rightarrow> error + message" where
  "SensorMessage_leaf_factory c =
     (\<lambda>(s, origin_type, seq, ev).
        if origin_type \<noteq> sensor_origin_type c then Inl InvalidMessageBytesError
        else bind (sensor_EventType c ev) (\<lambda>event_type.
             construct (SensorMessage c s seq event_type)))"

definition SensorMessage_factory :: "raw_fields \<Rightarrow> error + message" where
  "SensorMessage_factory =
     (\<lambda>(p, s, pl, ft).
        if p \<noteq> 0x11 then Inl InvalidMessageBytesError
        else bind (index pl 0) (\<lambda>b0. bind (OriginType (uint b0 AND 0xF)) (\<lambda>origin_type.
             let seq = drop_bit 4 (uint b0) in
             bind (index pl 1) (\<lambda>b1.
             try_each (map SensorMessage_leaf_factory sensor_classes)
               (s, origin_type, seq, uint b1) NotImplementedError))))"

definition ComponentMessage_factory :: "raw_fields \<Rightarrow> error + message" where
  "ComponentMessage_factory msg =
     try_each [KeypadMessage_factory, SensorMessage_factory] msg ValueError"

text \<open>
  A leaf of a status message reads the serial number of the base station back from the
  footer body of the instance it is given, which is the packing of that serial number.
\<close>

definition repacked_bs_sn :: "string \<Rightarrow> error + string" where
  "repacked_bs_sn bsn = bind (status_footer_body bsn) unpack_HEX_5B6C"

definition BaseStationKeypadExtendedStatus_leaf_factory ::
  "extended_status_class \<Rightarrow> string \<times> int \<times> string \<times> int \<times> int \<times> int \<times> int \<times> int \<times> int \<Rightarrow> error + message" where
  "BaseStationKeypadExtendedStatus_leaf_factory c =
     (\<lambda>(s, seq, bsn, mt, ev, flags, arm, ess, tleft).
        if mt \<noteq> extended_status_msg_type c then Inl InvalidMessageBytesError
        else if ev \<noteq> extended_status_event_type c then Inl InvalidMessageBytesError
        else bind (repacked_bs_sn bsn) (\<lambda>bsn1.
             construct (BaseStationKeypadExtendedStatus c s seq bsn1 flags arm ess tleft)))"

definition BaseStationKeypadExtendedStatusMessage_factory :: "base_station_fields \<Rightarrow> error + message" where
  "BaseStationKeypadExtendedStatusMessage_factory =
     (\<lambda>(p, s, seq, mt, it, ev, body, fb).
        if p \<noteq> 0x66 then Inl InvalidMessageBytesError
        else if it \<noteq> STATUS then Inl InvalidMessageBytesError
        else bind (unpack_HEX_5B6C fb) (\<lambda>bsn.
             bind (index body 0) (\<lambda>b0.
             let flags = drop_bit 4 (uint b0) in
             bind (ArmedStatusType (uint b0 AND 0xF)) (\<lambda>arm.
             bind (index body 1) (\<lambda>b1. bind (EntrySensorStatusType (uint b1)) (\<lambda>ess.
             bind (index body 2) (\<lambda>b2. bind (index body 3) (\<lambda>b3.
             let tleft = push_bit 4 (uint b2) OR drop_bit 4 (uint b3) in
             try_each (map BaseStationKeypadExtendedStatus_leaf_factory extended_status_classes)
               (s, seq, bsn, mt, ev, flags, arm, ess, tleft) NotImplementedError))))))))"

definition BaseStationKeypadStatusUpdate_factory :: "base_station_fields \<Rightarrow> error + message" where
  "BaseStationKeypadStatusUpdate_factory =
     (\<lambda>(p, s, seq, mt, it, ev, body, fb).
        if p \<noteq> 0x33 then Inl InvalidMessageBytesError
        else if mt \<noteq> UPDATE then Inl InvalidMessageBytesError
        else if it \<noteq> STATUS then Inl InvalidMessageBytesError
        else if ev \<noteq> 0x31 then Inl InvalidMessageBytesError
        else bind (index body 0) (\<lambda>flags. bind (unpack_HEX_5B6C fb) (\<lambda>bsn.
             construct (BaseStationKeypadStatusUpdate s seq bsn (uint flags)))))"

definition BaseStationKeypadDisarmPinResponse_leaf_factory ::
  "disarm_pin_response_class \<Rightarrow> string \<times> int \<times> string \<times> int \<Rightarrow> error + message" where
  "BaseStationKeypadDisarmPinResponse_leaf_factory c =
     (\<lambda>(s, seq, bsn, response_type).
        if response_type \<noteq> disarm_pin_response_type c then Inl InvalidMessageBytesError
        else bind (repacked_bs_sn bsn) (\<lambda>bsn1.
             construct (BaseStationKeypadDisarmPinResponse c s seq bsn1)))"

text \<open>
  \<open>BaseStationKeypadDisarmPinResponse.factory\<close> compares the event type of the message
  with itself, so it accepts every event type.
\<close>

definition BaseStationKeypadDisarmPinResponse_factory :: "base_station_fields \<Rightarrow> error + message" where
  "BaseStationKeypadDisarmPinResponse_factory =
     (\<lambda>(p, s, seq, mt, it, ev, body, fb).
        if p \<noteq> 0x33 then Inl InvalidMessageBytesError
        else if mt \<noteq> RESPONSE then Inl InvalidMessageBytesError
        else if it \<noteq> STATUS then Inl InvalidMessageBytesError
        else if ev \<noteq> ev then Inl InvalidMessageBytesError
        else bind (index body 0) (\<lambda>b0. bind (DisarmPin_ResponseType (uint b0)) (\<lambda>response_type.
             bind (unpack_HEX_5B6C fb) (\<lambda>bsn.
             try_each
               (map BaseStationKeypadDisarmPinResponse_leaf_factory disarm_pin_response_classes)
               (s, seq, bsn, response_type) NotImplementedError))))"

definition BaseStationKeypadMenuPinResponse_leaf_factory ::
  "menu_pin_response_class \<Rightarrow> string \<times> int \<times> int \<Rightarrow> error + message" where
  "BaseStationKeypadMenuPinResponse_leaf_factory c =
     (\<lambda>(s, seq, response_type).
        if response_type \<noteq> menu_pin_response_type c then Inl InvalidMessageBytesError
        else construct (BaseStationKeypadMenuPinResponse c s seq))"

definition BaseStationKeypadMenuPinResponse_factory :: "base_station_fields \<Rightarrow> error + message" where
  "BaseStationKeypadMenuPinResponse_factory =
     (\<lambda>(p, s, seq, mt, it, ev, body, fb).
        if p \<noteq> 0x33 then Inl InvalidMessageBytesError
        else if mt \<noteq> RESPONSE then Inl InvalidMessageBytesError
        else if it \<noteq> MENU then Inl InvalidMessageBytesError
        else if ev \<noteq> 0x66 then Inl InvalidMessageBytesError
        else bind (index body 0) (\<lambda>b0. bind (MenuPin_ResponseType (uint b0)) (\<lambda>response_type.
             try_each
               (map BaseStationKeypadMenuPinResponse_leaf_factory menu_pin_response_classes)
               (s, seq, response_type) NotImplementedError)))"

text \<open>
  \<open>BaseStationKeypadHomeResponse\<close>, \<open>BaseStationKeypadAwayResponse\<close> and
  \<open>BaseStationKeypadOffRemoteUpdate\<close> have the same factory up to the constants of the
  class, but the one of \<open>BaseStationKeypadAwayResponse\<close> compares the info type of the
  message with itself.
\<close>

fun constant_status_info_type_differs :: "constant_status_class \<Rightarrow> int \<Rightarrow> bool" where
  "constant_status_info_type_differs BaseStationKeypadAwayResponse it = (it \<noteq> it)"
| "constant_status_info_type_differs c it = (it \<noteq> STATUS)"

definition BaseStationKeypadConstantStatus_factory ::
  "constant_status_class \<Rightarrow> base_station_fields \<Rightarrow> error + message" where
  "BaseStationKeypadConstantStatus_factory c =
     (\<lambda>(p, s, seq, mt, it, ev, body, fb).
        if p \<noteq> 0x33 then Inl InvalidMessageBytesError
        else if mt \<noteq> constant_status_msg_type c then Inl InvalidMessageBytesError
        else if constant_status_info_type_differs c it then Inl InvalidMessageBytesError
        else if ev \<noteq> constant_status_event_type c then Inl InvalidMessageBytesError
        else if body \<noteq> [word_of_int (constant_status_payload_body c)]
          then Inl InvalidMessageBytesError
        else bind (unpack_HEX_5B6C fb) (\<lambda>bsn.
             construct (BaseStationKeypadConstantStatus c s seq bsn)))"

definition BaseStationKeypadConstantMenu_factory ::
  "constant_menu_class \<Rightarrow> base_station_fields \<Rightarrow> error + message" where
  "BaseStationKeypadConstantMenu_factory c =
     (\<lambda>(p, s, seq, mt, it, ev, body, fb).
        if p \<noteq> 0x33 then Inl InvalidMessageBytesError
        else if mt \<noteq> RESPONSE then Inl InvalidMessageBytesError
        else if it \<noteq> MENU then Inl InvalidMessageBytesError
        else if ev \<noteq> constant_menu_event_type c then Inl InvalidMessageBytesError
        else if fb \<noteq> menu_footer_body then Inl InvalidMessageBytesError
        else if body \<noteq> [word_of_int (constant_menu_payload_body c)]
          then Inl InvalidMessageBytesError
        else construct (BaseStationKeypadConstantMenu c s seq))"

definition AbstractBaseStationKeypadAddComponentSerialMenuResponse_factory ::
  "base_station_fields \<Rightarrow> error + message" where
  "AbstractBaseStationKeypadAddComponentSerialMenuResponse_factory =
     (\<lambda>(p, s, seq, mt, it, ev, body, fb).
        if p \<noteq> 0x33 then Inl InvalidMessageBytesError
        else if mt \<noteq> RESPONSE then Inl InvalidMessageBytesError
        else if it \<noteq> MENU then Inl InvalidMessageBytesError
        else if fb \<noteq> menu_footer_body then Inl InvalidMessageBytesError
        else bind (index body 0) (\<lambda>b0.
             bind (AddComponentSerial_ResponseType (uint b0)) (\<lambda>response_type.
             case find (\<lambda>c. ev = add_serial_event_type c) add_serial_classes of
               Some c \<Rightarrow>
                 construct (BaseStationKeypadAddComponentSerialMenuResponse c s seq response_type)
             | None \<Rightarrow> Inl InvalidMessageBytesError)))"

definition AbstractBaseStationKeypadSimpleStatusMessage_factory ::
  "base_station_fields \<Rightarrow> error + message" where
  "AbstractBaseStationKeypadSimpleStatusMessage_factory =
     (\<lambda>(p, s, seq, mt, it, ev, body, fb).
        if p \<noteq> 0x22 then Inl InvalidMessageBytesError
        else if body \<noteq> [] then Inl InvalidMessageBytesError
        else bind (unpack_HEX_5B6C fb) (\<lambda>bsn.
             case find (\<lambda>c. mt = simple_status_msg_type c \<and> it = STATUS
                             \<and> ev = simple_status_event_type c) simple_status_classes of
               Some c \<Rightarrow> construct (BaseStationKeypadSimpleStatus c s seq bsn)
             | None \<Rightarrow> Inl InvalidMessageBytesError))"

definition AbstractBaseStationKeypadSimpleMenuMessage_factory ::
  "base_station_fields \<Rightarrow> error + message" where
  "AbstractBaseStationKeypadSimpleMenuMessage_factory =
     (\<lambda>(p, s, seq, mt, it, ev, body, fb).
        if p \<noteq> 0x22 then Inl InvalidMessageBytesError
        else if body \<noteq> [] then Inl InvalidMessageBytesError
        else case find (\<lambda>c. mt = RESPONSE \<and> it = MENU \<and> ev = simple_menu_event_type c
                             \<and> fb = menu_footer_body) simple_menu_classes of
               Some c \<Rightarrow> construct (BaseStationKeypadSimpleMenu c s seq)
             | None \<Rightarrow> Inl InvalidMessageBytesError)"

definition AbstractBaseStationKeypadRemoveComponentScrollMenuResponse_factory ::
  "base_station_fields \<Rightarrow> error + message" where
  "AbstractBaseStationKeypadRemoveComponentScrollMenuResponse_factory =
     (\<lambda>(p, s, seq, mt, it, ev, body, fb).
        if p \<noteq> 0x66 then Inl InvalidMessageBytesError
        else if mt \<noteq> RESPONSE then Inl InvalidMessageBytesError
        else if it \<noteq> MENU then Inl InvalidMessageBytesError
        else bind (unpack_ASCII_4B5C body) (\<lambda>(c_sn, left_arrow, right_arrow).
             case find (\<lambda>c. ev = scroll_event_type c) scroll_classes of
               Some c \<Rightarrow>
                 construct (BaseStationKeypadRemoveComponentScrollMenuResponse c s seq c_sn
                              left_arrow right_arrow)
             | None \<Rightarrow> Inl InvalidMessageBytesError))"

definition BaseStationKeypadEntrySensorUpdate_factory :: "base_station_fields \<Rightarrow> error + message" where
  "BaseStationKeypadEntrySensorUpdate_factory =
     (\<lambda>(p, s, seq, mt, it, ev, body, fb).
        if p \<noteq> 0x33 then Inl InvalidMessageBytesError
        else if mt \<noteq> UPDATE then Inl InvalidMessageBytesError
        else if it \<noteq> STATUS then Inl InvalidMessageBytesError
        else if ev \<noteq> 0x27 then Inl InvalidMessageBytesError
        else bind (index body 0) (\<lambda>b0. bind (UpdateType (uint b0)) (\<lambda>ese.
             bind (unpack_HEX_5B6C fb) (\<lambda>bsn.
             construct (BaseStationKeypadEntrySensorUpdate s seq bsn ese)))))"

text \<open>
  \<open>BaseStationKeypadSensorErrorUpdate.factory\<close> also compares the info type of the
  message with itself.
\<close>

definition BaseStationKeypadSensorErrorUpdate_factory :: "base_station_fields \<Rightarrow> error + message" where
  "BaseStationKeypadSensorErrorUpdate_factory =
     (\<lambda>(p, s, seq, mt, it, ev, body, fb).
        if p \<noteq> 0x66 then Inl InvalidMessageBytesError
        else if mt \<noteq> UPDATE then Inl InvalidMessageBytesError
        else if it \<noteq> it then Inl InvalidMessageBytesError
        else bind (if ev = 0x32 then Inr 0 else if ev = 0x35 then Inr 1
                   else if ev = 0x36 then Inr 2 else if ev = 0x37 then Inr 3
                   else Inl InvalidMessageBytesError) (\<lambda>n.
             bind (unpack_ASCII_4B5C body) (\<lambda>(c_sn, hb, lb).
             bind (unpack_HEX_5B6C fb) (\<lambda>bsn.
             construct (BaseStationKeypadSensorErrorUpdate s seq bsn n c_sn)))))"

definition BaseStationKeypadMessage_subclasses :: "(base_station_fields \<Rightarrow> error + message) list" where
  "BaseStationKeypadMessage_subclasses =
     [BaseStationKeypadExtendedStatusMessage_factory,
      BaseStationKeypadStatusUpdate_factory,
      BaseStationKeypadDisarmPinResponse_factory,
      BaseStationKeypadMenuPinResponse_factory,
      BaseStationKeypadConstantStatus_factory BaseStationKeypadHomeResponse,
      BaseStationKeypadConstantStatus_factory BaseStationKeypadAwayResponse,
      BaseStationKeypadConstantStatus_factory BaseStationKeypadOffRemoteUpdate,
      BaseStationKeypadConstantMenu_factory BaseStationKeypadEnterMenuResponse,
      BaseStationKeypadConstantMenu_factory BaseStationKeypadNewPrefixResponse,
      BaseStationKeypadConstantMenu_factory BaseStationKeypadRemoveComponentSelectResponse,
      BaseStationKeypadConstantMenu_factory BaseStationKeypadRemoveComponentConfirmMenuResponse,
      AbstractBaseStationKeypadAddComponentSerialMenuResponse_factory,
      AbstractBaseStationKeypadSimpleStatusMessage_factory,
      AbstractBaseStationKeypadSimpleMenuMessage_factory,
      AbstractBaseStationKeypadRemoveComponentScrollMenuResponse_factory,
      BaseStationKeypadEntrySensorUpdate_factory,
      BaseStationKeypadSensorErrorUpdate_factory]"

definition BaseStationKeypadMessage_factory :: "raw_fields \<Rightarrow> error + message" where
  "BaseStationKeypadMessage_factory =
     (\<lambda>(p, s, pl, ft).
        bind (index pl 0) (\<lambda>b0. bind (OriginType (uint b0)) (\<lambda>origin_type.
        if origin_type \<noteq> 0x0 then Inl InvalidMessageBytesError
        else bind (index pl 1) (\<lambda>b1. bind (MessageType (uint b1)) (\<lambda>msg_type.
             let payload_body = butlast (drop 2 pl) in
             bind (EventType (uint (last pl))) (\<lambda>event_type.
             bind (index ft 5) (\<lambda>f5.
             let seq = drop_bit 4 (uint f5) in
             bind (InfoType (uint f5 AND 0xF)) (\<lambda>info_type.
             let footer_body = butlast ft in
             try_each BaseStationKeypadMessage_subclasses
               (p, s, seq, msg_type, info_type, event_type, payload_body, footer_body)
               NotImplementedError))))))))"

text \<open>
  \<open>Message.factory\<close>. The checksum byte of the frame is compared with the checksum
  property of the message that was built, which sums the payload that message encodes.
\<close>

definition dispatch :: "raw_fields \<Rightarrow> error + message" where
  "dispatch =
     (\<lambda>(p, s, pl, ft).
        case try_each [ComponentMessage_factory, BaseStationKeypadMessage_factory]
               (p, s, pl, ft) ValueError of
          Inr m \<Rightarrow> Inr m
        | Inl e \<Rightarrow> if is_ValueError e then Inr (Message p s pl ft) else Inl e)"

definition Message_factory :: "byte list \<Rightarrow> error + message" where
  "Message_factory b =
     (if length b < 9 then Inl InvalidMessageBytesError
      else if push_bit 8 (uint (b ! 0)) + uint (b ! 1) \<noteq> VENDOR_CODE
        then Inl InvalidMessageBytesError
      else
        case PAYLOAD_LENGTHS (uint (b ! 2)) of
          None \<Rightarrow> Inl InvalidMessageBytesError
        | Some pl \<Rightarrow>
            bind (decode_ascii (take 5 (drop 3 b))) (\<lambda>s.
            bind (dispatch (uint (b ! 2), s, take pl (drop 8 b), drop (8 + pl + 1) b)) (\<lambda>msg.
            bind (index b (8 + pl)) (\<lambda>received.
            bind (checksum msg) (\<lambda>calculated.
            if uint received \<noteq> calculated
            then Inl (ChecksumMismatch (uint received) calculated)
            else Inr msg)))))"

subsection \<open>Concrete messages and frames\<close>

definition example_request :: message where
  "example_request = KeypadPinRequest KeypadDisarmPinRequest ''167JC'' 0 ''1234''"

text \<open>
  Frames of a \<open>KeypadHomeRequest\<close> of the keypad \<open>167JC\<close> with sequence 0: the frame the
  encoder produces; the same with the low nibble of the sequence byte changed from 4 to 5,
  once with the checksum of its own payload and once with the checksum of the encoder's
  payload; and the encoder's frame followed by one more byte.
\<close>

definition home_frame :: "byte list" where
  "home_frame = [0xCC, 0x05, 0x22, 0x31, 0x36, 0x37, 0x4A, 0x43, 0x01, 0x04, 0x53, 0x58]"

definition home_frame_nibble :: "byte list" where
  "home_frame_nibble = [0xCC, 0x05, 0x22, 0x31, 0x36, 0x37, 0x4A, 0x43, 0x01, 0x05, 0x53, 0x59]"

definition home_frame_nibble_58 :: "byte list" where
  "home_frame_nibble_58 = [0xCC, 0x05, 0x22, 0x31, 0x36, 0x37, 0x4A, 0x43, 0x01, 0x05, 0x53, 0x58]"

definition home_frame_longer :: "byte list" where
  "home_frame_longer =
     [0xCC, 0x05, 0x22, 0x31, 0x36, 0x37, 0x4A, 0x43, 0x01, 0x04, 0x53, 0x58, 0xFF]"

subsection \<open>Well-formed leaf messages\<close>

text \<open>
  The arguments of a leaf message in the range of their place in the frame: a serial
  number of five ASCII characters, a sequence number of four bits, and for each class
  fields that fit their bytes. A component serial number has at most five characters in
  the range \<open>0x30..0x6E\<close>, the serial number of the base station has six upper-case
  hexadecimal digits. An instance of \<open>Message\<close> itself is not a leaf message.
\<close>

definition device_serial :: "string \<Rightarrow> bool" where
  "device_serial s = (length s = 5 \<and> (\<forall>c \<in> set s. (of_char c :: int) < 128))"

definition component_serial :: "string \<Rightarrow> bool" where
  "component_serial s =
     (length s \<le> 5 \<and> (\<forall>c \<in> set s. 0x30 \<le> (of_char c :: int) \<and> (of_char c :: int) \<le> 0x6E))"

definition is_upper_hex :: "char \<Rightarrow> bool" where
  "is_upper_hex c = (let n = (of_char c :: int) in
                      (48 \<le> n \<and> n \<le> 57) \<or> (65 \<le> n \<and> n \<le> 70))"

definition base_station_serial :: "string \<Rightarrow> bool" where
  "base_station_serial s = (length s = 6 \<and> (\<forall>c \<in> set s. is_upper_hex c))"

definition four_bits :: "int \<Rightarrow> bool" where
  "four_bits n = (0 \<le> n \<and> n \<le> 15)"

fun well_formed :: "message \<Rightarrow> bool" where
  "well_formed (Message p s pl ft) = False"
| "well_formed (KeypadRemoveComponentScrollMenuRequest s seq n) =
     (device_serial s \<and> four_bits seq \<and> 0 \<le> n \<and> n < 256)"
| "well_formed (KeypadPinRequest c s seq pin) =
     (device_serial s \<and> four_bits seq \<and> length pin = 4 \<and> (\<forall>ch \<in> set pin. is_digit ch))"
| "well_formed (KeypadSimpleRequest c s seq) = (device_serial s \<and> four_bits seq)"
| "well_formed (KeypadPrefixRequest s seq pfx) =
     (device_serial s \<and> four_bits seq
      \<and> (case pfx of None \<Rightarrow> True | Some p \<Rightarrow> 0 \<le> p \<and> p \<le> 9))"
| "well_formed (KeypadModifyComponentMenuRequest c s seq c_sn) =
     (device_serial s \<and> four_bits seq \<and> component_serial c_sn)"
| "well_formed (KeypadAddComponentTypeMenuRequest s seq ct) =
     (device_serial s \<and> four_bits seq \<and> 0 \<le> ct \<and> ct \<le> 9)"
| "well_formed (BaseStationKeypadExtendedStatus c s seq bsn flags arm ess tleft) =
     (device_serial s \<and> four_bits seq \<and> base_station_serial bsn \<and> four_bits flags
      \<and> 0 \<le> arm \<and> arm \<le> 4 \<and> (ess = 0xF0 \<or> ess = 0xF1) \<and> 0 \<le> tleft \<and> tleft < 4096)"
| "well_formed (BaseStationKeypadStatusUpdate s seq bsn flags) =
     (device_serial s \<and> four_bits seq \<and> base_station_serial bsn \<and> 0 \<le> flags \<and> flags < 256)"
| "well_formed (BaseStationKeypadDisarmPinResponse c s seq bsn) =
     (device_serial s \<and> four_bits seq \<and> base_station_serial bsn)"
| "well_formed (BaseStationKeypadMenuPinResponse c s seq) = (device_serial s \<and> four_bits seq)"
| "well_formed (BaseStationKeypadConstantStatus c s seq bsn) =
     (device_serial s \<and> four_bits seq \<and> base_station_serial bsn)"
| "well_formed (BaseStationKeypadConstantMenu c s seq) = (device_serial s \<and> four_bits seq)"
| "well_formed (BaseStationKeypadAddComponentSerialMenuResponse c s seq rt) =
     (device_serial s \<and> four_bits seq \<and> (rt = 0 \<or> rt = 1))"
| "well_formed (BaseStationKeypadSimpleStatus c s seq bsn) =
     (device_serial s \<and> four_bits seq \<and> base_station_serial bsn)"
| "well_formed (BaseStationKeypadSimpleMenu c s seq) = (device_serial s \<and> four_bits seq)"
| "well_formed (BaseStationKeypadRemoveComponentScrollMenuResponse c s seq c_sn l r) =
     (device_serial s \<and> four_bits seq \<and> component_serial c_sn)"
| "well_formed (BaseStationKeypadEntrySensorUpdate s seq bsn ese) =
     (device_serial s \<and> four_bits seq \<and> base_station_serial bsn \<and> (ese = 0 \<or> ese = 1))"
| "well_formed (BaseStationKeypadSensorErrorUpdate s seq bsn n c_sn) =
     (device_serial s \<and> four_bits seq \<and> base_station_serial bsn \<and> 0 \<le> n \<and> n \<le> 3
      \<and> component_serial c_sn)"
| "well_formed (SensorMessage c s seq ev) =
     (device_serial s \<and> four_bits seq \<and> sensor_EventType c ev = Inr ev)"

subsection \<open>Leaf messages that the dispatch does not give back\<close>

text \<open>
  The packed serial number of a sensor error whose first byte ends in an armed status
  (a nibble of at most 4) and whose second byte is an entry sensor status.
\<close>

definition read_as_extended_status :: "string \<Rightarrow> bool" where
  "read_as_extended_status c_sn =
     (case pack ASCII_4B5C c_sn False False of
        Inl e \<Rightarrow> False
      | Inr body \<Rightarrow> uint (body ! 0) AND 0xF \<le> 4 \<and> (body ! 1 = 0xF0 \<or> body ! 1 = 0xF1))"

text \<open>
  The leaf messages whose frame no factory takes, or another factory takes first:
  a \<open>KeypadPrefixRequest\<close>, whose factory compares the two hexadecimal digits of one byte
  with a string of six characters; the request and the response for adding a smoke
  detector, whose event type \<open>0x6E\<close> is also that of the classes for the glassbreak sensor,
  defined before them; and a sensor error whose packed serial number reads as above, which
  the factory of the extended status, the first of the list, takes and then finds in none
  of its subclasses.
\<close>

fun shadowed :: "message \<Rightarrow> bool" where
  "shadowed (KeypadPrefixRequest s seq pfx) = True"
| "shadowed (KeypadModifyComponentMenuRequest c s seq c_sn) =
     (c = KeypadAddSmokeDetectorMenuRequest)"
| "shadowed (BaseStationKeypadAddComponentSerialMenuResponse c s seq rt) =
     (c = BaseStationKeypadAddSmokeDetectorMenuResponse)"
| "shadowed (BaseStationKeypadSensorErrorUpdate s seq bsn n c_sn) = read_as_extended_status c_sn"
| "shadowed v = False"

text \<open>
  The code \<open>pack\<close> takes for place \<open>i\<close> of a serial number in the format
  \<open>ASCII_4B5C\<close>: the character less \<open>0x30\<close>, or the filler \<open>0x3F\<close> past the end.
\<close>

definition sn_code :: "string \<Rightarrow> nat \<Rightarrow> int" where
  "sn_code s i = (if i < length s then of_char (s ! i) - 0x30 else 0x3F)"

section \<open>Serial numbers round-trip\<close>


lemma mask_0F: "(0xF::int) = mask 4" by (simp add: mask_eq_exp_minus_1)
lemma mask_30: "(0x30::int) = push_bit 4 (mask 2)" by (simp add: mask_eq_exp_minus_1)
lemma mask_80: "(0x80::int) = push_bit 7 (mask 1)" by (simp add: mask_eq_exp_minus_1)
lemma mask_40: "(0x40::int) = push_bit 6 (mask 1)" by (simp add: mask_eq_exp_minus_1)
lemmas mask_numerals = mask_0F mask_30 mask_80 mask_40

lemma nat_lt8: "(n::nat) < 8 \<Longrightarrow> n = 7 \<or> n = 6 \<or> n = 5 \<or> n = 4 \<or> n = 3 \<or> n = 2 \<or> n = 1 \<or> n = 0"
  by arith

lemma nat_ge8: "\<not> (n::nat) < 8 \<Longrightarrow> \<exists>m. n = m + 8"
  by presburger

lemma packed0_byte: "take_bit 8 (packed0 b0 b1) = packed0 b0 b1"
proof (rule bit_eqI)
  fix n show "bit (take_bit 8 (packed0 b0 b1)) n = bit (packed0 b0 b1) n"
  proof (cases "n < 8")
    case True
    from nat_lt8[OF this] show ?thesis unfolding mask_numerals packed0_def packed2_def packed3_def
      by (elim disjE) (simp_all add: bit_simps)
  next
    case False
    from nat_ge8[OF this] obtain m where "n = m + 8" ..
    then show ?thesis unfolding mask_numerals packed0_def packed2_def packed3_def by (simp add: bit_simps)
  qed
qed

lemma packed2_byte: "take_bit 8 (packed2 b0 b1 b4) = packed2 b0 b1 b4"
proof (rule bit_eqI)
  fix n show "bit (take_bit 8 (packed2 b0 b1 b4)) n = bit (packed2 b0 b1 b4) n"
  proof (cases "n < 8")
    case True
    from nat_lt8[OF this] show ?thesis unfolding mask_numerals packed0_def packed2_def packed3_def
      by (elim disjE) (simp_all add: bit_simps)
  next
    case False
    from nat_ge8[OF this] obtain m where "n = m + 8" ..
    then show ?thesis unfolding mask_numerals packed0_def packed2_def packed3_def by (simp add: bit_simps)
  qed
qed

lemma packed3_byte: "take_bit 8 (packed3 hb lb b2 b3 b4) = packed3 hb lb b2 b3 b4"
proof (rule bit_eqI)
  fix n show "bit (take_bit 8 (packed3 hb lb b2 b3 b4)) n = bit (packed3 hb lb b2 b3 b4) n"
  proof (cases "n < 8")
    case True
    from nat_lt8[OF this] show ?thesis unfolding mask_numerals packed0_def packed2_def packed3_def
      by (elim disjE) (simp_all add: bit_simps)
  next
    case False
    from nat_ge8[OF this] obtain m where "n = m + 8" ..
    then show ?thesis unfolding mask_numerals packed0_def packed2_def packed3_def by (simp add: bit_simps)
  qed
qed

lemma unpacked_char0: "(drop_bit 0 (packed2 b0 b1 b4) AND 0x30) OR (packed0 b0 b1 AND 0xF) = take_bit 6 b0"
proof (rule bit_eqI)
  fix n show "bit ((drop_bit 0 (packed2 b0 b1 b4) AND 0x30) OR (packed0 b0 b1 AND 0xF)) n = bit (take_bit 6 b0) n"
  proof (cases "n < 8")
    case True
    from nat_lt8[OF this] show ?thesis unfolding mask_numerals packed0_def packed2_def packed3_def
      by (elim disjE) (simp_all add: bit_simps)
  next
    case False
    from nat_ge8[OF this] obtain m where "n = m + 8" ..
    then show ?thesis unfolding mask_numerals packed0_def packed2_def packed3_def by (simp add: bit_simps)
  qed
qed

lemma unpacked_char1: "(drop_bit 2 (packed2 b0 b1 b4) AND 0x30) OR drop_bit 4 (packed0 b0 b1) = take_bit 6 b1"
proof (rule bit_eqI)
  fix n show "bit ((drop_bit 2 (packed2 b0 b1 b4) AND 0x30) OR drop_bit 4 (packed0 b0 b1)) n = bit (take_bit 6 b1) n"
  proof (cases "n < 8")
    case True
    from nat_lt8[OF this] show ?thesis unfolding mask_numerals packed0_def packed2_def packed3_def
      by (elim disjE) (simp_all add: bit_simps)
  next
    case False
    from nat_ge8[OF this] obtain m where "n = m + 8" ..
    then show ?thesis unfolding mask_numerals packed0_def packed2_def packed3_def by (simp add: bit_simps)
  qed
qed

lemma unpacked_char2: "(push_bit 4 (packed3 hb lb b2 b3 b4) AND 0x30) OR (packed0 b2 b3 AND 0xF) = take_bit 6 b2"
proof (rule bit_eqI)
  fix n show "bit ((push_bit 4 (packed3 hb lb b2 b3 b4) AND 0x30) OR (packed0 b2 b3 AND 0xF)) n = bit (take_bit 6 b2) n"
  proof (cases "n < 8")
    case True
    from nat_lt8[OF this] show ?thesis unfolding mask_numerals packed0_def packed2_def packed3_def
      by (elim disjE) (simp_all add: bit_simps)
  next
    case False
    from nat_ge8[OF this] obtain m where "n = m + 8" ..
    then show ?thesis unfolding mask_numerals packed0_def packed2_def packed3_def by (simp add: bit_simps)
  qed
qed

lemma unpacked_char3: "(push_bit 2 (packed3 hb lb b2 b3 b4) AND 0x30) OR drop_bit 4 (packed0 b2 b3) = take_bit 6 b3"
proof (rule bit_eqI)
  fix n show "bit ((push_bit 2 (packed3 hb lb b2 b3 b4) AND 0x30) OR drop_bit 4 (packed0 b2 b3)) n = bit (take_bit 6 b3) n"
  proof (cases "n < 8")
    case True
    from nat_lt8[OF this] show ?thesis unfolding mask_numerals packed0_def packed2_def packed3_def
      by (elim disjE) (simp_all add: bit_simps)
  next
    case False
    from nat_ge8[OF this] obtain m where "n = m + 8" ..
    then show ?thesis unfolding mask_numerals packed0_def packed2_def packed3_def by (simp add: bit_simps)
  qed
qed

lemma unpacked_char4: "(push_bit 0 (packed3 hb lb b2 b3 b4) AND 0x30) OR (packed2 b0 b1 b4 AND 0xF) = take_bit 6 b4"
proof (rule bit_eqI)
  fix n show "bit ((push_bit 0 (packed3 hb lb b2 b3 b4) AND 0x30) OR (packed2 b0 b1 b4 AND 0xF)) n = bit (take_bit 6 b4) n"
  proof (cases "n < 8")
    case True
    from nat_lt8[OF this] show ?thesis unfolding mask_numerals packed0_def packed2_def packed3_def
      by (elim disjE) (simp_all add: bit_simps)
  next
    case False
    from nat_ge8[OF this] obtain m where "n = m + 8" ..
    then show ?thesis unfolding mask_numerals packed0_def packed2_def packed3_def by (simp add: bit_simps)
  qed
qed

lemma unpacked_hb: "(packed3 hb lb b2 b3 b4 AND 0x80 \<noteq> 0) = hb"
proof -
  have "packed3 hb lb b2 b3 b4 AND 0x80 = push_bit 7 (of_bool hb)"
  proof (rule bit_eqI)
  fix n show "bit (packed3 hb lb b2 b3 b4 AND 0x80) n = bit (push_bit 7 (of_bool hb) :: int) n"
  proof (cases "n < 8")
    case True
    from nat_lt8[OF this] show ?thesis unfolding mask_numerals packed0_def packed2_def packed3_def
      by (elim disjE) (simp_all add: bit_simps)
  next
    case False
    from nat_ge8[OF this] obtain m where "n = m + 8" ..
    then show ?thesis unfolding mask_numerals packed0_def packed2_def packed3_def by (simp add: bit_simps)
  qed
  qed
  then show ?thesis by simp
qed

lemma unpacked_lb: "(packed3 hb lb b2 b3 b4 AND 0x40 \<noteq> 0) = lb"
proof -
  have "packed3 hb lb b2 b3 b4 AND 0x40 = push_bit 6 (of_bool lb)"
  proof (rule bit_eqI)
  fix n show "bit (packed3 hb lb b2 b3 b4 AND 0x40) n = bit (push_bit 6 (of_bool lb) :: int) n"
  proof (cases "n < 8")
    case True
    from nat_lt8[OF this] show ?thesis unfolding mask_numerals packed0_def packed2_def packed3_def
      by (elim disjE) (simp_all add: bit_simps)
  next
    case False
    from nat_ge8[OF this] obtain m where "n = m + 8" ..
    then show ?thesis unfolding mask_numerals packed0_def packed2_def packed3_def by (simp add: bit_simps)
  qed
  qed
  then show ?thesis by simp
qed



lemma hex_vals: "is_hex c \<Longrightarrow> \<exists>v. hex_val c = Inr v \<and> 0 \<le> v \<and> v < 16 \<and> hex_digit v = upper_hex c"
  by (auto simp: is_hex_def hex_val_def hex_digit_def upper_hex_def Let_def)

lemma uint_byte: "0 \<le> x \<Longrightarrow> x < 256 \<Longrightarrow> uint (word_of_int x :: byte) = x"
  by (simp add: uint_word_of_int_eq take_bit_int_eq_self)

lemma nib_lo: "0 \<le> v \<Longrightarrow> v < 16 \<Longrightarrow> (v::int) AND 0xF = v"
  unfolding mask_0F by (simp add: take_bit_eq_mask[symmetric] take_bit_int_eq_self)

lemma nib_pack: assumes "0 \<le> h5" "h5 < 16" "0 \<le> h3" "h3 < 16"
  shows "0 \<le> push_bit 4 h5 + (h3::int)" "push_bit 4 h5 + h3 < 256"
    "(push_bit 4 h5 + h3) AND 0xF = h3" "drop_bit 4 (push_bit 4 h5 + h3) = h5"
  using assms by (simp_all add: push_bit_eq_mult drop_bit_eq_div mask_0F take_bit_eq_mask[symmetric] take_bit_eq_mod)

lemma HEX_5B6C_round_trip:
  assumes "length h = 6" "\<forall>c\<in>set h. is_hex c"
  shows "bind (pack HEX_5B6C h hb lb) (unpack HEX_5B6C) = Inr (Sn_hex (map upper_hex h))"
proof -
  from assms(1) obtain c0 c1 c2 c3 c4 c5 where h: "h = [c0, c1, c2, c3, c4, c5]"
    by (auto simp: length_Suc_conv eval_nat_numeral)
  from assms(2) h obtain v0 v1 v2 v3 v4 v5 where
    v0: "hex_val c0 = Inr v0" "0 \<le> v0" "v0 < 16" "hex_digit v0 = upper_hex c0" and
    v1: "hex_val c1 = Inr v1" "0 \<le> v1" "v1 < 16" "hex_digit v1 = upper_hex c1" and
    v2: "hex_val c2 = Inr v2" "0 \<le> v2" "v2 < 16" "hex_digit v2 = upper_hex c2" and
    v3: "hex_val c3 = Inr v3" "0 \<le> v3" "v3 < 16" "hex_digit v3 = upper_hex c3" and
    v4: "hex_val c4 = Inr v4" "0 \<le> v4" "v4 < 16" "hex_digit v4 = upper_hex c4" and
    v5: "hex_val c5 = Inr v5" "0 \<le> v5" "v5 < 16" "hex_digit v5 = upper_hex c5"
    using hex_vals[of c0] hex_vals[of c1] hex_vals[of c2] hex_vals[of c3] hex_vals[of c4] hex_vals[of c5]
    by auto
  define x3 where "x3 = push_bit 4 v5 + v3"
  have x3: "0 \<le> x3" "x3 < 256" "x3 AND 0xF = v3" "drop_bit 4 x3 = v5"
    unfolding x3_def using nib_pack[of v5 v3] v3 v5 by simp_all
  have p: "pack HEX_5B6C h hb lb = Inr (map word_of_int [v0, v1, v2, x3, v4])"
    using v0 v1 v2 v3 v4 v5 x3(1,2)
    by (simp add: pack_def pack_HEX_5B6C_def hex_at_def index_def bind_def h bytes_of_def x3_def[symmetric])
  show ?thesis
    unfolding p using v0 v1 v2 v3 v4 v5 x3
    by (simp add: bind_def unpack_def unpack_HEX_5B6C_def uint_byte nib_lo format_X_def h)
qed

lemma six_bit: "0 \<le> b \<Longrightarrow> b < 64 \<Longrightarrow> take_bit 6 (b::int) = b"
  by (simp add: take_bit_int_eq_self)

lemma ASCII_4B5C_round_trip:
  assumes "length s = 5" "\<forall>c\<in>set s. 0x30 \<le> (of_char c::int) \<and> (of_char c::int) \<le> 0x6E"
  shows "bind (pack ASCII_4B5C s hb lb) (unpack ASCII_4B5C) = Inr (Sn_ascii s hb lb)"
proof -
  from assms(1) obtain c0 c1 c2 c3 c4 where s: "s = [c0, c1, c2, c3, c4]"
    by (auto simp: length_Suc_conv eval_nat_numeral)
  define b0 b1 b2 b3 b4 where b: "b0 = (of_char c0 :: int) - 0x30" "b1 = (of_char c1 :: int) - 0x30"
     "b2 = (of_char c2 :: int) - 0x30" "b3 = (of_char c3 :: int) - 0x30" "b4 = (of_char c4 :: int) - 0x30"
  have r: "0 \<le> b0" "b0 < 63" "0 \<le> b1" "b1 < 63" "0 \<le> b2" "b2 < 63" "0 \<le> b3" "b3 < 63" "0 \<le> b4" "b4 < 63"
    using assms(2) by (auto simp: s b)
  have ch: "char_of (b0 + 48) = c0" "char_of (b1 + 48) = c1" "char_of (b2 + 48) = c2" "char_of (b3 + 48) = c3" "char_of (b4 + 48) = c4"
    by (simp_all add: b)
  have rng: "0 \<le> packed0 b0 b1 \<and> packed0 b0 b1 < 256" "0 \<le> packed0 b2 b3 \<and> packed0 b2 b3 < 256"
       "0 \<le> packed2 b0 b1 b4 \<and> packed2 b0 b1 b4 < 256" "0 \<le> packed3 hb lb b2 b3 b4 \<and> packed3 hb lb b2 b3 b4 < 256"
    using packed0_byte[of b0 b1] packed0_byte[of b2 b3] packed2_byte[of b0 b1 b4] packed3_byte[of hb lb b2 b3 b4]
    by (simp_all only: take_bit_int_eq_self_iff) simp_all
  have bl: "map (\<lambda>i. if i < length s then of_char (s ! i) - 0x30 else (0x3F :: int)) [0, 1, 2, 3, 4] = [b0, b1, b2, b3, b4]"
    by (simp add: s b)
  have idx: "[b0, b1, b2, b3, b4] ! 0 = b0" "[b0, b1, b2, b3, b4] ! 1 = b1" "[b0, b1, b2, b3, b4] ! 2 = b2"
     "[b0, b1, b2, b3, b4] ! 3 = b3" "[b0, b1, b2, b3, b4] ! 4 = b4"
    by simp_all
  have "pack ASCII_4B5C s hb lb = bytes_of [packed0 b0 b1, packed0 b2 b3, packed2 b0 b1 b4, packed3 hb lb b2 b3 b4]"
    unfolding pack_def pack_ASCII_4B5C_def bl Let_def idx packed0_def packed2_def packed3_def by simp
  then have p: "pack ASCII_4B5C s hb lb = Inr (map word_of_int [packed0 b0 b1, packed0 b2 b3, packed2 b0 b1 b4, packed3 hb lb b2 b3 b4])"
    using rng by (simp add: bytes_of_def)
  have six: "take_bit 6 b0 = b0" "take_bit 6 b1 = b1" "take_bit 6 b2 = b2" "take_bit 6 b3 = b3" "take_bit 6 b4 = b4"
    using r by (simp_all add: six_bit)
  show ?thesis
    unfolding p using r rng ch
    by (simp add: bind_def unpack_def unpack_ASCII_4B5C_def uint_byte Let_def unpacked_char0[simplified] unpacked_char1 unpacked_char2 unpacked_char3 unpacked_char4[simplified] unpacked_hb unpacked_lb six s)
qed

text \<open>
  Claim C8, as amended: both serial-number encodings round-trip. For every string \<open>s\<close>
  of five characters in the range \<open>0x30..0x6E\<close> and all flags \<open>hb\<close> and \<open>lb\<close>, unpacking
  the \<open>ASCII_4B5C\<close> packing of \<open>(s, hb, lb)\<close> gives \<open>(s, hb, lb)\<close> back; for every
  string \<open>h\<close> of six hexadecimal digits, unpacking the \<open>HEX_5B6C\<close> packing of \<open>h\<close> gives
  \<open>h\<close> in upper case.
\<close>

theorem C8_serial_number_round_trip:
  "(length s = 5 \<and> (\<forall>c \<in> set s. 0x30 \<le> (of_char c :: int) \<and> (of_char c :: int) \<le> 0x6E)
      \<longrightarrow> bind (pack ASCII_4B5C s hb lb) (unpack ASCII_4B5C) = Inr (Sn_ascii s hb lb))
   \<and> (length h = 6 \<and> (\<forall>c \<in> set h. is_hex c)
      \<longrightarrow> bind (pack HEX_5B6C h hb' lb') (unpack HEX_5B6C) = Inr (Sn_hex (map upper_hex h)))"
  using ASCII_4B5C_round_trip[of s hb lb] HEX_5B6C_round_trip[of h hb' lb'] by blast

text \<open>The round trips of the serial numbers \<open>167JC\<close> and \<open>12abEF\<close>.\<close>

theorem C8_witness:
  "bind (pack ASCII_4B5C ''167JC'' True False) (unpack ASCII_4B5C) = Inr (Sn_ascii ''167JC'' True False)
   \<and> bind (pack HEX_5B6C ''12abEF'' False False) (unpack HEX_5B6C) = Inr (Sn_hex ''12ABEF'')"
  using C8_serial_number_round_trip[of "''167JC''" True False "''12abEF''" False False]
  by (simp add: is_hex_def upper_hex_def char_of_def)

text \<open>
  The character \<open>o\<close> is \<open>0x6F\<close>, inside the range of the claim as stated; it packs to the
  blank \<open>0x3F\<close>, at which \<open>unpack\<close> stops, so the string does not come back.
\<close>

theorem C8_counterexample:
  "of_char (CHR ''o'') = (0x6F :: int)
   \<and> bind (pack ASCII_4B5C ''ABCDo'' False False) (unpack ASCII_4B5C)
       = Inr (Sn_ascii ''ABCD'' False False)"
  by (simp add: pack_def pack_ASCII_4B5C_def bytes_of_def bind_def unpack_def
      unpack_ASCII_4B5C_def char_of_def)

section \<open>The framer and the demodulators\<close>

lemma str_find_minus1_iff:
  "sub \<noteq> [] \<Longrightarrow> str_find s sub = - 1 \<longleftrightarrow> \<not> (\<exists>i. take (length sub) (drop i s) = sub)"
proof -
  assume ne: "sub \<noteq> []"
  have "str_find s sub = - 1 \<longleftrightarrow> filter (\<lambda>i. take (length sub) (drop i s) = sub) [0..<Suc (length s)] = []"
    by (simp add: str_find_def split: list.splits)
  also have "\<dots> \<longleftrightarrow> (\<forall>i < Suc (length s). take (length sub) (drop i s) \<noteq> sub)"
    by (auto simp: filter_empty_conv)
  also have "\<dots> \<longleftrightarrow> \<not> (\<exists>i. take (length sub) (drop i s) = sub)"
  proof -
    have "take (length sub) (drop i s) \<noteq> sub" if "\<not> i < Suc (length s)" for i
      using that ne by auto
    then show ?thesis by blast
  qed
  finally show ?thesis .
qed

lemma slice_to_minus1: "slice_to xs (- 1) = butlast xs"
  by (simp add: slice_to_def butlast_conv_take nat_diff_distrib')

text \<open>
  Claim C10: let the demodulated string have no \<open>X\<close>, let its seventeenth hexadecimal
  character be the value of a device type other than the base station, and let the marker,
  \<open>F\<close> followed by the first four hexadecimal characters, occur nowhere in it. Then
  \<open>find\<close> returns \<open>-1\<close> and \<open>Transceiver.decode\<close> does not raise on the missing marker:
  it goes on with the string without its last character, which it rejects if its length is
  odd and converts to bytes, nibbles swapped, otherwise.
\<close>

theorem C10_decode_missing_repeat_marker:
  assumes "BX \<notin> set bits"
    and "16 < length (raw_hex_of bits)"
    and "bind (hex_val (raw_hex_of bits ! 16)) DeviceType = Inr origin"
    and "origin \<noteq> BASE_STATION"
    and "\<not> (\<exists>i. take 5 (drop i (raw_hex_of bits)) = CHR ''F'' # take 4 (raw_hex_of bits))"
  shows "str_find (raw_hex_of bits) (CHR ''F'' # take 4 (raw_hex_of bits)) = - 1
       \<and> decode bits =
          (if length (butlast (raw_hex_of bits)) mod 2 = 1 then Inl (DecodeError Odd_byte_count)
           else swap_nibbles (butlast (raw_hex_of bits)))"
proof -
  let ?raw = "raw_hex_of bits"
  have len: "length (CHR ''F'' # take 4 ?raw) = 5"
    using assms(2) by simp
  have f: "str_find ?raw (CHR ''F'' # take 4 ?raw) = - 1"
    using assms(5) str_find_minus1_iff[of "CHR ''F'' # take 4 ?raw" ?raw] unfolding len by simp
  have c: "count_list bits BX = 0"
    using assms(1) by (simp add: count_list_0_iff)
  have o: "bind (index ?raw 16) (\<lambda>c. bind (hex_val c) DeviceType) = Inr origin"
    using assms(2,3) by (simp add: index_def bind_def)
  show ?thesis
    unfolding decode_def Let_def c o f slice_to_minus1
    using assms(4) f by simp
qed

lemma raw_hex_of_example_bits: "raw_hex_of example_bits = ''CC501113259334C45010603''"
  by (simp add: example_bits_def hex_digit_def char_of_def)

lemma str_find_example: "str_find ''CC501113259334C45010603'' ''FCC50'' = - 1"
  by (simp add: str_find_def upt_rec)

lemma swap_nibbles_example:
  "swap_nibbles ''CC501113259334C4501060'' = Inr [204, 5, 17, 49, 82, 57, 67, 76, 5, 1, 6]"
  by (simp add: bind_def hex_val_def bytes_of_def)

text \<open>An entry sensor's frame whose repeat marker was lost: its last nibble is dropped.\<close>

theorem C10_witness:
  "decode example_bits = Inr [204, 5, 17, 49, 82, 57, 67, 76, 5, 1, 6]"
proof -
  have h1: "BX \<notin> set example_bits"
    by (simp add: example_bits_def)
  have h2: "16 < length (raw_hex_of example_bits)"
    by (simp add: raw_hex_of_example_bits)
  have h3: "bind (hex_val (raw_hex_of example_bits ! 16)) DeviceType = Inr ENTRY_SENSOR"
    by (simp add: raw_hex_of_example_bits bind_def hex_val_def DeviceType_def)
  have h4: "ENTRY_SENSOR \<noteq> BASE_STATION"
    by simp
  have h5: "\<not> (\<exists>i. take 5 (drop i (raw_hex_of example_bits))
                  = CHR ''F'' # take 4 (raw_hex_of example_bits))"
    using str_find_example str_find_minus1_iff[of "''FCC50''" "''CC501113259334C45010603''"]
    by (simp add: raw_hex_of_example_bits eval_nat_numeral)
  have bl: "butlast ''CC501113259334C45010603'' = ''CC501113259334C4501060''"
    by simp
  have ev: "\<not> length ''CC501113259334C4501060'' mod 2 = 1"
    by simp
  from C10_decode_missing_repeat_marker[OF h1 h2 h3 h4 h5]
  have "decode example_bits =
          (if length (butlast (raw_hex_of example_bits)) mod 2 = 1
           then Inl (DecodeError Odd_byte_count)
           else swap_nibbles (butlast (raw_hex_of example_bits)))"
    by (rule conjunct2)
  then show ?thesis
    unfolding raw_hex_of_example_bits bl swap_nibbles_example using ev by (simp only: if_False)
qed

text \<open>
  Claim C6, as amended: in \<open>RFUtils._recv_cbf\<close>, an edge that comes less than 0.4 ms
  after the last accepted one is a glitch: it only sets \<open>skip\<close>, the next edge only
  clears it, and after the two the state is what it was before them, so the rest of the
  pulse train is decoded as if the two edges had not been there and no symbol comes from them.
  (\<open>Transceiver._listen_cbf\<close> has no such rule: it leaves glitches to the 400 \<open>\<mu>s\<close>
  filter of the GPIO driver and reads a shorter pulse as the bit \<open>0\<close>.)
\<close>

theorem C6_glitch_drops_two_edges:
  assumes "t s = Some t0" and "\<not> skip s" and "dt_ms t0 tick1 < 0.4"
  shows "recv_cbf gpio l1 tick1 s = s\<lparr>skip := True\<rparr>
       \<and> recv_cbf gpio l2 tick2 (recv_cbf gpio l1 tick1 s) = s
       \<and> recv_edges ((l1, tick1) # (l2, tick2) # es) s = recv_edges es s"
proof -
  have 1: "recv_cbf gpio' l1 tick1 s = s\<lparr>skip := True\<rparr>" for gpio'
    using assms by (simp add: recv_cbf_def)
  have 2: "recv_cbf gpio' l2 tick2 (s\<lparr>skip := True\<rparr>) = s" for gpio'
    using assms by (simp add: recv_cbf_def)
  show ?thesis by (simp add: 1 2)
qed

text \<open>A glitch of 0.3 ms and the edge after it, followed by a bit \<open>0\<close>: only the bit is decoded.\<close>

theorem C6_witness:
  "recv_edges [(1, 1300), (0, 1350), (1, 1500)] glitch_state = recv_edges [(1, 1500)] glitch_state
   \<and> encoded (recv_edges [(1, 1300), (0, 1350), (1, 1500)] glitch_state) = [B1, B0, B0]"
proof -
  have h: "t glitch_state = Some 1000" "\<not> skip glitch_state" "dt_ms 1000 1300 < 0.4"
    by (simp_all add: glitch_state_def dt_ms_def)
  from C6_glitch_drops_two_edges[OF h, of 0 1 0 1350 "[(1, 1500)]"]
  show ?thesis
    by (simp add: glitch_state_def recv_cbf_def dt_ms_def classify_def last4_def)
qed

text \<open>
  \<open>Transceiver._listen_cbf\<close> after the preamble: an edge 0.3 ms after the last one
  appends the symbol \<open>0\<close> to the receive buffer and to the SYNC buffer.
\<close>

theorem C6_counterexample:
  "dt_ms 1000 1300 < 0.4
   \<and> rx_buffer (listen_cbf 27 1 1300 listening) = rx_buffer listening @ [B0]
   \<and> rx_sync_buffer (listen_cbf 27 1 1300 listening) = [B1, B1, B1, B0]"
  by (simp add: listening_def listen_cbf_def dt_ms_def classify_def last4_def)


section \<open>Devices\<close>

text \<open>
  Claim C3 fails on the code: \<open>_inc\<close> reduces the counter modulo \<open>0xF\<close>, that is 15.
  From 14, a transmission of a device other than a keypad leaves the counter at 0, not 15;
  from 12, a transmission of a keypad leaves it at 1, not 0.
\<close>

theorem C3_sequence_wraps_at_15:
  "sequence (AbstractDevice_send False m \<lparr>sequence = 14, air = []\<rparr>) = 0
   \<and> sequence (Keypad_send m \<lparr>sequence = 12, air = []\<rparr>) = 1"
  by (simp add: AbstractDevice_send_def Keypad_send_def AbstractDevice_inc_def Keypad_inc_def)

text \<open>After \<open>n\<close> transmissions the counter is the initial value plus \<open>n\<close> (or \<open>4n\<close>) modulo 15.\<close>

lemma AbstractDevice_send_sequence:
  "sequence (AbstractDevice_send b m d) = (sequence d + 1) mod 15"
  by (simp add: AbstractDevice_send_def AbstractDevice_inc_def)

lemma Keypad_send_sequence: "sequence (Keypad_send m d) = (sequence d + 4) mod 15"
  by (simp add: Keypad_send_def Keypad_inc_def)

lemma sends_AbstractDevice_sequence:
  assumes "0 \<le> sequence d" "sequence d < 15"
  shows "sequence (sends (AbstractDevice_send b) ms d) = (sequence d + int (length ms)) mod 15"
  using assms
proof (induction ms arbitrary: d)
  case Nil then show ?case by simp
next
  case (Cons m ms)
  have "sequence (sends (AbstractDevice_send b) ms (AbstractDevice_send b m d))
        = (sequence (AbstractDevice_send b m d) + int (length ms)) mod 15"
    by (rule Cons.IH) (simp_all add: AbstractDevice_send_sequence)
  then show ?case
    by (simp add: AbstractDevice_send_sequence mod_add_left_eq add.assoc)
qed

lemma sends_Keypad_sequence:
  assumes "0 \<le> sequence d" "sequence d < 15"
  shows "sequence (sends Keypad_send ms d) = (sequence d + 4 * int (length ms)) mod 15"
  using assms
proof (induction ms arbitrary: d)
  case Nil then show ?case by simp
next
  case (Cons m ms)
  have "sequence (sends Keypad_send ms (Keypad_send m d))
        = (sequence (Keypad_send m d) + 4 * int (length ms)) mod 15"
    by (rule Cons.IH) (simp_all add: Keypad_send_sequence)
  then show ?case
    by (simp add: Keypad_send_sequence mod_add_left_eq add.assoc)
qed

text \<open>No base station is constructed: the constructor raises before it assigns the transceiver.\<close>

lemma BaseStation_init_raises:
  "\<exists>s. BaseStation_init bsn master duress comps = Raised AttributeError s
       \<and> time_left_timer s = None \<and> armed s = OFF \<and> sent s = []"
  by (simp add: BaseStation_init_def)






text \<open>The parts of the trip rule the method \<open>_trip\<close> does follow.\<close>

lemma trip_armed_away:
  assumes "armed s = ARMED_AWAY" "time_left s = 0" "entry_delay_away s \<noteq> 0"
  shows "trip f False s = Returned (s\<lparr>time_left := entry_delay_away s - 1, time_left_timer := Some new_countdown_timer\<rparr>)"
  using assms by (simp add: trip_def countdown_def is_armed_def is_armed_away_def is_arming_def)

lemma trip_no_retrip: "time_left s \<noteq> 0 \<Longrightarrow> trip f False s = Returned s"
  by (simp add: trip_def)

lemma trip_instant: "trip f True s = f s"
  by (simp add: trip_def)

text \<open>
  \<open>_process_msg\<close> never passes a true \<open>instant_trip\<close>: it reads the key \<open>instant_trip\<close>
  where \<open>add_component\<close> wrote \<open>instat_trigger\<close>.
\<close>

lemma sensor_trip_never_instant:
  "sensor_trip c s = sensor_trip (c\<lparr>instat_trigger := Some True\<rparr>) s"
  by (simp add: sensor_trip_def get_instant_trip_def)



text \<open>Once a countdown has run, the duress PIN does what the claim says; a wrong PIN is refused.\<close>

lemma duress_with_timer:
  assumes "map_of (components s) kp = Some c" "duress_pin s = Some pin" "time_left_timer s = Some tm"
  shows "\<exists>s'. process_msg (KeypadAlarmPinRequest kp pin) s = Returned s' \<and> armed s' = OFF
          \<and> sent s' = sent s @ [BaseStationKeypadAlarmPinResponse kp (bs_sequence s) (bs_sn s) DISARM]
          \<and> calls s' = calls s @ [Stop_siren, Disarm, Alarm]"
  using assms
  by (simp add: process_msg_def alarm_def disarm_def BaseStation_send_def
      cancel_countdown_def and_then_def call_def Let_def split: option.splits)

lemma invalid_pin:
  assumes "map_of (components s) kp = Some c" "duress_pin s \<noteq> Some pin" "master_pin s \<noteq> pin" "\<forall>d \<in> set (pins s). snd d \<noteq> pin"
  shows "process_msg (KeypadAlarmPinRequest kp pin) s =
     Returned (s\<lparr>sent := sent s @ [BaseStationKeypadAlarmPinResponse kp (bs_sequence s) (bs_sn s) INVALID],
                 bs_sequence := AbstractDevice_inc (bs_sequence s)\<rparr>)"
  using assms
  by (auto simp add: process_msg_def BaseStation_send_def)





section \<open>Messages: encoding and checksum\<close>

lemma bind_Inr_iff: "bind m f = Inr y \<longleftrightarrow> (\<exists>x. m = Inr x \<and> f x = Inr y)"
  by (cases m) (simp_all add: bind_def)

lemma pack_header_length: "pack_header p s = Inr h \<Longrightarrow> length h = 8"
  by (auto simp: pack_header_def split: if_splits)

lemma to_bytes_frame:
  assumes "to_bytes v = Inr b" and "payload v = Inr pl"
  shows "\<exists>h ft. pack_header (plc v) (map (\<lambda>c. word_of_int (of_char c)) (sn v)) = Inr h
            \<and> footer v = Inr ft
            \<and> b = h @ pl @ [word_of_int (sum_list (map uint pl) mod 256)] @ ft"
  using assms
  by (auto simp: to_bytes_def bind_Inr_iff checksum_def encode_ascii_def bytes_of_def split: if_splits)

lemma to_bytes_checksum:
  assumes "to_bytes v = Inr b" and "payload v = Inr pl"
  shows "8 + length pl < length b \<and> take (length pl) (drop 8 b) = pl
         \<and> uint (b ! (8 + length pl)) = sum_list (map uint pl) mod 256"
proof -
  from to_bytes_frame[OF assms] obtain h ft where
    h: "pack_header (plc v) (map (\<lambda>c. word_of_int (of_char c)) (sn v)) = Inr h"
    and b: "b = h @ pl @ [word_of_int (sum_list (map uint pl) mod 256)] @ ft"
    by blast
  have l: "length h = 8" using h by (rule pack_header_length)
  have m: "0 \<le> sum_list (map uint pl) mod 256" "sum_list (map uint pl) mod 256 < 256"
    by simp_all
  show ?thesis
    using l m by (simp add: b nth_append uint_byte)
qed

text \<open>
  Claim C7, as amended: encoding \<open>KeypadDisarmPinRequest(sn="167JC", sequence=0,
  pin="1234")\<close> produces a 16-byte frame with payload length code \<open>0x66\<close>, payload
  bytes \<open>01 04 21 43 0F F0 51\<close>, checksum byte \<open>0xB9\<close> and an empty footer.
\<close>

theorem C7_disarm_pin_request_frame:
  "construct example_request = Inr example_request
   \<and> plc example_request = 0x66
   \<and> payload example_request = Inr [0x01, 0x04, 0x21, 0x43, 0x0F, 0xF0, 0x51]
   \<and> checksum example_request = Inr 0xB9
   \<and> footer example_request = Inr []
   \<and> to_bytes example_request =
        Inr [0xCC, 0x05, 0x66, 0x31, 0x36, 0x37, 0x4A, 0x43,
             0x01, 0x04, 0x21, 0x43, 0x0F, 0xF0, 0x51, 0xB9]"
  by code_simp

text \<open>
  The claim as stated gives a frame of 12 bytes and the checksum \<open>0x78\<close>: the frame has
  2 + 1 + 5 + 7 + 1 = 16 bytes, and the payload sums to 441, which is \<open>0xB9\<close> modulo 256.
\<close>

theorem C7_counterexample:
  "bind (to_bytes example_request) (\<lambda>b. Inr (length b)) = Inr 16
   \<and> checksum example_request = Inr 0xB9
   \<and> (0xB9 :: int) \<noteq> 0x78"
  by code_simp

text \<open>
  Claim C2 fails on the code in its second half (the first, on the encoder, is lemma
  \<open>to_bytes_checksum\<close>): \<open>Message.factory\<close> compares the checksum byte of the frame
  with the checksum of the message it has built, and a keypad message builds its payload
  anew, with the low nibble of the second byte set to 4. The frame of a home request whose
  payload is \<open>01 05 53\<close> and whose checksum byte \<open>0x59\<close> is the sum of that payload is
  refused with the checksum error, and the same frame with the checksum byte \<open>0x58\<close>,
  which is not the sum of its payload, is accepted.
\<close>

theorem C2_checksum_of_rebuilt_payload:
  "9 \<le> length home_frame_nibble
   \<and> push_bit 8 (uint (home_frame_nibble ! 0)) + uint (home_frame_nibble ! 1) = VENDOR_CODE
   \<and> PAYLOAD_LENGTHS (uint (home_frame_nibble ! 2)) = Some 3
   \<and> uint (home_frame_nibble ! 11) = sum_list (map uint (take 3 (drop 8 home_frame_nibble))) mod 256
   \<and> Message_factory home_frame_nibble = Inl (ChecksumMismatch 0x59 0x58)
   \<and> uint (home_frame_nibble_58 ! 11)
        \<noteq> sum_list (map uint (take 3 (drop 8 home_frame_nibble_58))) mod 256
   \<and> Message_factory home_frame_nibble_58
        = Inr (KeypadSimpleRequest KeypadHomeRequest ''167JC'' 0)"
  by code_simp

section \<open>Messages: the round trip through \<open>Message.factory\<close>\<close>

text \<open>
  The frame of a message is its header, its payload, the checksum of the payload and its
  footer. \<open>Message.factory\<close> cuts a frame at the same places, so the round trip of a
  message reduces to the dispatch over the subclasses giving the message back from its own
  payload and footer.
\<close>

lemma PAYLOAD_LENGTHS_range: "PAYLOAD_LENGTHS p = Some n \<Longrightarrow> 0 \<le> p \<and> p < 256"
  by (auto simp: PAYLOAD_LENGTHS_def split: if_splits)

lemma of_char_int_range: "0 \<le> (of_char c :: int)" "(of_char c :: int) < 256"
proof -
  have e: "(of_char c :: int) = int (of_char c)" by (simp add: of_nat_of_char)
  show "0 \<le> (of_char c :: int)" unfolding e by simp
  show "(of_char c :: int) < 256" unfolding e using nat_of_char_less_256[of c] by linarith
qed

lemma drop_length_append: "length xs = n \<Longrightarrow> drop n (xs @ ys) = ys"
  by simp

lemma take_length_append: "length xs = n \<Longrightarrow> take n (xs @ ys) = xs"
  by simp

lemma to_bytes_eq:
  assumes "device_serial (sn v)" "0 \<le> plc v" "plc v < 256" "payload v = Inr pl" "footer v = Inr ft"
  shows "to_bytes v =
    Inr ([0xCC, 0x05, word_of_int (plc v)] @ map (\<lambda>c. word_of_int (of_char c)) (sn v) @ pl
         @ [word_of_int (sum_list (map uint pl) mod 256)] @ ft)"
  using assms
  by (simp add: to_bytes_def device_serial_def encode_ascii_def pack_header_def bind_def
      checksum_def bytes_of_def VENDOR_CODE_def)

lemma decode_encode_ascii:
  assumes "device_serial s"
  shows "decode_ascii (map (\<lambda>c. word_of_int (of_char c)) s) = Inr s"
proof -
  have "uint (word_of_int (of_char c) :: byte) = of_char c" for c :: char
    by (rule uint_byte) (simp_all add: of_char_int_range)
  then show ?thesis
    using assms by (simp add: decode_ascii_def device_serial_def map_idI)
qed

lemma factory_frame:
  assumes "length sb = 5" "decode_ascii sb = Inr s" "PAYLOAD_LENGTHS p = Some (length pl)"
  shows "Message_factory ([0xCC, 0x05, word_of_int p] @ sb @ pl @ [c] @ ft) =
     bind (dispatch (p, s, pl, ft)) (\<lambda>m. bind (checksum m) (\<lambda>calculated.
       if uint c \<noteq> calculated then Inl (ChecksumMismatch (uint c) calculated) else Inr m))"
proof -
  from assms(3) have r: "0 \<le> p" "p < 256" using PAYLOAD_LENGTHS_range by blast+
  have pl: "length pl \<le> 7"
    using assms(3) by (auto simp: PAYLOAD_LENGTHS_def split: if_splits)
  let ?b = "[0xCC, 0x05, word_of_int p] @ sb @ pl @ [c] @ ft"
  have 1: "\<not> length ?b < 9" using assms(1) by simp
  have 2: "push_bit 8 (uint (?b ! 0)) + uint (?b ! 1) = VENDOR_CODE"
    by (simp add: VENDOR_CODE_def)
  have 3: "uint (?b ! 2) = p" using r by (simp add: uint_byte)
  have 4: "take 5 (drop 3 ?b) = sb" using assms(1) by simp
  have 5: "take (length pl) (drop 8 ?b) = pl" using assms(1) by simp
  have "?b = ([0xCC, 0x05, word_of_int p] @ sb @ pl @ [c]) @ ft" by simp
  moreover have "length ([0xCC, 0x05, word_of_int p] @ sb @ pl @ [c]) = 8 + length pl + 1"
    using assms(1) by simp
  ultimately have 6: "drop (8 + length pl + 1) ?b = ft"
    using drop_length_append by metis
  have 7: "index ?b (8 + length pl) = Inr c" using assms(1) by (simp add: index_def nth_append)
  show ?thesis
    unfolding Message_factory_def using 1 2 3 4 5 6 7 assms(2,3)
    by (simp only: if_False option.case bind_def sum.case simp_thms)
qed

lemma round_trip_via_dispatch:
  assumes "device_serial (sn v)" "payload v = Inr pl" "footer v = Inr ft"
     "PAYLOAD_LENGTHS (plc v) = Some (length pl)" "dispatch (plc v, sn v, pl, ft) = Inr v"
  shows "\<exists>b. to_bytes v = Inr b \<and> Message_factory b = Inr v"
proof -
  from assms(4) have r: "0 \<le> plc v" "plc v < 256" using PAYLOAD_LENGTHS_range by blast+
  let ?sb = "map (\<lambda>c. word_of_int (of_char c)) (sn v) :: byte list"
  let ?c = "word_of_int (sum_list (map uint pl) mod 256) :: byte"
  have l: "length ?sb = 5" using assms(1) by (simp add: device_serial_def)
  have u: "uint ?c = sum_list (map uint pl) mod 256"
    by (rule uint_byte) simp_all
  have "Message_factory ([0xCC, 0x05, word_of_int (plc v)] @ ?sb @ pl @ [?c] @ ft) = Inr v"
    unfolding factory_frame[OF l decode_encode_ascii[OF assms(1)] assms(4)]
    using assms(2,5) u by (simp add: bind_def checksum_def)
  then show ?thesis
    using to_bytes_eq[OF assms(1) r assms(2,3)] by simp
qed

subsection \<open>Keypad messages\<close>

text \<open>
  The second byte of the payload of a keypad message holds the sequence number in its high
  nibble and the constant 4 in its low nibble.
\<close>

lemma nibble_or_add:
  assumes "0 \<le> lo" "lo < 16"
  shows "push_bit 4 hi OR lo = 16 * hi + (lo :: int)"
proof -
  have lo: "take_bit 4 lo = lo" using assms by (simp add: take_bit_int_eq_self)
  have "push_bit 4 hi AND take_bit 4 lo = 0"
    by (rule bit_eqI) (auto simp: bit_simps)
  then have "push_bit 4 hi + lo = push_bit 4 hi OR lo"
    unfolding lo by (rule disjunctive_add_eq_or)
  then show ?thesis by (simp add: push_bit_eq_mult)
qed

lemma nibble_or:
  assumes "four_bits hi" "0 \<le> lo" "lo < 16"
  shows "0 \<le> push_bit 4 hi OR lo" "push_bit 4 hi OR lo < 256"
    "drop_bit 4 (push_bit 4 hi OR lo) = hi" "(push_bit 4 hi OR lo) AND 0xF = lo"
    "uint (word_of_int (push_bit 4 hi OR lo) :: byte) = push_bit 4 hi OR lo"
proof -
  note e = nibble_or_add[OF assms(2,3), of hi]
  show 1: "0 \<le> push_bit 4 hi OR lo" using assms by (simp add: e four_bits_def)
  show 2: "push_bit 4 hi OR lo < 256" using assms by (simp add: e four_bits_def)
  show "drop_bit 4 (push_bit 4 hi OR lo) = hi"
    using assms by (simp add: e drop_bit_eq_div)
  show "(push_bit 4 hi OR lo) AND 0xF = lo"
    using assms by (simp add: e mask_0F take_bit_eq_mod flip: take_bit_eq_mask)
  show "uint (word_of_int (push_bit 4 hi OR lo) :: byte) = push_bit 4 hi OR lo"
    using 1 2 by (rule uint_byte)
qed

lemma EventType_range: "EventType ev = Inr x \<Longrightarrow> x = ev \<and> 0 \<le> ev \<and> ev < 256"
  by (auto simp: EventType_def enum_def split: if_splits)


lemma keypad_frame_dispatch:
  assumes "four_bits seq" "EventType ev = Inr ev"
    and "try_each
           [KeypadRemoveComponentScrollMenuRequest_factory, KeypadPinMessage_factory,
            AbstractKeypadSimpleRequest_factory, KeypadPrefixRequest_factory,
            AbstractKeypadModifyComponentMenuRequest_factory,
            KeypadAddComponentTypeMenuRequest_factory]
           (p, s, seq, ev, body) NotImplementedError = Inr m"
  shows "dispatch (p, s, [0x1, word_of_int (push_bit 4 seq OR 0x4)] @ body @ [word_of_int ev], ft) = Inr m"
proof -
  from EventType_range[OF assms(2)] have r: "0 \<le> ev" "ev < 256" by simp_all
  let ?pl = "[0x1, word_of_int (push_bit 4 seq OR 0x4)] @ body @ [word_of_int ev] :: byte list"
  have b: "butlast (drop 2 ?pl) = body" by (simp add: butlast_append)
  have l: "uint (last ?pl) = ev" using r by (simp add: uint_byte)
  have k: "KeypadMessage_factory (p, s, ?pl, ft) = Inr m"
    unfolding KeypadMessage_factory_def
    using assms nibble_or[OF assms(1), of 4] l b
    by (simp add: index_def bind_def OriginType_def enum_def Let_def del: try_each.simps)
  show ?thesis
    by (simp add: dispatch_def ComponentMessage_factory_def k del: append.simps)
qed

lemma keypad_payload_eq:
  assumes "four_bits seq" "0 \<le> ev" "ev < 256"
  shows "keypad_payload seq (Inr bd) ev = Inr ([0x1, word_of_int (push_bit 4 seq OR 0x4)] @ bd @ [word_of_int ev])"
  using assms nibble_or(1,2)[OF assms(1), of 4]
  by (simp add: keypad_payload_def bytes_of_def bind_def)

lemma simple_event_type_valid: "EventType (simple_event_type c) = Inr (simple_event_type c)"
  by (cases c) (simp_all add: EventType_def enum_def)

lemma find_simple_class: "find (\<lambda>c'. simple_event_type c = simple_event_type c') simple_classes = Some c"
  by (cases c) (simp_all add: simple_classes_def)

lemma round_trip_KeypadSimpleRequest:
  assumes "well_formed (KeypadSimpleRequest c s seq)"
  shows "\<exists>b. to_bytes (KeypadSimpleRequest c s seq) = Inr b
           \<and> Message_factory b = Inr (KeypadSimpleRequest c s seq)"
proof -
  let ?v = "KeypadSimpleRequest c s seq"
  let ?ev = "simple_event_type c"
  from assms have s: "device_serial s" and q: "four_bits seq" by simp_all
  from EventType_range[OF simple_event_type_valid[of c]] have r: "0 \<le> ?ev" "?ev < 256" by simp_all
  have pl: "payload ?v = Inr ([0x1, word_of_int (push_bit 4 seq OR 0x4)] @ [] @ [word_of_int ?ev])"
    using keypad_payload_eq[OF q r] by simp
  have c: "construct ?v = Inr ?v"
    using s pl by (simp add: construct_def bind_def device_serial_def)
  have t: "try_each
           [KeypadRemoveComponentScrollMenuRequest_factory, KeypadPinMessage_factory,
            AbstractKeypadSimpleRequest_factory, KeypadPrefixRequest_factory,
            AbstractKeypadModifyComponentMenuRequest_factory,
            KeypadAddComponentTypeMenuRequest_factory]
           (0x22, s, seq, ?ev, []) NotImplementedError = Inr ?v"
    by (simp add: KeypadRemoveComponentScrollMenuRequest_factory_def KeypadPinMessage_factory_def
        AbstractKeypadSimpleRequest_factory_def find_simple_class c)
  have d: "dispatch (plc ?v, sn ?v, [0x1, word_of_int (push_bit 4 seq OR 0x4)] @ [] @ [word_of_int ?ev], []) = Inr ?v"
    using keypad_frame_dispatch[OF q simple_event_type_valid t] by simp
  show ?thesis
    by (rule round_trip_via_dispatch[where pl = "[0x1, word_of_int (push_bit 4 seq OR 0x4)] @ [] @ [word_of_int ?ev]" and ft = "[]"])
       (use s pl d in \<open>simp_all add: PAYLOAD_LENGTHS_def\<close>)
qed


lemma round_trip_keypad:
  assumes "device_serial (sn v)" "four_bits seq" "EventType ev = Inr ev"
    and "payload v = keypad_payload seq (Inr body) ev" "footer v = Inr []"
    and "PAYLOAD_LENGTHS (plc v) = Some (length body + 3)"
    and "try_each
           [KeypadRemoveComponentScrollMenuRequest_factory, KeypadPinMessage_factory,
            AbstractKeypadSimpleRequest_factory, KeypadPrefixRequest_factory,
            AbstractKeypadModifyComponentMenuRequest_factory,
            KeypadAddComponentTypeMenuRequest_factory]
           (plc v, sn v, seq, ev, body) NotImplementedError = Inr v"
  shows "\<exists>b. to_bytes v = Inr b \<and> Message_factory b = Inr v"
proof -
  let ?pl = "[0x1, word_of_int (push_bit 4 seq OR 0x4)] @ body @ [word_of_int ev] :: byte list"
  from EventType_range[OF assms(3)] have r: "0 \<le> ev" "ev < 256" by simp_all
  have pl: "payload v = Inr ?pl"
    unfolding assms(4) using keypad_payload_eq[OF assms(2) r] .
  have d: "dispatch (plc v, sn v, ?pl, []) = Inr v"
    using keypad_frame_dispatch[OF assms(2,3,7)] .
  show ?thesis
    by (rule round_trip_via_dispatch[OF assms(1) pl assms(5) _ d]) (simp add: assms(6))
qed

lemma construct_eq:
  assumes "check_arguments v = Inr ()" "payload v = Inr pl" "footer v = Inr ft" "device_serial (sn v)"
  shows "construct v = Inr v"
  using assms by (simp add: construct_def bind_def device_serial_def)

lemma construct_keypad:
  assumes "check_arguments v = Inr ()" "device_serial (sn v)" "four_bits seq"
    "EventType ev = Inr ev" "payload v = keypad_payload seq (Inr body) ev" "footer v = Inr []"
  shows "construct v = Inr v"
proof -
  from EventType_range[OF assms(4)] have r: "0 \<le> ev" "ev < 256" by simp_all
  show ?thesis
    by (rule construct_eq[OF assms(1) _ assms(6) assms(2)])
       (simp add: assms(5) keypad_payload_eq[OF assms(3) r])
qed

lemma round_trip_KeypadRemoveComponentScrollMenuRequest:
  assumes "well_formed (KeypadRemoveComponentScrollMenuRequest s seq n)"
  shows "\<exists>b. to_bytes (KeypadRemoveComponentScrollMenuRequest s seq n) = Inr b
           \<and> Message_factory b = Inr (KeypadRemoveComponentScrollMenuRequest s seq n)"
proof -
  let ?v = "KeypadRemoveComponentScrollMenuRequest s seq n"
  from assms have s: "device_serial s" and q: "four_bits seq" and n: "0 \<le> n" "n < 256" by simp_all
  have e: "EventType 0x45 = Inr 0x45" by (simp add: EventType_def enum_def)
  have b: "bytes_of [n] = Inr [word_of_int n]" using n by (simp add: bytes_of_def)
  have pl: "payload ?v = keypad_payload seq (Inr [word_of_int n]) 0x45" by (simp add: b)
  have c: "construct ?v = Inr ?v"
    by (rule construct_keypad[OF _ _ q e pl]) (use s in simp_all)
  show ?thesis
    by (rule round_trip_keypad[OF _ q e pl])
       (use s n c in \<open>simp_all add: PAYLOAD_LENGTHS_def KeypadRemoveComponentScrollMenuRequest_factory_def
          index_def bind_def uint_byte\<close>)
qed

lemma round_trip_KeypadAddComponentTypeMenuRequest:
  assumes "well_formed (KeypadAddComponentTypeMenuRequest s seq ct)"
  shows "\<exists>b. to_bytes (KeypadAddComponentTypeMenuRequest s seq ct) = Inr b
           \<and> Message_factory b = Inr (KeypadAddComponentTypeMenuRequest s seq ct)"
proof -
  let ?v = "KeypadAddComponentTypeMenuRequest s seq ct"
  from assms have s: "device_serial s" and q: "four_bits seq" and n: "0 \<le> ct" "ct \<le> 9" by simp_all
  have e: "EventType 0x75 = Inr 0x75" by (simp add: EventType_def enum_def)
  have b: "bytes_of [ct] = Inr [word_of_int ct]" using n by (simp add: bytes_of_def)
  have ct: "ComponentType ct = Inr ct"
    using n by (simp add: ComponentType_def enum_def) arith
  have pl: "payload ?v = keypad_payload seq (Inr [word_of_int ct]) 0x75" by (simp add: b)
  have c: "construct ?v = Inr ?v"
    by (rule construct_keypad[OF _ _ q e pl]) (use s in simp_all)
  show ?thesis
    by (rule round_trip_keypad[OF _ q e pl])
       (use s n c ct in \<open>simp_all add: PAYLOAD_LENGTHS_def KeypadRemoveComponentScrollMenuRequest_factory_def
          KeypadPinMessage_factory_def AbstractKeypadSimpleRequest_factory_def
          KeypadPrefixRequest_factory_def AbstractKeypadModifyComponentMenuRequest_factory_def
          KeypadAddComponentTypeMenuRequest_factory_def
          index_def bind_def uint_byte\<close>)
qed

lemma digit_char:
  assumes "is_digit c"
  shows "\<exists>d. digit_val c = Inr d \<and> 0 \<le> d \<and> d \<le> 9 \<and> str_int d = [c]"
proof -
  let ?d = "(of_char c :: int) - 48"
  from assms have r: "0 \<le> ?d" "?d \<le> 9" by (simp_all add: is_digit_def)
  have "digit_val c = Inr ?d" using assms by (simp add: digit_val_def is_digit_def)
  moreover have "str_int ?d = [c]" using r by (simp add: str_int_def)
  ultimately show ?thesis using r by blast
qed

lemma pin_class_cases:
  assumes "construct (KeypadPinRequest c s seq pin) = Inr v"
  shows "try_each (map KeypadPinRequest_factory pin_classes) (s, seq, pin_event_type c, pin)
     InvalidMessageBytesError = Inr v"
  using assms by (cases c) (simp_all add: pin_classes_def KeypadPinRequest_factory_def)

lemma pin_event_type_valid: "EventType (pin_event_type c) = Inr (pin_event_type c)"
  by (cases c) (simp_all add: EventType_def enum_def)

lemma round_trip_KeypadPinRequest:
  assumes "well_formed (KeypadPinRequest c s seq pin)"
  shows "\<exists>b. to_bytes (KeypadPinRequest c s seq pin) = Inr b
           \<and> Message_factory b = Inr (KeypadPinRequest c s seq pin)"
proof -
  let ?v = "KeypadPinRequest c s seq pin"
  from assms have s: "device_serial s" and q: "four_bits seq"
    and l: "length pin = 4" and dg: "\<forall>ch \<in> set pin. is_digit ch" by simp_all
  from l obtain c0 c1 c2 c3 where pin: "pin = [c0, c1, c2, c3]"
    by (auto simp: length_Suc_conv eval_nat_numeral)
  from dg pin obtain d0 d1 d2 d3 where
    d0: "digit_val c0 = Inr d0" "0 \<le> d0" "d0 \<le> 9" "str_int d0 = [c0]" and
    d1: "digit_val c1 = Inr d1" "0 \<le> d1" "d1 \<le> 9" "str_int d1 = [c1]" and
    d2: "digit_val c2 = Inr d2" "0 \<le> d2" "d2 \<le> 9" "str_int d2 = [c2]" and
    d3: "digit_val c3 = Inr d3" "0 \<le> d3" "d3 \<le> 9" "str_int d3 = [c3]"
    using digit_char[of c0] digit_char[of c1] digit_char[of c2] digit_char[of c3] by auto
  define x0 x1 where x: "x0 = push_bit 4 d1 + d0" "x1 = push_bit 4 d3 + d2"
  have x0: "0 \<le> x0" "x0 < 256" "x0 AND 0xF = d0" "drop_bit 4 x0 = d1"
    unfolding x using nib_pack[of d1 d0] d0 d1 by simp_all
  have x1: "0 \<le> x1" "x1 < 256" "x1 AND 0xF = d2" "drop_bit 4 x1 = d3"
    unfolding x using nib_pack[of d3 d2] d2 d3 by simp_all
  let ?body = "[word_of_int x0, word_of_int x1, 0x0F, 0xF0] :: byte list"
  have pb: "pin_payload_body pin = Inr ?body"
    using d0 d1 d2 d3 x0(1,2) x1(1,2)
    by (simp add: pin_payload_body_def digit_at_def index_def bind_def pin bytes_of_def
        payload_body_suffix_def x[symmetric])
  have e: "EventType (pin_event_type c) = Inr (pin_event_type c)" by (rule pin_event_type_valid)
  have pl: "payload ?v = keypad_payload seq (Inr ?body) (pin_event_type c)" by (simp add: pb)
  have c: "construct ?v = Inr ?v"
    by (rule construct_keypad[OF _ _ q e pl]) (use s l dg in simp_all)
  have pin': "str_int d0 @ str_int d1 @ str_int d2 @ str_int d3 = pin"
    by (simp add: d0 d1 d2 d3 pin)
  have k: "KeypadPinMessage_factory (0x66, s, seq, pin_event_type c, ?body) = Inr ?v"
    unfolding KeypadPinMessage_factory_def
    using x0 x1 d0(4) d1(4) d2(4) d3(4)
    by (simp add: payload_body_suffix_def index_def bind_def uint_byte Let_def
        pin_class_cases[OF c] pin[symmetric] del: try_each.simps)
  show ?thesis
    by (rule round_trip_keypad[OF _ q e pl])
       (use s k in \<open>simp_all add: PAYLOAD_LENGTHS_def KeypadRemoveComponentScrollMenuRequest_factory_def\<close>)
qed

subsection \<open>Serial numbers of components\<close>

text \<open>
  A serial number of at most five characters in the range \<open>0x30..0x6E\<close> is packed with
  the filler \<open>0x3F\<close> in the missing places and comes back from \<open>unpack\<close> without it.
\<close>

lemma packed0_range: "0 \<le> packed0 b0 b1 \<and> packed0 b0 b1 < 256"
  using packed0_byte[of b0 b1] by (simp only: take_bit_int_eq_self_iff) simp

lemma packed2_range: "0 \<le> packed2 b0 b1 b4 \<and> packed2 b0 b1 b4 < 256"
  using packed2_byte[of b0 b1 b4] by (simp only: take_bit_int_eq_self_iff) simp

lemma packed3_range: "0 \<le> packed3 hb lb b2 b3 b4 \<and> packed3 hb lb b2 b3 b4 < 256"
  using packed3_byte[of hb lb b2 b3 b4] by (simp only: take_bit_int_eq_self_iff) simp

lemma packed_unpack:
  assumes "0 \<le> b0" "b0 < 64" "0 \<le> b1" "b1 < 64" "0 \<le> b2" "b2 < 64"
    "0 \<le> b3" "b3 < 64" "0 \<le> b4" "b4 < 64"
  shows "unpack_ASCII_4B5C (map word_of_int
           [packed0 b0 b1, packed0 b2 b3, packed2 b0 b1 b4, packed3 hb lb b2 b3 b4])
         = Inr (map (\<lambda>c. char_of (c + 0x30)) (takeWhile (\<lambda>c. c \<noteq> 0x3F) [b0, b1, b2, b3, b4]),
                hb, lb)"
proof -
  have six: "take_bit 6 b0 = b0" "take_bit 6 b1 = b1" "take_bit 6 b2 = b2" "take_bit 6 b3 = b3"
      "take_bit 6 b4 = b4"
    using assms by (simp_all add: six_bit)
  have u: "uint (word_of_int (packed0 b0 b1) :: byte) = packed0 b0 b1"
      "uint (word_of_int (packed0 b2 b3) :: byte) = packed0 b2 b3"
      "uint (word_of_int (packed2 b0 b1 b4) :: byte) = packed2 b0 b1 b4"
      "uint (word_of_int (packed3 hb lb b2 b3 b4) :: byte) = packed3 hb lb b2 b3 b4"
    using packed0_range[of b0 b1] packed0_range[of b2 b3] packed2_range[of b0 b1 b4]
      packed3_range[of hb lb b2 b3 b4]
    by (simp_all add: uint_byte)
  show ?thesis
    unfolding unpack_ASCII_4B5C_def
    by (simp add: u Let_def unpacked_char0[simplified] unpacked_char1 unpacked_char2
        unpacked_char3 unpacked_char4[simplified] unpacked_hb unpacked_lb six
        del: takeWhile.simps)
qed

lemma pack_ASCII_eq:
  assumes "map (\<lambda>i. if i < length s then of_char (s ! i) - 0x30 else (0x3F :: int)) [0, 1, 2, 3, 4]
           = [b0, b1, b2, b3, b4]"
  shows "pack ASCII_4B5C s hb lb = Inr (map word_of_int
           [packed0 b0 b1, packed0 b2 b3, packed2 b0 b1 b4, packed3 hb lb b2 b3 b4])"
proof -
  have idx: "[b0, b1, b2, b3, b4] ! 0 = b0" "[b0, b1, b2, b3, b4] ! 1 = b1" "[b0, b1, b2, b3, b4] ! 2 = b2"
     "[b0, b1, b2, b3, b4] ! 3 = b3" "[b0, b1, b2, b3, b4] ! 4 = b4"
    by simp_all
  have "pack ASCII_4B5C s hb lb = bytes_of [packed0 b0 b1, packed0 b2 b3, packed2 b0 b1 b4, packed3 hb lb b2 b3 b4]"
    unfolding pack_def pack_ASCII_4B5C_def assms Let_def idx packed0_def packed2_def packed3_def by simp
  then show ?thesis
    using packed0_range[of b0 b1] packed0_range[of b2 b3] packed2_range[of b0 b1 b4]
      packed3_range[of hb lb b2 b3 b4]
    by (simp add: bytes_of_def)
qed


lemma sn_code_range:
  assumes "component_serial s"
  shows "0 \<le> sn_code s i" "sn_code s i < 64"
proof -
  have "0 \<le> sn_code s i \<and> sn_code s i < 64"
  proof (cases "i < length s")
    case True
    then have "s ! i \<in> set s" by simp
    with assms have "0x30 \<le> (of_char (s ! i) :: int) \<and> (of_char (s ! i) :: int) \<le> 0x6E"
      unfolding component_serial_def by blast
    then show ?thesis using True by (simp add: sn_code_def)
  next
    case False then show ?thesis by (simp add: sn_code_def)
  qed
  then show "0 \<le> sn_code s i" "sn_code s i < 64" by simp_all
qed

lemma sn_code_takeWhile:
  assumes "component_serial s"
  shows "map (\<lambda>c. char_of (c + 0x30))
           (takeWhile (\<lambda>c. c \<noteq> 0x3F) [sn_code s 0, sn_code s 1, sn_code s 2, sn_code s 3, sn_code s 4]) = s"
proof -
  from assms have l: "length s \<le> 5"
    and r: "\<forall>c \<in> set s. (of_char c :: int) - 48 \<noteq> 63" by (auto simp: component_serial_def)
  from l consider "length s = 0" | "length s = 1" | "length s = 2" | "length s = 3"
    | "length s = 4" | "length s = 5" by arith
  then show ?thesis
  proof cases
    case 1 then show ?thesis by (simp add: sn_code_def)
  next
    case 2 then obtain c0 where "s = [c0]" by (auto simp: length_Suc_conv)
    then show ?thesis using r by (simp add: sn_code_def)
  next
    case 3 then obtain c0 c1 where "s = [c0, c1]" by (auto simp: length_Suc_conv eval_nat_numeral)
    then show ?thesis using r by (simp add: sn_code_def)
  next
    case 4 then obtain c0 c1 c2 where "s = [c0, c1, c2]" by (auto simp: length_Suc_conv eval_nat_numeral)
    then show ?thesis using r by (simp add: sn_code_def)
  next
    case 5 then obtain c0 c1 c2 c3 where "s = [c0, c1, c2, c3]" by (auto simp: length_Suc_conv eval_nat_numeral)
    then show ?thesis using r by (simp add: sn_code_def)
  next
    case 6 then obtain c0 c1 c2 c3 c4 where "s = [c0, c1, c2, c3, c4]" by (auto simp: length_Suc_conv eval_nat_numeral)
    then show ?thesis using r by (simp add: sn_code_def)
  qed
qed

lemma component_serial_round_trip:
  assumes "component_serial s"
  shows "\<exists>body. pack ASCII_4B5C s hb lb = Inr body \<and> length body = 4
           \<and> unpack_ASCII_4B5C body = Inr (s, hb, lb)"
proof -
  let ?b = "sn_code s"
  let ?body = "map word_of_int
           [packed0 (?b 0) (?b 1), packed0 (?b 2) (?b 3), packed2 (?b 0) (?b 1) (?b 4),
            packed3 hb lb (?b 2) (?b 3) (?b 4)] :: byte list"
  have p: "pack ASCII_4B5C s hb lb = Inr ?body"
    by (rule pack_ASCII_eq) (simp add: sn_code_def)
  have "unpack_ASCII_4B5C ?body = Inr (s, hb, lb)"
    unfolding packed_unpack[OF sn_code_range[OF assms] sn_code_range[OF assms] sn_code_range[OF assms]
        sn_code_range[OF assms] sn_code_range[OF assms]]
      sn_code_takeWhile[OF assms] ..
  with p show ?thesis by simp
qed

lemma pin_classes_reject:
  assumes "\<forall>c. ev \<noteq> pin_event_type c"
  shows "try_each (map KeypadPinRequest_factory pin_classes) (s, seq, ev, pin)
           InvalidMessageBytesError = Inl InvalidMessageBytesError"
proof -
  from assms have "ev \<noteq> pin_event_type KeypadDisarmPinRequest"
    "ev \<noteq> pin_event_type KeypadNewPinRequest" "ev \<noteq> pin_event_type KeypadMenuPinRequest"
    by blast+
  then show ?thesis by (simp add: pin_classes_def KeypadPinRequest_factory_def)
qed

lemma KeypadPinMessage_factory_rejects:
  assumes "\<forall>c. ev \<noteq> pin_event_type c" "length body = 4"
  shows "\<exists>e. KeypadPinMessage_factory (p, s, seq, ev, body) = Inl e \<and> is_ValueError e"
  unfolding KeypadPinMessage_factory_def
  using assms(2)
  by (simp add: index_def bind_def Let_def pin_classes_reject[OF assms(1)] del: try_each.simps)

lemma modify_event_type_valid: "EventType (modify_event_type c) = Inr (modify_event_type c)"
  by (cases c) (simp_all add: EventType_def enum_def)

lemma modify_event_type_no_pin: "modify_event_type c \<noteq> pin_event_type c'"
  by (cases c; cases c') simp_all

lemma find_modify_class:
  "c \<noteq> KeypadAddSmokeDetectorMenuRequest \<Longrightarrow>
   find (\<lambda>c'. modify_event_type c = modify_event_type c') modify_classes = Some c"
  by (cases c) (simp_all add: modify_classes_def)

lemma round_trip_KeypadModifyComponentMenuRequest:
  assumes "well_formed (KeypadModifyComponentMenuRequest c s seq c_sn)"
    and "\<not> shadowed (KeypadModifyComponentMenuRequest c s seq c_sn)"
  shows "\<exists>b. to_bytes (KeypadModifyComponentMenuRequest c s seq c_sn) = Inr b
           \<and> Message_factory b = Inr (KeypadModifyComponentMenuRequest c s seq c_sn)"
proof -
  let ?v = "KeypadModifyComponentMenuRequest c s seq c_sn"
  let ?ev = "modify_event_type c"
  from assms have s: "device_serial s" and q: "four_bits seq"
    and c: "c \<noteq> KeypadAddSmokeDetectorMenuRequest" and cs: "component_serial c_sn" by simp_all
  obtain body hb lb where pb: "modify_payload_body c_sn = Inr body" and l: "length body = 4"
    and u: "unpack_ASCII_4B5C body = Inr (c_sn, hb, lb)"
    using component_serial_round_trip[OF cs, of False False]
      component_serial_round_trip[OF cs, of True True]
    unfolding modify_payload_body_def by (cases "length c_sn = 5") auto
  have e: "EventType ?ev = Inr ?ev" by (rule modify_event_type_valid)
  have pl: "payload ?v = keypad_payload seq (Inr body) ?ev" by (simp add: pb)
  have k: "construct ?v = Inr ?v"
    by (rule construct_keypad[OF _ _ q e pl]) (use s in simp_all)
  obtain e1 where p: "KeypadPinMessage_factory (0x66, s, seq, ?ev, body) = Inl e1" "is_ValueError e1"
    using KeypadPinMessage_factory_rejects[OF _ l, where ev = "?ev" and p = "0x66" and s = s and seq = seq]
      modify_event_type_no_pin
    by blast
  have x: "KeypadPrefixRequest_factory (0x66, s, seq, ?ev, body) = Inl InvalidMessageBytesError"
    by (cases c) (simp_all add: KeypadPrefixRequest_factory_def)
  have m: "AbstractKeypadModifyComponentMenuRequest_factory (0x66, s, seq, ?ev, body) = Inr ?v"
    by (simp add: AbstractKeypadModifyComponentMenuRequest_factory_def u bind_def
        find_modify_class[OF c] k)
  show ?thesis
    by (rule round_trip_keypad[OF _ q e pl])
       (use s l p x m in \<open>simp_all add: PAYLOAD_LENGTHS_def
          KeypadRemoveComponentScrollMenuRequest_factory_def AbstractKeypadSimpleRequest_factory_def\<close>)
qed

subsection \<open>Sensor messages\<close>

lemma sensor_EventType_range: "sensor_EventType c ev = Inr x \<Longrightarrow> 0 \<le> ev \<and> ev \<le> 3"
  by (cases c) (auto simp: enum_def split: if_splits)

lemma sensor_origin_type_range: "0 \<le> sensor_origin_type c \<and> sensor_origin_type c < 16"
  by (cases c) simp_all

lemma sensor_leaf_cases:
  assumes "sensor_EventType c ev = Inr ev" "construct (SensorMessage c s seq ev) = Inr v"
  shows "try_each (map SensorMessage_leaf_factory sensor_classes)
           (s, sensor_origin_type c, seq, ev) NotImplementedError = Inr v"
  using assms by (cases c) (simp_all add: sensor_classes_def SensorMessage_leaf_factory_def bind_def)

lemma keypad_rejects_sensor:
  assumes "four_bits seq"
  shows "\<exists>e. KeypadMessage_factory
           (p, s, word_of_int (push_bit 4 seq OR sensor_origin_type c) # rest, ft) = Inl e
         \<and> is_ValueError e"
proof -
  let ?o = "sensor_origin_type c"
  let ?x = "push_bit 4 seq OR ?o"
  note n = nibble_or[OF assms, of ?o]
  have u: "uint (word_of_int ?x :: byte) = ?x" using n(5) sensor_origin_type_range[of c] by simp
  have o: "?x AND 0xF = ?o" using n(4) sensor_origin_type_range[of c] by simp
  have "?x \<noteq> 1"
  proof
    assume "?x = 1"
    then have "?o = 1 AND 0xF" using o by simp
    then show False by (cases c) simp_all
  qed
  then show ?thesis
    unfolding KeypadMessage_factory_def
    by (cases "OriginType ?x")
       (auto simp: index_def bind_def u OriginType_def enum_def split: if_splits)
qed

lemma round_trip_SensorMessage:
  assumes "well_formed (SensorMessage c s seq ev)"
  shows "\<exists>b. to_bytes (SensorMessage c s seq ev) = Inr b
           \<and> Message_factory b = Inr (SensorMessage c s seq ev)"
proof -
  let ?v = "SensorMessage c s seq ev"
  let ?o = "sensor_origin_type c"
  let ?x = "push_bit 4 seq OR ?o"
  from assms have s: "device_serial s" and q: "four_bits seq"
    and e: "sensor_EventType c ev = Inr ev" by simp_all
  note o = sensor_origin_type_range[of c]
  note n = nibble_or[OF q, of ?o]
  from sensor_EventType_range[OF e] have r: "0 \<le> ev" "ev < 256" by simp_all
  have a: "push_bit 4 seq + ?o = ?x"
    using nibble_or_add[of ?o seq] o by (simp add: push_bit_eq_mult)
  let ?pl = "[word_of_int ?x, word_of_int ev] :: byte list"
  have pl: "payload ?v = Inr ?pl"
    using n(1,2) o r by (simp add: a bytes_of_def)
  have ca: "check_arguments ?v = Inr ()"
    using e by (cases c) (simp_all add: bind_def)
  have k: "construct ?v = Inr ?v"
    by (rule construct_eq[OF ca pl]) (use s in simp_all)
  obtain e1 where kp: "KeypadMessage_factory (0x11, s, ?pl, []) = Inl e1" "is_ValueError e1"
    using keypad_rejects_sensor[OF q] by blast
  have ot: "OriginType ?o = Inr ?o" by (cases c) (simp_all add: OriginType_def enum_def)
  have sm: "SensorMessage_factory (0x11, s, ?pl, []) = Inr ?v"
    unfolding SensorMessage_factory_def
    using n o r ot
    by (simp add: index_def bind_def uint_byte Let_def sensor_leaf_cases[OF e k]
        del: try_each.simps)
  have d: "dispatch (plc ?v, sn ?v, ?pl, []) = Inr ?v"
    using kp sm by (simp add: dispatch_def ComponentMessage_factory_def)
  show ?thesis
    by (rule round_trip_via_dispatch[OF _ pl _ _ d]) (use s in \<open>simp_all add: PAYLOAD_LENGTHS_def\<close>)
qed

subsection \<open>Messages of the base station\<close>

text \<open>
  The last byte of the footer of a message of the base station holds the sequence number in
  its high nibble and the info type in its low nibble; the five bytes before it are the
  packed serial number of the base station or the constant footer of a menu message.
\<close>

lemma upper_hex_digit:
  assumes "is_upper_hex c"
  shows "\<exists>v. hex_val c = Inr v \<and> 0 \<le> v \<and> v < 16 \<and> format_X v = [c]"
proof -
  from assms have h: "is_hex c" and u: "upper_hex c = c"
    by (auto simp: is_upper_hex_def is_hex_def upper_hex_def Let_def)
  from hex_vals[OF h] u show ?thesis by (auto simp: format_X_def)
qed

lemma base_station_serial_round_trip:
  assumes "base_station_serial bsn"
  shows "\<exists>fb. status_footer_body bsn = Inr fb \<and> length fb = 5 \<and> unpack_HEX_5B6C fb = Inr bsn"
proof -
  from assms have l: "length bsn = 6" and a: "\<forall>c \<in> set bsn. is_upper_hex c"
    by (simp_all add: base_station_serial_def)
  from l obtain c0 c1 c2 c3 c4 c5 where h: "bsn = [c0, c1, c2, c3, c4, c5]"
    by (auto simp: length_Suc_conv eval_nat_numeral)
  from a h obtain v0 v1 v2 v3 v4 v5 where
    v0: "hex_val c0 = Inr v0" "0 \<le> v0" "v0 < 16" "format_X v0 = [c0]" and
    v1: "hex_val c1 = Inr v1" "0 \<le> v1" "v1 < 16" "format_X v1 = [c1]" and
    v2: "hex_val c2 = Inr v2" "0 \<le> v2" "v2 < 16" "format_X v2 = [c2]" and
    v3: "hex_val c3 = Inr v3" "0 \<le> v3" "v3 < 16" "format_X v3 = [c3]" and
    v4: "hex_val c4 = Inr v4" "0 \<le> v4" "v4 < 16" "format_X v4 = [c4]" and
    v5: "hex_val c5 = Inr v5" "0 \<le> v5" "v5 < 16" "format_X v5 = [c5]"
    using upper_hex_digit[of c0] upper_hex_digit[of c1] upper_hex_digit[of c2]
      upper_hex_digit[of c3] upper_hex_digit[of c4] upper_hex_digit[of c5]
    by auto
  define x3 where "x3 = push_bit 4 v5 + v3"
  have x3: "0 \<le> x3" "x3 < 256" "x3 AND 0xF = v3" "drop_bit 4 x3 = v5"
    unfolding x3_def using nib_pack[of v5 v3] v3 v5 by simp_all
  let ?fb = "map word_of_int [v0, v1, v2, x3, v4] :: byte list"
  have p: "status_footer_body bsn = Inr ?fb"
    using v0 v1 v2 v3 v4 v5 x3(1,2)
    by (simp add: status_footer_body_def pack_def pack_HEX_5B6C_def hex_at_def index_def bind_def h
        bytes_of_def x3_def[symmetric])
  have "unpack_HEX_5B6C ?fb = Inr bsn"
    using v0 v1 v2 v3 v4 v5 x3
    by (simp add: unpack_HEX_5B6C_def uint_byte nib_lo h)
  with p show ?thesis by simp
qed

lemma repacked_bs_sn_eq: "base_station_serial bsn \<Longrightarrow> repacked_bs_sn bsn = Inr bsn"
  using base_station_serial_round_trip[of bsn] by (auto simp: repacked_bs_sn_def bind_def)

lemma MessageType_range: "MessageType mt = Inr x \<Longrightarrow> x = mt \<and> 0 \<le> mt \<and> mt < 256"
  by (auto simp: MessageType_def enum_def split: if_splits)

lemma InfoType_range: "InfoType it = Inr x \<Longrightarrow> x = it \<and> 0 \<le> it \<and> it < 16"
  by (auto simp: InfoType_def enum_def split: if_splits)

lemma base_station_payload_eq:
  assumes "MessageType mt = Inr mt" "EventType ev = Inr ev"
  shows "base_station_payload mt (Inr bd) ev = Inr ([0x0, word_of_int mt] @ bd @ [word_of_int ev])"
  using MessageType_range[OF assms(1)] EventType_range[OF assms(2)]
  by (simp add: base_station_payload_def bytes_of_def bind_def)

lemma base_station_footer_eq:
  assumes "four_bits seq" "InfoType it = Inr it"
  shows "base_station_footer (Inr fb) seq it = Inr (fb @ [word_of_int (push_bit 4 seq OR it)])"
proof -
  from InfoType_range[OF assms(2)] have r: "0 \<le> it" "it < 16" by simp_all
  show ?thesis
    using nibble_or(1,2)[OF assms(1) r]
    by (simp add: base_station_footer_def bytes_of_def bind_def)
qed

lemma base_station_frame_dispatch:
  assumes "four_bits seq" "EventType ev = Inr ev" "MessageType mt = Inr mt" "InfoType it = Inr it"
    and "length fb = 5" "p \<noteq> 0x11"
    and "try_each BaseStationKeypadMessage_subclasses (p, s, seq, mt, it, ev, body, fb)
           NotImplementedError = Inr m"
  shows "dispatch (p, s, [0x0, word_of_int mt] @ body @ [word_of_int ev],
                   fb @ [word_of_int (push_bit 4 seq OR it)]) = Inr m"
proof -
  from EventType_range[OF assms(2)] have r: "0 \<le> ev" "ev < 256" by simp_all
  from MessageType_range[OF assms(3)] have rm: "0 \<le> mt" "mt < 256" by simp_all
  from InfoType_range[OF assms(4)] have ri: "0 \<le> it" "it < 16" by simp_all
  let ?pl = "[0x0, word_of_int mt] @ body @ [word_of_int ev] :: byte list"
  let ?ft = "fb @ [word_of_int (push_bit 4 seq OR it)] :: byte list"
  have b: "butlast (drop 2 ?pl) = body" by (simp add: butlast_append)
  have l: "uint (last ?pl) = ev" using r by (simp add: uint_byte)
  have f5: "index ?ft 5 = Inr (word_of_int (push_bit 4 seq OR it))"
    using assms(5) by (simp add: index_def nth_append)
  have bf: "butlast ?ft = fb" by simp
  have k: "KeypadMessage_factory (p, s, ?pl, ?ft) = Inl InvalidMessageBytesError"
    by (simp add: KeypadMessage_factory_def index_def bind_def OriginType_def enum_def)
  have sm: "SensorMessage_factory (p, s, ?pl, ?ft) = Inl InvalidMessageBytesError"
    using assms(6) by (simp add: SensorMessage_factory_def)
  have c: "ComponentMessage_factory (p, s, ?pl, ?ft) = Inl ValueError"
    by (simp add: ComponentMessage_factory_def k sm del: append.simps)
  have i1: "index ?pl 0 = Inr 0" "index ?pl 1 = Inr (word_of_int mt)" by (simp_all add: index_def)
  have bs: "BaseStationKeypadMessage_factory (p, s, ?pl, ?ft) = Inr m"
    unfolding BaseStationKeypadMessage_factory_def
    using assms(1-4,7) nibble_or[OF assms(1) ri] rm
    by (simp only: prod.case i1 bind_def sum.case uint_byte l b f5 bf Let_def)
       (simp add: OriginType_def enum_def)
  show ?thesis
    by (simp add: dispatch_def c bs del: append.simps)
qed

lemma round_trip_base_station:
  assumes "device_serial (sn v)" "four_bits seq" "EventType ev = Inr ev" "MessageType mt = Inr mt"
    and "InfoType it = Inr it" "length fb = 5"
    and "payload v = base_station_payload mt (Inr body) ev"
    and "footer v = base_station_footer (Inr fb) seq it"
    and "PAYLOAD_LENGTHS (plc v) = Some (length body + 3)"
    and "try_each BaseStationKeypadMessage_subclasses (plc v, sn v, seq, mt, it, ev, body, fb)
           NotImplementedError = Inr v"
  shows "\<exists>b. to_bytes v = Inr b \<and> Message_factory b = Inr v"
proof -
  let ?pl = "[0x0, word_of_int mt] @ body @ [word_of_int ev] :: byte list"
  let ?ft = "fb @ [word_of_int (push_bit 4 seq OR it)] :: byte list"
  have pl: "payload v = Inr ?pl"
    unfolding assms(7) using base_station_payload_eq[OF assms(4,3)] .
  have ft: "footer v = Inr ?ft"
    unfolding assms(8) using base_station_footer_eq[OF assms(2,5)] .
  have p: "plc v \<noteq> 0x11"
    using assms(9) by (auto simp: PAYLOAD_LENGTHS_def)
  have d: "dispatch (plc v, sn v, ?pl, ?ft) = Inr v"
    using base_station_frame_dispatch[OF assms(2,3,4,5,6) p assms(10)] .
  show ?thesis
    by (rule round_trip_via_dispatch[OF assms(1) pl ft _ d]) (simp add: assms(9))
qed

lemma construct_base_station:
  assumes "check_arguments v = Inr ()" "device_serial (sn v)" "four_bits seq"
    "EventType ev = Inr ev" "MessageType mt = Inr mt" "InfoType it = Inr it"
    "payload v = base_station_payload mt (Inr body) ev"
    "footer v = base_station_footer (Inr fb) seq it"
  shows "construct v = Inr v"
  by (rule construct_eq[OF assms(1) _ _ assms(2)])
     (simp_all add: assms(7,8) base_station_payload_eq[OF assms(5,4)]
        base_station_footer_eq[OF assms(3,6)])

lemmas base_station_factories =
  BaseStationKeypadMessage_subclasses_def
  BaseStationKeypadExtendedStatusMessage_factory_def
  BaseStationKeypadStatusUpdate_factory_def
  BaseStationKeypadDisarmPinResponse_factory_def
  BaseStationKeypadMenuPinResponse_factory_def
  BaseStationKeypadConstantStatus_factory_def
  BaseStationKeypadConstantMenu_factory_def
  AbstractBaseStationKeypadAddComponentSerialMenuResponse_factory_def
  AbstractBaseStationKeypadSimpleStatusMessage_factory_def
  AbstractBaseStationKeypadSimpleMenuMessage_factory_def
  AbstractBaseStationKeypadRemoveComponentScrollMenuResponse_factory_def
  BaseStationKeypadEntrySensorUpdate_factory_def
  BaseStationKeypadSensorErrorUpdate_factory_def

lemma type_constants:
  "MessageType RESPONSE = Inr RESPONSE" "MessageType UPDATE = Inr UPDATE"
  "InfoType STATUS = Inr STATUS" "InfoType MENU = Inr MENU"
  by (simp_all add: MessageType_def InfoType_def enum_def RESPONSE_def UPDATE_def STATUS_def MENU_def)

lemma round_trip_BaseStationKeypadStatusUpdate:
  assumes "well_formed (BaseStationKeypadStatusUpdate s seq bsn flags)"
  shows "\<exists>b. to_bytes (BaseStationKeypadStatusUpdate s seq bsn flags) = Inr b
           \<and> Message_factory b = Inr (BaseStationKeypadStatusUpdate s seq bsn flags)"
proof -
  let ?v = "BaseStationKeypadStatusUpdate s seq bsn flags"
  from assms have s: "device_serial s" and q: "four_bits seq" and bs: "base_station_serial bsn"
    and n: "0 \<le> flags" "flags < 256" by simp_all
  obtain fb where fb: "status_footer_body bsn = Inr fb" "length fb = 5" "unpack_HEX_5B6C fb = Inr bsn"
    using base_station_serial_round_trip[OF bs] by blast
  have e: "EventType 0x31 = Inr 0x31" by (simp add: EventType_def enum_def)
  have b: "bytes_of [flags] = Inr [word_of_int flags]" using n by (simp add: bytes_of_def)
  have pl: "payload ?v = base_station_payload UPDATE (Inr [word_of_int flags]) 0x31" by (simp add: b)
  have ft: "footer ?v = base_station_footer (Inr fb) seq STATUS" by (simp add: fb)
  have c: "construct ?v = Inr ?v"
    by (rule construct_base_station[OF _ _ q e type_constants(2,3) pl ft]) (use s in simp_all)
  show ?thesis
    by (rule round_trip_base_station[OF _ q e type_constants(2,3) fb(2) pl ft])
       (use s n c fb(3) in \<open>simp_all add: PAYLOAD_LENGTHS_def base_station_factories
          index_def bind_def uint_byte RESPONSE_def UPDATE_def STATUS_def MENU_def\<close>)
qed


lemmas type_values = RESPONSE_def UPDATE_def STATUS_def MENU_def

lemma menu_footer_body_facts:
  "length menu_footer_body = 5" "\<exists>x. unpack_HEX_5B6C menu_footer_body = Inr x"
  by (simp_all add: menu_footer_body_def unpack_HEX_5B6C_def)

lemma round_trip_BaseStationKeypadEntrySensorUpdate:
  assumes "well_formed (BaseStationKeypadEntrySensorUpdate s seq bsn ese)"
  shows "\<exists>b. to_bytes (BaseStationKeypadEntrySensorUpdate s seq bsn ese) = Inr b
           \<and> Message_factory b = Inr (BaseStationKeypadEntrySensorUpdate s seq bsn ese)"
proof -
  let ?v = "BaseStationKeypadEntrySensorUpdate s seq bsn ese"
  from assms have s: "device_serial s" and q: "four_bits seq" and bs: "base_station_serial bsn"
    and n: "ese = 0 \<or> ese = 1" by simp_all
  obtain fb where fb: "status_footer_body bsn = Inr fb" "length fb = 5" "unpack_HEX_5B6C fb = Inr bsn"
    using base_station_serial_round_trip[OF bs] by blast
  have e: "EventType 0x27 = Inr 0x27" by (simp add: EventType_def enum_def)
  have b: "bytes_of [ese] = Inr [word_of_int ese]" using n by (auto simp: bytes_of_def)
  have u: "UpdateType ese = Inr ese" "uint (word_of_int ese :: byte) = ese"
    using n by (auto simp: UpdateType_def enum_def)
  have pl: "payload ?v = base_station_payload UPDATE (Inr [word_of_int ese]) 0x27" by (simp add: b)
  have ft: "footer ?v = base_station_footer (Inr fb) seq STATUS" by (simp add: fb)
  have c: "construct ?v = Inr ?v"
    by (rule construct_base_station[OF _ _ q e type_constants(2,3) pl ft]) (use s in simp_all)
  show ?thesis
    by (rule round_trip_base_station[OF _ q e type_constants(2,3) fb(2) pl ft])
       (use s u c fb(3) in \<open>simp_all add: PAYLOAD_LENGTHS_def base_station_factories
          index_def bind_def type_values\<close>)
qed

lemma disarm_pin_response_cases:
  assumes "repacked_bs_sn bsn = Inr bsn" "construct (BaseStationKeypadDisarmPinResponse c s seq bsn) = Inr v"
  shows "try_each (map BaseStationKeypadDisarmPinResponse_leaf_factory disarm_pin_response_classes)
           (s, seq, bsn, disarm_pin_response_type c) NotImplementedError = Inr v"
  using assms
  by (cases c) (simp_all add: disarm_pin_response_classes_def
      BaseStationKeypadDisarmPinResponse_leaf_factory_def bind_def)

lemma round_trip_BaseStationKeypadDisarmPinResponse:
  assumes "well_formed (BaseStationKeypadDisarmPinResponse c s seq bsn)"
  shows "\<exists>b. to_bytes (BaseStationKeypadDisarmPinResponse c s seq bsn) = Inr b
           \<and> Message_factory b = Inr (BaseStationKeypadDisarmPinResponse c s seq bsn)"
proof -
  let ?v = "BaseStationKeypadDisarmPinResponse c s seq bsn"
  let ?rt = "disarm_pin_response_type c"
  from assms have s: "device_serial s" and q: "four_bits seq" and bs: "base_station_serial bsn"
    by simp_all
  obtain fb where fb: "status_footer_body bsn = Inr fb" "length fb = 5" "unpack_HEX_5B6C fb = Inr bsn"
    using base_station_serial_round_trip[OF bs] by blast
  have e: "EventType 0x51 = Inr 0x51" by (simp add: EventType_def enum_def)
  have b: "bytes_of [?rt] = Inr [word_of_int ?rt]" by (cases c) (simp_all add: bytes_of_def)
  have u: "DisarmPin_ResponseType ?rt = Inr ?rt" "uint (word_of_int ?rt :: byte) = ?rt"
    by (cases c; simp add: DisarmPin_ResponseType_def enum_def)+
  have pl: "payload ?v = base_station_payload RESPONSE (Inr [word_of_int ?rt]) 0x51" by (simp add: b)
  have ft: "footer ?v = base_station_footer (Inr fb) seq STATUS" by (simp add: fb)
  have c: "construct ?v = Inr ?v"
    by (rule construct_base_station[OF _ _ q e type_constants(1,3) pl ft]) (use s in simp_all)
  note l = disarm_pin_response_cases[OF repacked_bs_sn_eq[OF bs] c]
  have f: "BaseStationKeypadDisarmPinResponse_factory
             (0x33, s, seq, RESPONSE, STATUS, 0x51, [word_of_int ?rt], fb) = Inr ?v"
    using u l fb(3)
    by (simp add: BaseStationKeypadDisarmPinResponse_factory_def index_def bind_def
        del: try_each.simps)
  show ?thesis
    by (rule round_trip_base_station[OF _ q e type_constants(1,3) fb(2) pl ft])
       (use s f in \<open>simp_all add: PAYLOAD_LENGTHS_def BaseStationKeypadMessage_subclasses_def
          BaseStationKeypadExtendedStatusMessage_factory_def
          BaseStationKeypadStatusUpdate_factory_def type_values\<close>)
qed

lemma menu_pin_response_cases:
  assumes "construct (BaseStationKeypadMenuPinResponse c s seq) = Inr v"
  shows "try_each (map BaseStationKeypadMenuPinResponse_leaf_factory menu_pin_response_classes)
           (s, seq, menu_pin_response_type c) NotImplementedError = Inr v"
  using assms
  by (cases c) (simp_all add: menu_pin_response_classes_def
      BaseStationKeypadMenuPinResponse_leaf_factory_def)

lemma round_trip_BaseStationKeypadMenuPinResponse:
  assumes "well_formed (BaseStationKeypadMenuPinResponse c s seq)"
  shows "\<exists>b. to_bytes (BaseStationKeypadMenuPinResponse c s seq) = Inr b
           \<and> Message_factory b = Inr (BaseStationKeypadMenuPinResponse c s seq)"
proof -
  let ?v = "BaseStationKeypadMenuPinResponse c s seq"
  let ?rt = "menu_pin_response_type c"
  from assms have s: "device_serial s" and q: "four_bits seq" by simp_all
  have e: "EventType 0x66 = Inr 0x66" by (simp add: EventType_def enum_def)
  have b: "bytes_of [?rt] = Inr [word_of_int ?rt]" by (cases c) (simp_all add: bytes_of_def)
  have u: "MenuPin_ResponseType ?rt = Inr ?rt" "uint (word_of_int ?rt :: byte) = ?rt"
    by (cases c; simp add: MenuPin_ResponseType_def enum_def)+
  have pl: "payload ?v = base_station_payload RESPONSE (Inr [word_of_int ?rt]) 0x66" by (simp add: b)
  have ft: "footer ?v = base_station_footer (Inr menu_footer_body) seq MENU" by simp
  have c: "construct ?v = Inr ?v"
    by (rule construct_base_station[OF _ _ q e type_constants(1,4) pl ft]) (use s in simp_all)
  note l = menu_pin_response_cases[OF c]
  have f: "BaseStationKeypadMenuPinResponse_factory
             (0x33, s, seq, RESPONSE, MENU, 0x66, [word_of_int ?rt], menu_footer_body) = Inr ?v"
    using u l
    by (simp add: BaseStationKeypadMenuPinResponse_factory_def index_def bind_def
        del: try_each.simps)
  show ?thesis
    by (rule round_trip_base_station[OF _ q e type_constants(1,4) menu_footer_body_facts(1) pl ft])
       (use s f in \<open>simp_all add: PAYLOAD_LENGTHS_def BaseStationKeypadMessage_subclasses_def
          BaseStationKeypadExtendedStatusMessage_factory_def
          BaseStationKeypadStatusUpdate_factory_def
          BaseStationKeypadDisarmPinResponse_factory_def type_values\<close>)
qed

lemma constant_status_types:
  "EventType (constant_status_event_type c) = Inr (constant_status_event_type c)"
  "MessageType (constant_status_msg_type c) = Inr (constant_status_msg_type c)"
  "bytes_of [constant_status_payload_body c] = Inr [word_of_int (constant_status_payload_body c)]"
  by (cases c; simp add: EventType_def MessageType_def enum_def type_values bytes_of_def)+

lemma round_trip_BaseStationKeypadConstantStatus:
  assumes "well_formed (BaseStationKeypadConstantStatus c s seq bsn)"
  shows "\<exists>b. to_bytes (BaseStationKeypadConstantStatus c s seq bsn) = Inr b
           \<and> Message_factory b = Inr (BaseStationKeypadConstantStatus c s seq bsn)"
proof -
  let ?v = "BaseStationKeypadConstantStatus c s seq bsn"
  let ?body = "[word_of_int (constant_status_payload_body c)] :: byte list"
  from assms have s: "device_serial s" and q: "four_bits seq" and bs: "base_station_serial bsn"
    by simp_all
  obtain fb where fb: "status_footer_body bsn = Inr fb" "length fb = 5" "unpack_HEX_5B6C fb = Inr bsn"
    using base_station_serial_round_trip[OF bs] by blast
  note t = constant_status_types[of c]
  have pl: "payload ?v = base_station_payload (constant_status_msg_type c) (Inr ?body)
              (constant_status_event_type c)"
    by (simp add: t(3))
  have ft: "footer ?v = base_station_footer (Inr fb) seq STATUS" by (simp add: fb)
  have c: "construct ?v = Inr ?v"
    by (rule construct_base_station[OF _ _ q t(1,2) type_constants(3) pl ft]) (use s in simp_all)
  show ?thesis
    by (rule round_trip_base_station[OF _ q t(1,2) type_constants(3) fb(2) pl ft])
       (use s c fb(3) in \<open>cases c; simp add: PAYLOAD_LENGTHS_def base_station_factories
          index_def bind_def uint_byte type_values DisarmPin_ResponseType_def enum_def\<close>)+
qed

lemma constant_menu_types:
  "EventType (constant_menu_event_type c) = Inr (constant_menu_event_type c)"
  "bytes_of [constant_menu_payload_body c] = Inr [word_of_int (constant_menu_payload_body c)]"
  by (cases c; simp add: EventType_def enum_def bytes_of_def)+

lemma round_trip_BaseStationKeypadConstantMenu:
  assumes "well_formed (BaseStationKeypadConstantMenu c s seq)"
  shows "\<exists>b. to_bytes (BaseStationKeypadConstantMenu c s seq) = Inr b
           \<and> Message_factory b = Inr (BaseStationKeypadConstantMenu c s seq)"
proof -
  let ?v = "BaseStationKeypadConstantMenu c s seq"
  let ?body = "[word_of_int (constant_menu_payload_body c)] :: byte list"
  from assms have s: "device_serial s" and q: "four_bits seq" by simp_all
  note t = constant_menu_types[of c]
  have pl: "payload ?v = base_station_payload RESPONSE (Inr ?body) (constant_menu_event_type c)"
    by (simp add: t(2))
  have ft: "footer ?v = base_station_footer (Inr menu_footer_body) seq MENU" by simp
  have c: "construct ?v = Inr ?v"
    by (rule construct_base_station[OF _ _ q t(1) type_constants(1,4) pl ft]) (use s in simp_all)
  show ?thesis
    by (rule round_trip_base_station[OF _ q t(1) type_constants(1,4) menu_footer_body_facts(1) pl ft])
       (use s c in \<open>cases c; simp add: PAYLOAD_LENGTHS_def base_station_factories
          index_def bind_def uint_byte type_values\<close>)+
qed

lemma add_serial_event_type_valid:
  "EventType (add_serial_event_type c) = Inr (add_serial_event_type c)"
  by (cases c; simp add: EventType_def enum_def)

lemma find_add_serial_class:
  "c \<noteq> BaseStationKeypadAddSmokeDetectorMenuResponse \<Longrightarrow>
   find (\<lambda>c'. add_serial_event_type c = add_serial_event_type c') add_serial_classes = Some c"
  by (cases c) (simp_all add: add_serial_classes_def)

lemma round_trip_BaseStationKeypadAddComponentSerialMenuResponse:
  assumes "well_formed (BaseStationKeypadAddComponentSerialMenuResponse c s seq rt)"
    and "\<not> shadowed (BaseStationKeypadAddComponentSerialMenuResponse c s seq rt)"
  shows "\<exists>b. to_bytes (BaseStationKeypadAddComponentSerialMenuResponse c s seq rt) = Inr b
           \<and> Message_factory b = Inr (BaseStationKeypadAddComponentSerialMenuResponse c s seq rt)"
proof -
  let ?v = "BaseStationKeypadAddComponentSerialMenuResponse c s seq rt"
  let ?ev = "add_serial_event_type c"
  from assms have s: "device_serial s" and q: "four_bits seq"
    and c: "c \<noteq> BaseStationKeypadAddSmokeDetectorMenuResponse" and n: "rt = 0 \<or> rt = 1"
    by simp_all
  have e: "EventType ?ev = Inr ?ev" by (rule add_serial_event_type_valid)
  have b: "bytes_of [rt] = Inr [word_of_int rt]" using n by (auto simp: bytes_of_def)
  have u: "AddComponentSerial_ResponseType rt = Inr rt" "uint (word_of_int rt :: byte) = rt"
    using n by (auto simp: AddComponentSerial_ResponseType_def enum_def)
  have pl: "payload ?v = base_station_payload RESPONSE (Inr [word_of_int rt]) ?ev" by (simp add: b)
  have ft: "footer ?v = base_station_footer (Inr menu_footer_body) seq MENU" by simp
  have k: "construct ?v = Inr ?v"
    by (rule construct_base_station[OF _ _ q e type_constants(1,4) pl ft]) (use s in simp_all)
  have f: "AbstractBaseStationKeypadAddComponentSerialMenuResponse_factory
             (0x33, s, seq, RESPONSE, MENU, ?ev, [word_of_int rt], menu_footer_body) = Inr ?v"
    using u k
    by (simp add: AbstractBaseStationKeypadAddComponentSerialMenuResponse_factory_def index_def
        bind_def find_add_serial_class[OF c])
  show ?thesis
    by (rule round_trip_base_station[OF _ q e type_constants(1,4) menu_footer_body_facts(1) pl ft])
       (use s f in \<open>cases c; simp add: PAYLOAD_LENGTHS_def BaseStationKeypadMessage_subclasses_def
          BaseStationKeypadExtendedStatusMessage_factory_def
          BaseStationKeypadStatusUpdate_factory_def
          BaseStationKeypadDisarmPinResponse_factory_def
          BaseStationKeypadMenuPinResponse_factory_def
          BaseStationKeypadConstantStatus_factory_def
          BaseStationKeypadConstantMenu_factory_def type_values\<close>)+
qed

lemma simple_status_types:
  "EventType (simple_status_event_type c) = Inr (simple_status_event_type c)"
  "MessageType (simple_status_msg_type c) = Inr (simple_status_msg_type c)"
  by (cases c; simp add: EventType_def MessageType_def enum_def type_values)+

lemma find_simple_status_class:
  "find (\<lambda>c'. simple_status_msg_type c = simple_status_msg_type c' \<and> STATUS = STATUS
               \<and> simple_status_event_type c = simple_status_event_type c') simple_status_classes
   = Some c"
  by (cases c) (simp_all add: simple_status_classes_def type_values)

lemma round_trip_BaseStationKeypadSimpleStatus:
  assumes "well_formed (BaseStationKeypadSimpleStatus c s seq bsn)"
  shows "\<exists>b. to_bytes (BaseStationKeypadSimpleStatus c s seq bsn) = Inr b
           \<and> Message_factory b = Inr (BaseStationKeypadSimpleStatus c s seq bsn)"
proof -
  let ?v = "BaseStationKeypadSimpleStatus c s seq bsn"
  from assms have s: "device_serial s" and q: "four_bits seq" and bs: "base_station_serial bsn"
    by simp_all
  obtain fb where fb: "status_footer_body bsn = Inr fb" "length fb = 5" "unpack_HEX_5B6C fb = Inr bsn"
    using base_station_serial_round_trip[OF bs] by blast
  note t = simple_status_types[of c]
  have pl: "payload ?v = base_station_payload (simple_status_msg_type c) (Inr [])
              (simple_status_event_type c)"
    by simp
  have ft: "footer ?v = base_station_footer (Inr fb) seq STATUS" by (simp add: fb)
  have k: "construct ?v = Inr ?v"
    by (rule construct_base_station[OF _ _ q t(1,2) type_constants(3) pl ft]) (use s in simp_all)
  have f: "AbstractBaseStationKeypadSimpleStatusMessage_factory
             (0x22, s, seq, simple_status_msg_type c, STATUS, simple_status_event_type c, [], fb)
           = Inr ?v"
    using k fb(3)
    by (simp add: AbstractBaseStationKeypadSimpleStatusMessage_factory_def bind_def
        find_simple_status_class[simplified])
  show ?thesis
    by (rule round_trip_base_station[OF _ q t(1,2) type_constants(3) fb(2) pl ft])
       (use s f in \<open>simp_all add: PAYLOAD_LENGTHS_def BaseStationKeypadMessage_subclasses_def
          BaseStationKeypadExtendedStatusMessage_factory_def
          BaseStationKeypadStatusUpdate_factory_def
          BaseStationKeypadDisarmPinResponse_factory_def
          BaseStationKeypadMenuPinResponse_factory_def
          BaseStationKeypadConstantStatus_factory_def
          BaseStationKeypadConstantMenu_factory_def
          AbstractBaseStationKeypadAddComponentSerialMenuResponse_factory_def\<close>)
qed

lemma simple_menu_event_type_valid:
  "EventType (simple_menu_event_type c) = Inr (simple_menu_event_type c)"
  by (cases c; simp add: EventType_def enum_def)

lemma find_simple_menu_class:
  "find (\<lambda>c'. RESPONSE = RESPONSE \<and> MENU = MENU
               \<and> simple_menu_event_type c = simple_menu_event_type c'
               \<and> menu_footer_body = menu_footer_body) simple_menu_classes = Some c"
  by (cases c) (simp_all add: simple_menu_classes_def)

lemma find_no_simple_status:
  "find (\<lambda>c. mt = simple_status_msg_type c \<and> MENU = STATUS \<and> ev = simple_status_event_type c)
     simple_status_classes = None"
  by (simp add: simple_status_classes_def type_values)

lemma round_trip_BaseStationKeypadSimpleMenu:
  assumes "well_formed (BaseStationKeypadSimpleMenu c s seq)"
  shows "\<exists>b. to_bytes (BaseStationKeypadSimpleMenu c s seq) = Inr b
           \<and> Message_factory b = Inr (BaseStationKeypadSimpleMenu c s seq)"
proof -
  let ?v = "BaseStationKeypadSimpleMenu c s seq"
  let ?ev = "simple_menu_event_type c"
  from assms have s: "device_serial s" and q: "four_bits seq" by simp_all
  have e: "EventType ?ev = Inr ?ev" by (rule simple_menu_event_type_valid)
  have pl: "payload ?v = base_station_payload RESPONSE (Inr []) ?ev" by simp
  have ft: "footer ?v = base_station_footer (Inr menu_footer_body) seq MENU" by simp
  have k: "construct ?v = Inr ?v"
    by (rule construct_base_station[OF _ _ q e type_constants(1,4) pl ft]) (use s in simp_all)
  obtain x where x: "unpack_HEX_5B6C menu_footer_body = Inr x"
    using menu_footer_body_facts(2) by blast
  have g: "AbstractBaseStationKeypadSimpleStatusMessage_factory
             (0x22, s, seq, RESPONSE, MENU, ?ev, [], menu_footer_body) = Inl InvalidMessageBytesError"
    by (simp add: AbstractBaseStationKeypadSimpleStatusMessage_factory_def bind_def x
        find_no_simple_status)
  have f: "AbstractBaseStationKeypadSimpleMenuMessage_factory
             (0x22, s, seq, RESPONSE, MENU, ?ev, [], menu_footer_body) = Inr ?v"
    using k
    by (simp add: AbstractBaseStationKeypadSimpleMenuMessage_factory_def
        find_simple_menu_class[simplified])
  show ?thesis
    by (rule round_trip_base_station[OF _ q e type_constants(1,4) menu_footer_body_facts(1) pl ft])
       (use s f g in \<open>simp_all add: PAYLOAD_LENGTHS_def BaseStationKeypadMessage_subclasses_def
          BaseStationKeypadExtendedStatusMessage_factory_def
          BaseStationKeypadStatusUpdate_factory_def
          BaseStationKeypadDisarmPinResponse_factory_def
          BaseStationKeypadMenuPinResponse_factory_def
          BaseStationKeypadConstantStatus_factory_def
          BaseStationKeypadConstantMenu_factory_def
          AbstractBaseStationKeypadAddComponentSerialMenuResponse_factory_def\<close>)
qed

lemma scroll_event_type_valid:
  "EventType (scroll_event_type c) = Inr (scroll_event_type c)"
  by (cases c; simp add: EventType_def enum_def)

lemma find_scroll_class:
  "find (\<lambda>c'. scroll_event_type c = scroll_event_type c') scroll_classes = Some c"
  by (cases c) (simp_all add: scroll_classes_def)

lemma round_trip_BaseStationKeypadRemoveComponentScrollMenuResponse:
  assumes "well_formed (BaseStationKeypadRemoveComponentScrollMenuResponse c s seq c_sn l r)"
  shows "\<exists>b. to_bytes (BaseStationKeypadRemoveComponentScrollMenuResponse c s seq c_sn l r) = Inr b
           \<and> Message_factory b = Inr (BaseStationKeypadRemoveComponentScrollMenuResponse c s seq c_sn l r)"
proof -
  let ?v = "BaseStationKeypadRemoveComponentScrollMenuResponse c s seq c_sn l r"
  let ?ev = "scroll_event_type c"
  from assms have s: "device_serial s" and q: "four_bits seq" and cs: "component_serial c_sn"
    by simp_all
  obtain body where pb: "pack ASCII_4B5C c_sn l r = Inr body" and len: "length body = 4"
    and u: "unpack_ASCII_4B5C body = Inr (c_sn, l, r)"
    using component_serial_round_trip[OF cs, of l r] by blast
  have e: "EventType ?ev = Inr ?ev" by (rule scroll_event_type_valid)
  have pl: "payload ?v = base_station_payload RESPONSE (Inr body) ?ev" by (simp add: pb)
  have ft: "footer ?v = base_station_footer (Inr menu_footer_body) seq MENU" by simp
  have k: "construct ?v = Inr ?v"
    by (rule construct_base_station[OF _ _ q e type_constants(1,4) pl ft]) (use s in simp_all)
  have f: "AbstractBaseStationKeypadRemoveComponentScrollMenuResponse_factory
             (0x66, s, seq, RESPONSE, MENU, ?ev, body, menu_footer_body) = Inr ?v"
    using k
    by (simp add: AbstractBaseStationKeypadRemoveComponentScrollMenuResponse_factory_def
        bind_def u find_scroll_class)
  show ?thesis
    by (rule round_trip_base_station[OF _ q e type_constants(1,4) menu_footer_body_facts(1) pl ft])
       (use s f len in \<open>simp_all add: PAYLOAD_LENGTHS_def BaseStationKeypadMessage_subclasses_def
          BaseStationKeypadExtendedStatusMessage_factory_def
          BaseStationKeypadStatusUpdate_factory_def
          BaseStationKeypadDisarmPinResponse_factory_def
          BaseStationKeypadMenuPinResponse_factory_def
          BaseStationKeypadConstantStatus_factory_def
          BaseStationKeypadConstantMenu_factory_def
          AbstractBaseStationKeypadAddComponentSerialMenuResponse_factory_def
          AbstractBaseStationKeypadSimpleStatusMessage_factory_def
          AbstractBaseStationKeypadSimpleMenuMessage_factory_def type_values\<close>)
qed

lemma low_nibble: "four_bits (k AND 0xF)"
proof -
  have "k AND 0xF = k mod 16"
    by (simp add: mask_0F take_bit_eq_mod flip: take_bit_eq_mask)
  then show ?thesis by (simp add: four_bits_def)
qed

lemma nibbles_join: "push_bit 4 (drop_bit 4 k) OR (k AND 0xF) = (k :: int)"
proof -
  have m: "k AND 0xF = k mod 16"
    by (simp add: mask_0F take_bit_eq_mod flip: take_bit_eq_mask)
  have "push_bit 4 (drop_bit 4 k) OR (k mod 16) = 16 * drop_bit 4 k + k mod 16"
    by (rule nibble_or_add) simp_all
  then show ?thesis by (simp add: m drop_bit_eq_div)
qed

lemma extended_status_types:
  "EventType (extended_status_event_type c) = Inr (extended_status_event_type c)"
  "MessageType (extended_status_msg_type c) = Inr (extended_status_msg_type c)"
  by (cases c; simp add: EventType_def MessageType_def enum_def type_values)+

lemma extended_status_cases:
  assumes "repacked_bs_sn bsn = Inr bsn"
    "construct (BaseStationKeypadExtendedStatus c s seq bsn flags arm ess tleft) = Inr v"
  shows "try_each (map BaseStationKeypadExtendedStatus_leaf_factory extended_status_classes)
           (s, seq, bsn, extended_status_msg_type c, extended_status_event_type c,
            flags, arm, ess, tleft) NotImplementedError = Inr v"
  using assms
  by (cases c) (simp_all add: extended_status_classes_def
      BaseStationKeypadExtendedStatus_leaf_factory_def bind_def type_values)

lemma round_trip_BaseStationKeypadExtendedStatus:
  assumes "well_formed (BaseStationKeypadExtendedStatus c s seq bsn flags arm ess tleft)"
  shows "\<exists>b. to_bytes (BaseStationKeypadExtendedStatus c s seq bsn flags arm ess tleft) = Inr b
           \<and> Message_factory b = Inr (BaseStationKeypadExtendedStatus c s seq bsn flags arm ess tleft)"
proof -
  let ?v = "BaseStationKeypadExtendedStatus c s seq bsn flags arm ess tleft"
  let ?mt = "extended_status_msg_type c"
  let ?ev = "extended_status_event_type c"
  from assms have s: "device_serial s" and q: "four_bits seq" and bs: "base_station_serial bsn"
    and fl: "four_bits flags" and ar: "0 \<le> arm" "arm \<le> 4" and es: "ess = 0xF0 \<or> ess = 0xF1"
    and tl: "0 \<le> tleft" "tleft < 4096" by simp_all
  obtain fb where fb: "status_footer_body bsn = Inr fb" "length fb = 5" "unpack_HEX_5B6C fb = Inr bsn"
    using base_station_serial_round_trip[OF bs] by blast
  define x0 x2 x3 where x: "x0 = push_bit 4 flags OR arm" "x2 = drop_bit 4 tleft"
    "x3 = push_bit 4 (tleft AND 0xF) OR 0xC"
  have x0: "0 \<le> x0" "x0 < 256" "drop_bit 4 x0 = flags" "x0 AND 0xF = arm"
    unfolding x using nibble_or[OF fl, of arm] ar by simp_all
  have x2: "0 \<le> x2" "x2 < 256"
    unfolding x using tl by (simp_all add: drop_bit_eq_div)
  have x3: "0 \<le> x3" "x3 < 256" "drop_bit 4 x3 = tleft AND 0xF"
    unfolding x using nibble_or[OF low_nibble[of tleft], of "0xC"] by simp_all
  have j: "push_bit 4 x2 OR (tleft AND 0xF) = tleft"
    unfolding x by (rule nibbles_join)
  have en: "ArmedStatusType arm = Inr arm" "EntrySensorStatusType ess = Inr ess"
    "0 \<le> ess" "ess < 256"
    using ar es by (auto simp: ArmedStatusType_def EntrySensorStatusType_def enum_def)
  let ?body = "[word_of_int x0, word_of_int ess, word_of_int x2, word_of_int x3] :: byte list"
  have pb: "extended_status_payload_body flags arm ess tleft = Inr ?body"
    unfolding extended_status_payload_body_def x[symmetric]
    using x0(1,2) x2 x3(1,2) en(3,4)
    by (simp add: bytes_of_def bind_def)
  note t = extended_status_types[of c]
  have pl: "payload ?v = base_station_payload ?mt (Inr ?body) ?ev" by (simp add: pb)
  have ft: "footer ?v = base_station_footer (Inr fb) seq STATUS" by (simp add: fb)
  have k: "construct ?v = Inr ?v"
    by (rule construct_base_station[OF _ _ q t(1,2) type_constants(3) pl ft]) (use s in simp_all)
  note l = extended_status_cases[OF repacked_bs_sn_eq[OF bs] k]
  have f: "BaseStationKeypadExtendedStatusMessage_factory
             (0x66, s, seq, ?mt, STATUS, ?ev, ?body, fb) = Inr ?v"
    using x0 x2 x3 en j l fb(3)
    by (simp add: BaseStationKeypadExtendedStatusMessage_factory_def index_def bind_def
        uint_byte Let_def del: try_each.simps)
  show ?thesis
    by (rule round_trip_base_station[OF _ q t(1,2) type_constants(3) fb(2) pl ft])
       (use s f in \<open>simp_all add: PAYLOAD_LENGTHS_def BaseStationKeypadMessage_subclasses_def\<close>)
qed

lemma ArmedStatusType_rejects:
  assumes "\<not> x \<le> 4"
  shows "ArmedStatusType x = Inl ValueError"
  using assms by (auto simp: ArmedStatusType_def enum_def)

lemma EntrySensorStatusType_rejects:
  assumes "b \<noteq> 0xF0" "b \<noteq> 0xF1"
  shows "EntrySensorStatusType (uint (b :: byte)) = Inl ValueError"
proof -
  have "uint b \<noteq> 0xF0" using assms(1) by (metis word_of_int_uint word_of_int_numeral)
  moreover have "uint b \<noteq> 0xF1" using assms(2) by (metis word_of_int_uint word_of_int_numeral)
  ultimately show ?thesis by (simp add: EntrySensorStatusType_def enum_def)
qed

lemma extended_status_rejects:
  assumes "length body = 4" "unpack_HEX_5B6C fb = Inr bsn"
    and "\<not> (uint (body ! 0) AND 0xF \<le> 4 \<and> (body ! 1 = 0xF0 \<or> body ! 1 = 0xF1))"
  shows "\<exists>e. BaseStationKeypadExtendedStatusMessage_factory
                (0x66, s, seq, mt, STATUS, ev, body, fb) = Inl e \<and> is_ValueError e"
proof -
  have i: "index body 0 = Inr (body ! 0)" "index body 1 = Inr (body ! 1)"
    using assms(1) by (simp_all add: index_def)
  show ?thesis
  proof (cases "uint (body ! 0) AND 0xF \<le> 4")
    case False
    from ArmedStatusType_rejects[OF this] show ?thesis
      using assms(2) i
      by (simp add: BaseStationKeypadExtendedStatusMessage_factory_def bind_def Let_def)
  next
    case True
    with assms(3) have "body ! 1 \<noteq> 0xF0" "body ! 1 \<noteq> 0xF1" by simp_all
    from EntrySensorStatusType_rejects[OF this] show ?thesis
      using assms(2) i
      by (cases "ArmedStatusType (uint (body ! 0) AND 0xF)")
         (auto simp: BaseStationKeypadExtendedStatusMessage_factory_def bind_def Let_def
            ArmedStatusType_def enum_def split: if_splits)
  qed
qed

lemma round_trip_BaseStationKeypadSensorErrorUpdate:
  assumes "well_formed (BaseStationKeypadSensorErrorUpdate s seq bsn n c_sn)"
    and "\<not> shadowed (BaseStationKeypadSensorErrorUpdate s seq bsn n c_sn)"
  shows "\<exists>b. to_bytes (BaseStationKeypadSensorErrorUpdate s seq bsn n c_sn) = Inr b
           \<and> Message_factory b = Inr (BaseStationKeypadSensorErrorUpdate s seq bsn n c_sn)"
proof -
  let ?v = "BaseStationKeypadSensorErrorUpdate s seq bsn n c_sn"
  from assms have s: "device_serial s" and q: "four_bits seq" and bs: "base_station_serial bsn"
    and n: "0 \<le> n" "n \<le> 3" and cs: "component_serial c_sn"
    and nx: "\<not> read_as_extended_status c_sn" by simp_all
  obtain fb where fb: "status_footer_body bsn = Inr fb" "length fb = 5" "unpack_HEX_5B6C fb = Inr bsn"
    using base_station_serial_round_trip[OF bs] by blast
  obtain body where pb: "pack ASCII_4B5C c_sn False False = Inr body" and len: "length body = 4"
    and u: "unpack_ASCII_4B5C body = Inr (c_sn, False, False)"
    using component_serial_round_trip[OF cs, of False False] by blast
  from nx have nb: "\<not> (uint (body ! 0) AND 0xF \<le> 4 \<and> (body ! 1 = 0xF0 \<or> body ! 1 = 0xF1))"
    by (simp add: read_as_extended_status_def pb)
  from n have "n = 0 \<or> n = 1 \<or> n = 2 \<or> n = 3" by arith
  then obtain ev where ev: "sensor_error_event_type n = Inr ev" "EventType ev = Inr ev"
    and evn: "(if ev = 0x32 then Inr 0 else if ev = 0x35 then Inr 1
                else if ev = 0x36 then Inr 2 else if ev = 0x37 then Inr 3
                else Inl InvalidMessageBytesError) = (Inr n :: error + int)"
    by (auto simp: sensor_error_event_type_def EventType_def enum_def)
  have pl: "payload ?v = base_station_payload UPDATE (Inr body) ev" by (simp add: ev(1) pb bind_def)
  have ft: "footer ?v = base_station_footer (Inr fb) seq STATUS" by (simp add: fb)
  have k: "construct ?v = Inr ?v"
    by (rule construct_base_station[OF _ _ q ev(2) type_constants(2,3) pl ft])
       (use s ev(1) in \<open>simp_all add: bind_def\<close>)
  obtain e1 where x: "BaseStationKeypadExtendedStatusMessage_factory
                        (0x66, s, seq, UPDATE, STATUS, ev, body, fb) = Inl e1" "is_ValueError e1"
    using extended_status_rejects[OF len fb(3) nb] by blast
  have f: "BaseStationKeypadSensorErrorUpdate_factory
             (0x66, s, seq, UPDATE, STATUS, ev, body, fb) = Inr ?v"
    unfolding BaseStationKeypadSensorErrorUpdate_factory_def prod.case evn
    using k by (simp add: bind_def u fb(3))
  show ?thesis
    by (rule round_trip_base_station[OF _ q ev(2) type_constants(2,3) fb(2) pl ft])
       (use s f x len in \<open>simp_all add: PAYLOAD_LENGTHS_def BaseStationKeypadMessage_subclasses_def
          BaseStationKeypadStatusUpdate_factory_def
          BaseStationKeypadDisarmPinResponse_factory_def
          BaseStationKeypadMenuPinResponse_factory_def
          BaseStationKeypadConstantStatus_factory_def
          BaseStationKeypadConstantMenu_factory_def
          AbstractBaseStationKeypadAddComponentSerialMenuResponse_factory_def
          AbstractBaseStationKeypadSimpleStatusMessage_factory_def
          AbstractBaseStationKeypadSimpleMenuMessage_factory_def
          AbstractBaseStationKeypadRemoveComponentScrollMenuResponse_factory_def
          BaseStationKeypadEntrySensorUpdate_factory_def type_values\<close>)
qed

subsection \<open>Every well-formed leaf message that is not shadowed\<close>

lemma check_arguments_well_formed: "well_formed v \<Longrightarrow> check_arguments v = Inr ()"
proof (cases v)
  case (KeypadPrefixRequest s seq pfx)
  assume "well_formed v"
  then show ?thesis using KeypadPrefixRequest by (cases pfx) simp_all
next
  case (BaseStationKeypadSensorErrorUpdate s seq bsn n c_sn)
  assume "well_formed v"
  with BaseStationKeypadSensorErrorUpdate have "n = 0 \<or> n = 1 \<or> n = 2 \<or> n = 3" by simp arith
  then show ?thesis
    by (auto simp: BaseStationKeypadSensorErrorUpdate sensor_error_event_type_def bind_def)
next
  case (SensorMessage c s seq ev)
  assume "well_formed v"
  then show ?thesis using SensorMessage by (cases c) (simp_all add: bind_def)
qed simp_all

lemma to_bytes_construct:
  assumes "to_bytes v = Inr b" "check_arguments v = Inr ()"
  shows "construct v = Inr v"
  using assms
  by (auto simp: to_bytes_def construct_def bind_Inr_iff encode_ascii_def pack_header_def
      split: if_splits)

lemma well_formed_round_trip:
  assumes "well_formed v" "\<not> shadowed v"
  shows "\<exists>b. to_bytes v = Inr b \<and> Message_factory b = Inr v"
proof (cases v)
  case (Message p s pl ft)
  with assms show ?thesis by simp
next
  case (KeypadPrefixRequest s seq pfx)
  with assms show ?thesis by simp
next
  case (KeypadModifyComponentMenuRequest c s seq c_sn)
  with assms show ?thesis
    using round_trip_KeypadModifyComponentMenuRequest[of c s seq c_sn] by blast
next
  case (BaseStationKeypadAddComponentSerialMenuResponse c s seq rt)
  with assms show ?thesis
    using round_trip_BaseStationKeypadAddComponentSerialMenuResponse[of c s seq rt] by blast
next
  case (BaseStationKeypadSensorErrorUpdate s seq bsn n c_sn)
  with assms show ?thesis
    using round_trip_BaseStationKeypadSensorErrorUpdate[of s seq bsn n c_sn] by blast
qed (use assms in
     \<open>simp_all only: round_trip_KeypadRemoveComponentScrollMenuRequest round_trip_KeypadPinRequest
        round_trip_KeypadSimpleRequest
        round_trip_KeypadAddComponentTypeMenuRequest round_trip_BaseStationKeypadExtendedStatus
        round_trip_BaseStationKeypadStatusUpdate round_trip_BaseStationKeypadDisarmPinResponse
        round_trip_BaseStationKeypadMenuPinResponse round_trip_BaseStationKeypadConstantStatus
        round_trip_BaseStationKeypadConstantMenu
        round_trip_BaseStationKeypadSimpleStatus round_trip_BaseStationKeypadSimpleMenu
        round_trip_BaseStationKeypadRemoveComponentScrollMenuResponse
        round_trip_BaseStationKeypadEntrySensorUpdate
        round_trip_SensorMessage\<close>)

text \<open>
  The round trip of the messages that are not shadowed: such a message is constructible,
  its encoding succeeds, \<open>Message.factory\<close> gives it back from its bytes, and these bytes
  are reproduced.
\<close>

lemma unshadowed_round_trip:
  assumes "well_formed v" "\<not> shadowed v"
  shows "construct v = Inr v
     \<and> (\<exists>b. to_bytes v = Inr b \<and> Message_factory b = Inr v
            \<and> bind (Message_factory b) to_bytes = Inr b)"
proof -
  from well_formed_round_trip[OF assms] obtain b where
    b: "to_bytes v = Inr b" "Message_factory b = Inr v" by blast
  have "construct v = Inr v"
    using to_bytes_construct[OF b(1) check_arguments_well_formed[OF assms(1)]] .
  moreover have "bind (Message_factory b) to_bytes = Inr b" by (simp add: b bind_def)
  ultimately show ?thesis using b by blast
qed

subsection \<open>The shadowed messages\<close>

lemma keypad_frame_not_implemented:
  assumes "four_bits seq" "EventType ev = Inr ev"
    and "try_each
           [KeypadRemoveComponentScrollMenuRequest_factory, KeypadPinMessage_factory,
            AbstractKeypadSimpleRequest_factory, KeypadPrefixRequest_factory,
            AbstractKeypadModifyComponentMenuRequest_factory,
            KeypadAddComponentTypeMenuRequest_factory]
           (p, s, seq, ev, body) NotImplementedError = Inl NotImplementedError"
  shows "dispatch (p, s, [0x1, word_of_int (push_bit 4 seq OR 0x4)] @ body @ [word_of_int ev], ft)
           = Inl NotImplementedError"
proof -
  from EventType_range[OF assms(2)] have r: "0 \<le> ev" "ev < 256" by simp_all
  let ?pl = "[0x1, word_of_int (push_bit 4 seq OR 0x4)] @ body @ [word_of_int ev] :: byte list"
  have b: "butlast (drop 2 ?pl) = body" by (simp add: butlast_append)
  have l: "uint (last ?pl) = ev" using r by (simp add: uint_byte)
  have k: "KeypadMessage_factory (p, s, ?pl, ft) = Inl NotImplementedError"
    unfolding KeypadMessage_factory_def
    using assms nibble_or[OF assms(1), of 4] l b
    by (simp add: index_def bind_def OriginType_def enum_def Let_def del: try_each.simps)
  show ?thesis
    by (simp add: dispatch_def ComponentMessage_factory_def k del: append.simps)
qed

text \<open>
  A \<open>KeypadPrefixRequest\<close> without prefix: \<open>KeypadPrefixRequest.factory\<close> refuses its
  frame, no other factory takes it, and \<open>KeypadMessage.factory\<close> raises
  \<open>NotImplementedError\<close>.
\<close>

lemma prefix_request_not_parsed:
  assumes "device_serial s" and "four_bits seq"
  shows "construct (KeypadPrefixRequest s seq None) = Inr (KeypadPrefixRequest s seq None)
         \<and> (\<exists>b. to_bytes (KeypadPrefixRequest s seq None) = Inr b
                \<and> Message_factory b = Inl NotImplementedError)"
proof -
  let ?v = "KeypadPrefixRequest s seq None"
  let ?body = "[0xFF, 0xFF, 0xFF, 0xFF] :: byte list"
  let ?pl = "[0x1, word_of_int (push_bit 4 seq OR 0x4)] @ ?body @ [word_of_int 0x63] :: byte list"
  let ?sb = "map (\<lambda>c. word_of_int (of_char c)) s :: byte list"
  let ?c = "word_of_int (sum_list (map uint ?pl) mod 256) :: byte"
  have e: "EventType 0x63 = Inr 0x63" by (simp add: EventType_def enum_def)
  have pl0: "payload ?v = keypad_payload seq (Inr ?body) 0x63"
    by (simp add: prefix_payload_body_def)
  have pl: "payload ?v = Inr ?pl"
    unfolding pl0 using keypad_payload_eq[OF assms(2), where ev = "0x63" and bd = "?body"] by simp
  have k: "construct ?v = Inr ?v"
    by (rule construct_keypad[OF _ _ assms(2) e pl0]) (use assms(1) in simp_all)
  have t: "try_each
           [KeypadRemoveComponentScrollMenuRequest_factory, KeypadPinMessage_factory,
            AbstractKeypadSimpleRequest_factory, KeypadPrefixRequest_factory,
            AbstractKeypadModifyComponentMenuRequest_factory,
            KeypadAddComponentTypeMenuRequest_factory]
           (0x66, s, seq, 0x63, ?body) NotImplementedError = Inl NotImplementedError"
    by (simp add: KeypadRemoveComponentScrollMenuRequest_factory_def KeypadPinMessage_factory_def
        AbstractKeypadSimpleRequest_factory_def KeypadPrefixRequest_factory_def
        AbstractKeypadModifyComponentMenuRequest_factory_def
        KeypadAddComponentTypeMenuRequest_factory_def payload_body_suffix_def index_def bind_def
        format_X_def format_02X_def hex_digit_def unpack_ASCII_4B5C_def Let_def
        modify_classes_def)
  have d: "dispatch (0x66, s, ?pl, []) = Inl NotImplementedError"
    using keypad_frame_not_implemented[OF assms(2) e t] .
  have l: "length ?sb = 5" using assms(1) by (simp add: device_serial_def)
  have p: "PAYLOAD_LENGTHS 0x66 = Some (length ?pl)" by (simp add: PAYLOAD_LENGTHS_def)
  have m: "Message_factory ([0xCC, 0x05, word_of_int 0x66] @ ?sb @ ?pl @ [?c] @ [])
             = Inl NotImplementedError"
    unfolding factory_frame[OF l decode_encode_ascii[OF assms(1)] p] d
    by (simp add: bind_def)
  have b: "to_bytes ?v = Inr ([0xCC, 0x05, word_of_int 0x66] @ ?sb @ ?pl @ [?c] @ [])"
    using to_bytes_eq[of ?v ?pl "[]"] assms(1) pl by simp
  from k b m show ?thesis by blast
qed

text \<open>
  The request and the response for adding a smoke detector encode as those for the
  glassbreak sensor and come back as such; a sensor error that reads as an extended status
  is taken by the factory of the extended status, whose subclasses all refuse it.
\<close>

lemma to_bytes_smoke_request:
  "to_bytes (KeypadModifyComponentMenuRequest KeypadAddSmokeDetectorMenuRequest s seq c_sn)
   = to_bytes (KeypadModifyComponentMenuRequest KeypadAddGlassbreakSensorMenuRequest s seq c_sn)"
  by (simp add: to_bytes_def checksum_def)

lemma to_bytes_smoke_response:
  "to_bytes (BaseStationKeypadAddComponentSerialMenuResponse
               BaseStationKeypadAddSmokeDetectorMenuResponse s seq rt)
   = to_bytes (BaseStationKeypadAddComponentSerialMenuResponse
                 BaseStationKeypadAddGlassbreakSensorMenuResponse s seq rt)"
  by (simp add: to_bytes_def checksum_def)

lemma smoke_request_parsed_as_glassbreak:
  assumes "well_formed (KeypadModifyComponentMenuRequest KeypadAddSmokeDetectorMenuRequest s seq c_sn)"
  shows "\<exists>b. to_bytes (KeypadModifyComponentMenuRequest KeypadAddSmokeDetectorMenuRequest s seq c_sn)
              = Inr b
            \<and> Message_factory b
              = Inr (KeypadModifyComponentMenuRequest KeypadAddGlassbreakSensorMenuRequest s seq c_sn)"
  unfolding to_bytes_smoke_request
  using assms by (intro round_trip_KeypadModifyComponentMenuRequest) simp_all

lemma smoke_response_parsed_as_glassbreak:
  assumes "well_formed (BaseStationKeypadAddComponentSerialMenuResponse
                          BaseStationKeypadAddSmokeDetectorMenuResponse s seq rt)"
  shows "\<exists>b. to_bytes (BaseStationKeypadAddComponentSerialMenuResponse
                         BaseStationKeypadAddSmokeDetectorMenuResponse s seq rt) = Inr b
            \<and> Message_factory b
              = Inr (BaseStationKeypadAddComponentSerialMenuResponse
                       BaseStationKeypadAddGlassbreakSensorMenuResponse s seq rt)"
  unfolding to_bytes_smoke_response
  using assms by (intro round_trip_BaseStationKeypadAddComponentSerialMenuResponse) simp_all

lemma base_station_frame_not_implemented:
  assumes "four_bits seq" "EventType ev = Inr ev" "MessageType mt = Inr mt" "InfoType it = Inr it"
    and "length fb = 5" "p \<noteq> 0x11"
    and "try_each BaseStationKeypadMessage_subclasses (p, s, seq, mt, it, ev, body, fb)
           NotImplementedError = Inl NotImplementedError"
  shows "dispatch (p, s, [0x0, word_of_int mt] @ body @ [word_of_int ev],
                   fb @ [word_of_int (push_bit 4 seq OR it)]) = Inl NotImplementedError"
proof -
  from EventType_range[OF assms(2)] have r: "0 \<le> ev" "ev < 256" by simp_all
  from MessageType_range[OF assms(3)] have rm: "0 \<le> mt" "mt < 256" by simp_all
  from InfoType_range[OF assms(4)] have ri: "0 \<le> it" "it < 16" by simp_all
  let ?pl = "[0x0, word_of_int mt] @ body @ [word_of_int ev] :: byte list"
  let ?ft = "fb @ [word_of_int (push_bit 4 seq OR it)] :: byte list"
  have b: "butlast (drop 2 ?pl) = body" by (simp add: butlast_append)
  have l: "uint (last ?pl) = ev" using r by (simp add: uint_byte)
  have f5: "index ?ft 5 = Inr (word_of_int (push_bit 4 seq OR it))"
    using assms(5) by (simp add: index_def nth_append)
  have bf: "butlast ?ft = fb" by simp
  have k: "KeypadMessage_factory (p, s, ?pl, ?ft) = Inl InvalidMessageBytesError"
    by (simp add: KeypadMessage_factory_def index_def bind_def OriginType_def enum_def)
  have sm: "SensorMessage_factory (p, s, ?pl, ?ft) = Inl InvalidMessageBytesError"
    using assms(6) by (simp add: SensorMessage_factory_def)
  have c: "ComponentMessage_factory (p, s, ?pl, ?ft) = Inl ValueError"
    by (simp add: ComponentMessage_factory_def k sm del: append.simps)
  have i1: "index ?pl 0 = Inr 0" "index ?pl 1 = Inr (word_of_int mt)" by (simp_all add: index_def)
  have bs: "BaseStationKeypadMessage_factory (p, s, ?pl, ?ft) = Inl NotImplementedError"
    unfolding BaseStationKeypadMessage_factory_def
    using assms(1-4,7) nibble_or[OF assms(1) ri] rm
    by (simp only: prod.case i1 bind_def sum.case uint_byte l b f5 bf Let_def)
       (simp add: OriginType_def enum_def)
  show ?thesis
    by (simp add: dispatch_def c bs del: append.simps)
qed

lemma ArmedStatusType_accepts:
  "(x :: int) AND 0xF \<le> 4 \<Longrightarrow> ArmedStatusType (x AND 0xF) = Inr (x AND 0xF)"
proof -
  assume a: "x AND 0xF \<le> 4"
  have "x AND 0xF = x mod 16"
    by (simp add: mask_0F take_bit_eq_mod flip: take_bit_eq_mask)
  then have "0 \<le> x AND 0xF" by simp
  define y where "y = x AND 0xF"
  from a \<open>0 \<le> x AND 0xF\<close> have "0 \<le> y" "y \<le> 4" by (simp_all add: y_def)
  then have "y = 0 \<or> y = 1 \<or> y = 2 \<or> y = 3 \<or> y = 4" by arith
  then have "ArmedStatusType y = Inr y" by (auto simp: ArmedStatusType_def enum_def)
  then show ?thesis by (simp add: y_def)
qed

lemma extended_status_leaf_rejects:
  assumes "ev = 0x32 \<or> ev = 0x35 \<or> ev = 0x36 \<or> ev = 0x37"
  shows "try_each (map BaseStationKeypadExtendedStatus_leaf_factory extended_status_classes)
           (s, seq, bsn, mt, ev, flags, arm, ess, tleft) NotImplementedError
         = Inl NotImplementedError"
  using assms
  by (auto simp: extended_status_classes_def BaseStationKeypadExtendedStatus_leaf_factory_def)

lemma extended_status_takes:
  assumes "length body = 4" "unpack_HEX_5B6C fb = Inr bsn"
    and "uint (body ! 0) AND 0xF \<le> 4" "body ! 1 = 0xF0 \<or> body ! 1 = 0xF1"
    and "ev = 0x32 \<or> ev = 0x35 \<or> ev = 0x36 \<or> ev = 0x37"
  shows "BaseStationKeypadExtendedStatusMessage_factory
           (0x66, s, seq, mt, STATUS, ev, body, fb) = Inl NotImplementedError"
proof -
  have i: "index body 0 = Inr (body ! 0)" "index body 1 = Inr (body ! 1)"
    "index body 2 = Inr (body ! 2)" "index body 3 = Inr (body ! 3)"
    using assms(1) by (simp_all add: index_def)
  have e: "EntrySensorStatusType (uint (body ! 1)) = Inr (uint (body ! 1))"
    using assms(4) by (auto simp: EntrySensorStatusType_def enum_def)
  show ?thesis
    unfolding BaseStationKeypadExtendedStatusMessage_factory_def prod.case
    using assms(2)
    by (simp only: i bind_def sum.case Let_def ArmedStatusType_accepts[OF assms(3)] e
        extended_status_leaf_rejects[OF assms(5)]) simp
qed

lemma sensor_error_not_parsed:
  assumes "well_formed (BaseStationKeypadSensorErrorUpdate s seq bsn n c_sn)"
    and "read_as_extended_status c_sn"
  shows "\<exists>b. to_bytes (BaseStationKeypadSensorErrorUpdate s seq bsn n c_sn) = Inr b
           \<and> Message_factory b = Inl NotImplementedError"
proof -
  let ?v = "BaseStationKeypadSensorErrorUpdate s seq bsn n c_sn"
  from assms have s: "device_serial s" and q: "four_bits seq" and bs: "base_station_serial bsn"
    and n: "0 \<le> n" "n \<le> 3" and cs: "component_serial c_sn" by simp_all
  obtain fb where fb: "status_footer_body bsn = Inr fb" "length fb = 5" "unpack_HEX_5B6C fb = Inr bsn"
    using base_station_serial_round_trip[OF bs] by blast
  obtain body where pb: "pack ASCII_4B5C c_sn False False = Inr body" and len: "length body = 4"
    using component_serial_round_trip[OF cs, of False False] by blast
  from assms(2) have nb: "uint (body ! 0) AND 0xF \<le> 4" "body ! 1 = 0xF0 \<or> body ! 1 = 0xF1"
    by (simp_all add: read_as_extended_status_def pb)
  from n have "n = 0 \<or> n = 1 \<or> n = 2 \<or> n = 3" by arith
  then obtain ev where ev: "sensor_error_event_type n = Inr ev" "EventType ev = Inr ev"
    and evs: "ev = 0x32 \<or> ev = 0x35 \<or> ev = 0x36 \<or> ev = 0x37"
    by (auto simp: sensor_error_event_type_def EventType_def enum_def)
  let ?pl = "[0x0, word_of_int UPDATE] @ body @ [word_of_int ev] :: byte list"
  let ?ft = "fb @ [word_of_int (push_bit 4 seq OR STATUS)] :: byte list"
  have pl: "payload ?v = Inr ?pl"
    using base_station_payload_eq[OF type_constants(2) ev(2), of body]
    by (simp add: ev(1) pb bind_def)
  have ft: "footer ?v = Inr ?ft"
    using base_station_footer_eq[OF q type_constants(3), of fb] by (simp add: fb)
  have x: "BaseStationKeypadExtendedStatusMessage_factory
             (0x66, s, seq, UPDATE, STATUS, ev, body, fb) = Inl NotImplementedError"
    by (rule extended_status_takes[OF len fb(3) nb evs])
  have t: "try_each BaseStationKeypadMessage_subclasses (0x66, s, seq, UPDATE, STATUS, ev, body, fb)
             NotImplementedError = Inl NotImplementedError"
    by (simp add: BaseStationKeypadMessage_subclasses_def x)
  have d: "dispatch (0x66, s, ?pl, ?ft) = Inl NotImplementedError"
    by (rule base_station_frame_not_implemented[OF q ev(2) type_constants(2,3) fb(2) _ t]) simp
  let ?sb = "map (\<lambda>c. word_of_int (of_char c)) s :: byte list"
  let ?c = "word_of_int (sum_list (map uint ?pl) mod 256) :: byte"
  have l: "length ?sb = 5" using s by (simp add: device_serial_def)
  have p: "PAYLOAD_LENGTHS 0x66 = Some (length ?pl)" using len by (simp add: PAYLOAD_LENGTHS_def)
  have m: "Message_factory ([0xCC, 0x05, word_of_int 0x66] @ ?sb @ ?pl @ [?c] @ ?ft)
             = Inl NotImplementedError"
    unfolding factory_frame[OF l decode_encode_ascii[OF s] p] d
    by (simp add: bind_def)
  have b: "to_bytes ?v = Inr ([0xCC, 0x05, word_of_int 0x66] @ ?sb @ ?pl @ [?c] @ ?ft)"
    using to_bytes_eq[of ?v ?pl ?ft] s pl ft by simp
  from b m show ?thesis by blast
qed

lemma prefix_with_digit_not_constructible:
  "\<exists>e. construct (KeypadPrefixRequest s seq (Some p)) = Inl e"
  by (simp add: construct_def bind_def prefix_payload_body_def keypad_payload_def bytes_of_def)

lemma shadowed_no_round_trip:
  assumes "well_formed v" "shadowed v"
  shows "\<not> (\<exists>b. to_bytes v = Inr b \<and> Message_factory b = Inr v)"
proof (cases v)
  case (KeypadPrefixRequest s seq pfx)
  show ?thesis
  proof (cases pfx)
    case None
    with assms(1) KeypadPrefixRequest have "device_serial s" "four_bits seq" by simp_all
    from prefix_request_not_parsed[OF this] show ?thesis
      unfolding KeypadPrefixRequest None by auto
  next
    case (Some p)
    have "\<exists>e. to_bytes v = Inl e"
      unfolding KeypadPrefixRequest Some
      by (auto simp: to_bytes_def bind_def prefix_payload_body_def keypad_payload_def bytes_of_def
          split: sum.splits)
    then show ?thesis by auto
  qed
next
  case (KeypadModifyComponentMenuRequest c s seq c_sn)
  with assms(2) have c: "c = KeypadAddSmokeDetectorMenuRequest" by simp
  from smoke_request_parsed_as_glassbreak[of s seq c_sn] assms(1) show ?thesis
    unfolding KeypadModifyComponentMenuRequest c by auto
next
  case (BaseStationKeypadAddComponentSerialMenuResponse c s seq rt)
  with assms(2) have c: "c = BaseStationKeypadAddSmokeDetectorMenuResponse" by simp
  from smoke_response_parsed_as_glassbreak[of s seq rt] assms(1) show ?thesis
    unfolding BaseStationKeypadAddComponentSerialMenuResponse c by auto
next
  case (BaseStationKeypadSensorErrorUpdate s seq bsn n c_sn)
  with assms(2) have r: "read_as_extended_status c_sn" by simp
  from sensor_error_not_parsed[OF _ r, of s seq bsn n] assms(1) show ?thesis
    unfolding BaseStationKeypadSensorErrorUpdate by auto
qed (use assms(2) in simp_all)

text \<open>
  So among the well-formed leaf messages, those that \<open>Message.factory\<close> gives back from
  their bytes are those that are not shadowed.
\<close>

lemma round_trip_iff_not_shadowed:
  assumes "well_formed v"
  shows "(\<exists>b. to_bytes v = Inr b \<and> Message_factory b = Inr v) \<longleftrightarrow> \<not> shadowed v"
  using well_formed_round_trip[OF assms] shadowed_no_round_trip[OF assms] by blast

text \<open>
  Claim C1 fails on the code: a \<open>KeypadPrefixRequest\<close> without prefix, for every serial
  number of five ASCII characters and every sequence number of four bits, is constructible
  and its encoding succeeds, but \<open>Message.factory\<close> raises \<open>NotImplementedError\<close> on
  its bytes, where the claim has a message equal to it. \<open>KeypadPrefixRequest.factory\<close>
  compares \<open>"{:02X}".format(msg.payload_body[1])\<close>, a string of two characters, with
  \<open>"FFCFFF"\<close>, so it takes no frame, and no other factory takes this one.
\<close>

theorem C1_prefix_request_not_parsed:
  assumes "device_serial s" and "four_bits seq"
  shows "construct (KeypadPrefixRequest s seq None) = Inr (KeypadPrefixRequest s seq None)
         \<and> (\<exists>b. to_bytes (KeypadPrefixRequest s seq None) = Inr b
                \<and> Message_factory b = Inl NotImplementedError)"
  using assms by (rule prefix_request_not_parsed)

text \<open>The request of the keypad \<open>167JC\<close> with sequence number 0.\<close>

theorem C1_witness:
  "device_serial ''167JC'' \<and> four_bits 0
   \<and> construct (KeypadPrefixRequest ''167JC'' 0 None) = Inr (KeypadPrefixRequest ''167JC'' 0 None)
   \<and> (\<exists>b. to_bytes (KeypadPrefixRequest ''167JC'' 0 None) = Inr b
          \<and> Message_factory b = Inl NotImplementedError)"
  using C1_prefix_request_not_parsed[of "''167JC''" 0]
  by (simp add: device_serial_def four_bits_def)

text \<open>
  The same request as bytes, and the other shadowed messages: with a prefix the request is
  not constructible, since \<open>payload_body\<close> reads a name that is not in scope; the request
  and the response for adding a smoke detector come back as those for the glassbreak
  sensor; the sensor error of the sensor \<open>1A0O5\<close> is refused with \<open>NotImplementedError\<close>.
\<close>

lemma shadowed_examples:
  "to_bytes (KeypadPrefixRequest ''167JC'' 0 None)
     = Inr [0xCC, 0x05, 0x66, 0x31, 0x36, 0x37, 0x4A, 0x43,
            0x01, 0x04, 0xFF, 0xFF, 0xFF, 0xFF, 0x63, 0x64]"
  "Message_factory [0xCC, 0x05, 0x66, 0x31, 0x36, 0x37, 0x4A, 0x43,
                    0x01, 0x04, 0xFF, 0xFF, 0xFF, 0xFF, 0x63, 0x64] = Inl NotImplementedError"
  "construct (KeypadPrefixRequest ''167JC'' 0 (Some 5)) = Inl NameError"
  "bind (to_bytes (KeypadModifyComponentMenuRequest KeypadAddSmokeDetectorMenuRequest
                     ''167JC'' 0 ''1R9CL'')) Message_factory
     = Inr (KeypadModifyComponentMenuRequest KeypadAddGlassbreakSensorMenuRequest
              ''167JC'' 0 ''1R9CL'')"
  "bind (to_bytes (BaseStationKeypadAddComponentSerialMenuResponse
                     BaseStationKeypadAddSmokeDetectorMenuResponse ''167JC'' 0 1))
        Message_factory
     = Inr (BaseStationKeypadAddComponentSerialMenuResponse
              BaseStationKeypadAddGlassbreakSensorMenuResponse ''167JC'' 0 1)"
  "read_as_extended_status ''1A0O5''"
  "construct (BaseStationKeypadSensorErrorUpdate ''167JC'' 0 ''123456'' 0 ''1A0O5'')
     = Inr (BaseStationKeypadSensorErrorUpdate ''167JC'' 0 ''123456'' 0 ''1A0O5'')"
  "bind (to_bytes (BaseStationKeypadSensorErrorUpdate ''167JC'' 0 ''123456'' 0 ''1A0O5''))
        Message_factory = Inl NotImplementedError"
  by code_simp+

text \<open>
  The other half of the claim covers every frame that \<open>Message.factory\<close> accepts. The
  frame of a home request followed by one more byte has a valid vendor code, payload
  length code, serial number and checksum and is accepted as a \<open>KeypadHomeRequest\<close>, whose
  encoding is the frame of twelve bytes without the byte that was added.
\<close>

lemma accepted_frame_not_reproduced:
  "Message_factory home_frame_longer = Inr (KeypadSimpleRequest KeypadHomeRequest ''167JC'' 0)
   \<and> bind (Message_factory home_frame_longer) to_bytes = Inr home_frame
   \<and> length home_frame = 12 \<and> length home_frame_longer = 13"
  by code_simp

end
